theory Spec2Isabelle
  imports Complex_Main "HOL-Library.Sublist"
begin

text \<open>
  The chat route of the Shopify sample app and the services it drives: the
  completion adapter (\<open>streamConversation\<close>), the handlers of the conversation
  loop (\<open>handleChatSession\<close>), the history truncation
  (\<open>getTruncatedHistory\<close>) and the tool service's product extraction
  (\<open>processProductSearchResult\<close>), as functions over JSON values, an explicit
  session state and explicit exceptions; then the properties of the event stream,
  the working history and the truncated history.
\<close>

section \<open>JavaScript values as the chat route handles them\<close>

text \<open>
  A JavaScript number is an IEEE double. The code below only tests numbers for
  truthiness and compares one with zero, so a number is kept exactly: a finite
  double is a rational, and the non-finite ones are constructors of their own.
\<close>

datatype js_number = Finite rat | NegZero | PosInf | NegInf | NaN

datatype json =
    JNull
  | JBool bool
  | JNum js_number
  | JStr string
  | JArr "json list"
  | JObj "(string \<times> json) list"

text \<open>What a JavaScript statement can throw here.\<close>

datatype exn = TypeError | SyntaxError | ServiceError string

text \<open>
  The runtime's own functions, which are no code of the repository, are parameters:
  \<open>JSON.parse\<close> (\<open>None\<close> when it throws a SyntaxError), \<open>JSON.stringify\<close> on
  a defined value, the conversion of a value to text that a template literal and
  \<open>Array.prototype.join\<close> apply (\<open>None\<close> is \<open>undefined\<close>), and the conversion
  to a number that a comparison with \<open>0\<close> applies.
\<close>

record builtins =
  JSON_parse :: "string \<Rightarrow> json option"
  JSON_stringify :: "json \<Rightarrow> string"
  ToString :: "json option \<Rightarrow> string"
  ToNumber :: "json option \<Rightarrow> js_number"

fun num_truthy :: "js_number \<Rightarrow> bool" where
  "num_truthy (Finite r) = (r \<noteq> 0)"
| "num_truthy NegZero = False"
| "num_truthy PosInf = True"
| "num_truthy NegInf = True"
| "num_truthy NaN = False"

text \<open>Truthiness of a possibly undefined value (\<open>None\<close> is \<open>undefined\<close>).\<close>

fun truthy :: "json option \<Rightarrow> bool" where
  "truthy None = False"
| "truthy (Some JNull) = False"
| "truthy (Some (JBool b)) = b"
| "truthy (Some (JNum n)) = num_truthy n"
| "truthy (Some (JStr s)) = (s \<noteq> [])"
| "truthy (Some (JArr xs)) = True"
| "truthy (Some (JObj kvs)) = True"

fun num_gt_zero :: "js_number \<Rightarrow> bool" where
  "num_gt_zero (Finite r) = (0 < r)"
| "num_gt_zero PosInf = True"
| "num_gt_zero n = False"

text \<open>
  Reading the property \<open>k\<close> of a value: \<open>null\<close> throws a TypeError, an object
  gives its field or \<open>undefined\<close>, an array and a string have \<open>length\<close>, and
  every other read used here gives \<open>undefined\<close>.
\<close>

fun get_prop :: "json \<Rightarrow> string \<Rightarrow> exn + json option" where
  "get_prop JNull k = Inl TypeError"
| "get_prop (JObj kvs) k = Inr (map_of kvs k)"
| "get_prop (JArr xs) k =
     Inr (if k = ''length'' then Some (JNum (Finite (of_nat (length xs)))) else None)"
| "get_prop (JStr s) k =
     Inr (if k = ''length'' then Some (JNum (Finite (of_nat (length s)))) else None)"
| "get_prop v k = Inr None"

text \<open>The same read of a possibly undefined value: \<open>undefined.k\<close> throws too.\<close>

fun get_prop_opt :: "json option \<Rightarrow> string \<Rightarrow> exn + json option" where
  "get_prop_opt None k = Inl TypeError"
| "get_prop_opt (Some v) k = get_prop v k"

text \<open>
  \<open>xs.every(c => c.type === t)\<close> and \<open>xs.some(c => c.type === t)\<close>: both stop at
  the first element that decides them, and a \<open>null\<close> element reached before that
  throws.
\<close>

fun every_type_is :: "string \<Rightarrow> json list \<Rightarrow> exn + bool" where
  "every_type_is t [] = Inr True"
| "every_type_is t (c # cs) =
     (case get_prop c ''type'' of
        Inl e \<Rightarrow> Inl e
      | Inr v \<Rightarrow> if v = Some (JStr t) then every_type_is t cs else Inr False)"

fun some_type_is :: "string \<Rightarrow> json list \<Rightarrow> exn + bool" where
  "some_type_is t [] = Inr False"
| "some_type_is t (c # cs) =
     (case get_prop c ''type'' of
        Inl e \<Rightarrow> Inl e
      | Inr v \<Rightarrow> if v = Some (JStr t) then Inr True else some_type_is t cs)"

section \<open>History truncation (\<open>getTruncatedHistory\<close>)\<close>

text \<open>A row of the message store: its role and its content, both text.\<close>

record stored_message =
  sm_role :: string
  sm_content :: string

text \<open>An assembled tool call of a completion (\<open>id\<close> is undefined when no fragment gave one).\<close>

record tool_call =
  tc_id :: "string option"
  tc_name :: string
  tc_arguments :: string

text \<open>
  A message of the working history (\<open>role\<close>, \<open>content\<close>, \<open>tool_calls\<close>,
  \<open>tool_call_id\<close>). The content is \<open>None\<close> when it is \<open>undefined\<close>; the
  tool calls are the assembled sparse array of an assistant message (a hole is
  \<open>None\<close>), absent on every other message.
\<close>

record message =
  msg_role :: string
  msg_content :: "string option"
  msg_tool_calls :: "tool_call option list option"
  msg_tool_call_id :: "string option"

definition plain_message :: "string \<Rightarrow> string \<Rightarrow> message" where
  "plain_message r c = \<lparr>msg_role = r, msg_content = Some c, msg_tool_calls = None, msg_tool_call_id = None\<rparr>"

text \<open>
  The filter's callback. The inner \<open>try\<close> covers the parse and both tests: when
  any of them throws, control falls through to the last line.
\<close>

definition tool_calls_only :: "builtins \<Rightarrow> stored_message \<Rightarrow> exn + bool" where
  "tool_calls_only bi msg =
     (case JSON_parse bi (sm_content msg) of
        None \<Rightarrow> Inl SyntaxError
      | Some (JArr cs) \<Rightarrow>
          if sm_role msg = ''assistant'' then every_type_is ''tool_use'' cs else Inr False
      | Some v \<Rightarrow> Inr False)"

definition tool_result_echo :: "builtins \<Rightarrow> stored_message \<Rightarrow> exn + bool" where
  "tool_result_echo bi msg =
     (case JSON_parse bi (sm_content msg) of
        None \<Rightarrow> Inl SyntaxError
      | Some (JArr cs) \<Rightarrow>
          if sm_role msg = ''user'' then some_type_is ''tool_result'' cs else Inr False
      | Some v \<Rightarrow> Inr False)"

definition keepMessage :: "builtins \<Rightarrow> stored_message \<Rightarrow> bool" where
  "keepMessage bi msg =
     (if sm_role msg = ''system'' \<or> sm_role msg = ''tool'' then False
      else
        (case tool_calls_only bi msg of
           Inr True \<Rightarrow> False
         | Inl e \<Rightarrow> sm_role msg = ''user'' \<or> sm_role msg = ''assistant''
         | Inr False \<Rightarrow>
             (case tool_result_echo bi msg of
                Inr True \<Rightarrow> False
              | _ \<Rightarrow> sm_role msg = ''user'' \<or> sm_role msg = ''assistant'')))"

text \<open>\<open>xs.slice(-4)\<close>: the last four elements, all of them when there are fewer.\<close>

definition slice_last4 :: "'a list \<Rightarrow> 'a list" where
  "slice_last4 xs = drop (length xs - 4) xs"

text \<open>The map's callback: parsed text is used as it is, other parsed content is
  stringified again, and content that does not parse is passed through.\<close>

definition formatMessage :: "builtins \<Rightarrow> stored_message \<Rightarrow> message" where
  "formatMessage bi msg =
     (case JSON_parse bi (sm_content msg) of
        None \<Rightarrow> plain_message (sm_role msg) (sm_content msg)
      | Some (JStr s) \<Rightarrow> plain_message (sm_role msg) s
      | Some v \<Rightarrow> plain_message (sm_role msg) (JSON_stringify bi v))"

text \<open>
  What \<open>getConversationHistory\<close> gives: an error (the read rejects, or what it
  returns is no array) or the rows, of which one may be \<open>null\<close> (\<open>None\<close>).
  \<open>allMessages.filter\<close> reads \<open>msg.role\<close> of every row outside the inner
  \<open>try\<close>, so a \<open>null\<close> row throws.
\<close>

fun filter_rows :: "builtins \<Rightarrow> stored_message option list \<Rightarrow> exn + stored_message list" where
  "filter_rows bi [] = Inr []"
| "filter_rows bi (None # rows) = Inl TypeError"
| "filter_rows bi (Some msg # rows) =
     (case filter_rows bi rows of
        Inl e \<Rightarrow> Inl e
      | Inr kept \<Rightarrow> Inr (if keepMessage bi msg then msg # kept else kept))"

text \<open>The body of the outer \<open>try\<close>, and the function with its \<open>catch\<close>.\<close>

definition getTruncatedHistory_try ::
  "builtins \<Rightarrow> exn + stored_message option list \<Rightarrow> exn + message list" where
  "getTruncatedHistory_try bi loaded =
     (case loaded of
        Inl e \<Rightarrow> Inl e
      | Inr rows \<Rightarrow>
          (case filter_rows bi rows of
             Inl e \<Rightarrow> Inl e
           | Inr kept \<Rightarrow> Inr (map (formatMessage bi) (slice_last4 kept))))"

definition getTruncatedHistory ::
  "builtins \<Rightarrow> exn + stored_message option list \<Rightarrow> message list" where
  "getTruncatedHistory bi loaded =
     (case getTruncatedHistory_try bi loaded of Inl e \<Rightarrow> [] | Inr ms \<Rightarrow> ms)"

section \<open>Tool results (\<open>onToolUse\<close>, \<open>handleToolSuccess\<close>, \<open>processProductSearchResult\<close>)\<close>

text \<open>A template literal's \<open>${v}\<close>: a string is itself, anything else is converted.\<close>

definition template :: "builtins \<Rightarrow> json option \<Rightarrow> string" where
  "template bi v = (case v of Some (JStr s) \<Rightarrow> s | _ \<Rightarrow> ToString bi v)"

text \<open>One element of \<open>Array.prototype.join\<close>: \<open>undefined\<close> and \<open>null\<close> are empty.\<close>

definition join_element :: "builtins \<Rightarrow> json option \<Rightarrow> string" where
  "join_element bi v =
     (case v of None \<Rightarrow> [] | Some JNull \<Rightarrow> [] | Some (JStr s) \<Rightarrow> s | _ \<Rightarrow> ToString bi v)"

fun join_with :: "string \<Rightarrow> string list \<Rightarrow> string" where
  "join_with sep [] = []"
| "join_with sep [x] = x"
| "join_with sep (x # y # ys) = x @ sep @ join_with sep (y # ys)"

definition newline :: string where
  "newline = [CHR 0x0A]"

text \<open>\<open>items.filter(item => item.type === 'text')\<close>; a \<open>null\<close> item throws.\<close>

fun filter_text :: "json list \<Rightarrow> exn + json list" where
  "filter_text [] = Inr []"
| "filter_text (item # items) =
     (case get_prop item ''type'' of
        Inl e \<Rightarrow> Inl e
      | Inr t \<Rightarrow>
          (case filter_text items of
             Inl e \<Rightarrow> Inl e
           | Inr rest \<Rightarrow> Inr (if t = Some (JStr ''text'') then item # rest else rest)))"

text \<open>\<open>item.text\<close> of an item the filter kept (never \<open>null\<close> there; \<open>null\<close> reads as undefined).\<close>

definition item_text :: "json \<Rightarrow> json option" where
  "item_text item = (case get_prop item ''text'' of Inl e \<Rightarrow> None | Inr v \<Rightarrow> v)"

text \<open>
  The lines that format a successful tool response, the same in the route's
  \<open>onToolUse\<close> and in the tool service's \<open>handleToolSuccess\<close>. \<open>c\<close> is
  \<open>toolUseResponse.content\<close>; the result is \<open>None\<close> when it is \<open>undefined\<close>
  (\<open>JSON.stringify(undefined)\<close>).
\<close>

definition toolResultContent :: "builtins \<Rightarrow> json option \<Rightarrow> exn + string option" where
  "toolResultContent bi c =
     (case c of
        Some (JArr items) \<Rightarrow>
          (case filter_text items of
             Inl e \<Rightarrow> Inl e
           | Inr texts \<Rightarrow>
               Inr (Some (join_with newline (map (join_element bi \<circ> item_text) texts))))
      | Some (JStr s) \<Rightarrow> Inr (Some s)
      | Some v \<Rightarrow> Inr (Some (JSON_stringify bi v))
      | None \<Rightarrow> Inr None)"

text \<open>
  A product summary. The fields copy what the product carries (any value that is
  truthy) or a default; the id, when the product has none, is \<open>product-\<close> and a
  random suffix, kept here as a constructor of its own.
\<close>

datatype product_id = GivenId json | GeneratedId

record product_summary =
  ps_id :: product_id
  ps_title :: json
  ps_price :: string
  ps_image_url :: json
  ps_description :: json
  ps_url :: json

definition or_default :: "json option \<Rightarrow> json \<Rightarrow> json" where
  "or_default v d = (case v of None \<Rightarrow> d | Some x \<Rightarrow> if truthy v then x else d)"

text \<open>\<open>v > 0\<close> and \<open>v[0]\<close>.\<close>

definition js_gt_zero :: "builtins \<Rightarrow> json option \<Rightarrow> bool" where
  "js_gt_zero bi v = num_gt_zero (case v of Some (JNum n) \<Rightarrow> n | _ \<Rightarrow> ToNumber bi v)"

fun first_element :: "json \<Rightarrow> exn + json option" where
  "first_element JNull = Inl TypeError"
| "first_element (JArr xs) = Inr (case xs of [] \<Rightarrow> None | x # _ \<Rightarrow> Some x)"
| "first_element (JStr s) = Inr (case s of [] \<Rightarrow> None | c # _ \<Rightarrow> Some (JStr [c]))"
| "first_element (JObj kvs) = Inr (map_of kvs ''0'')"
| "first_element v = Inr None"

text \<open>Two fields of one value, written \<open>`${v.a} ${v.b}`\<close>.\<close>

definition two_fields :: "builtins \<Rightarrow> json option \<Rightarrow> string \<Rightarrow> string \<Rightarrow> exn + string" where
  "two_fields bi v a b =
     (case get_prop_opt v a of
        Inl e \<Rightarrow> Inl e
      | Inr x \<Rightarrow>
          (case get_prop_opt v b of
             Inl e \<Rightarrow> Inl e
           | Inr y \<Rightarrow> Inr (template bi x @ '' '' @ template bi y)))"

definition product_price :: "builtins \<Rightarrow> json \<Rightarrow> exn + string" where
  "product_price bi product =
     (case get_prop product ''price_range'' of
        Inl e \<Rightarrow> Inl e
      | Inr pr \<Rightarrow>
          if truthy pr then two_fields bi pr ''currency'' ''min''
          else
            (case get_prop product ''variants'' of
               Inl e \<Rightarrow> Inl e
             | Inr vs \<Rightarrow>
                 if \<not> truthy vs then Inr ''Price not available''
                 else
                   (case get_prop_opt vs ''length'' of
                      Inl e \<Rightarrow> Inl e
                    | Inr n \<Rightarrow>
                        if \<not> js_gt_zero bi n then Inr ''Price not available''
                        else
                          (case first_element (case vs of Some v \<Rightarrow> v | None \<Rightarrow> JNull) of
                             Inl e \<Rightarrow> Inl e
                           | Inr v0 \<Rightarrow> two_fields bi v0 ''currency'' ''price''))))"

definition field_or :: "json \<Rightarrow> string \<Rightarrow> json \<Rightarrow> json" where
  "field_or product k d = (case get_prop product k of Inl e \<Rightarrow> d | Inr v \<Rightarrow> or_default v d)"

definition formatProductData :: "builtins \<Rightarrow> json \<Rightarrow> exn + product_summary" where
  "formatProductData bi product =
     (case product_price bi product of
        Inl e \<Rightarrow> Inl e
      | Inr price \<Rightarrow>
          Inr \<lparr>ps_id =
                 (case get_prop product ''product_id'' of
                    Inr (Some v) \<Rightarrow> if truthy (Some v) then GivenId v else GeneratedId
                  | _ \<Rightarrow> GeneratedId),
               ps_title = field_or product ''title'' (JStr ''Product''),
               ps_price = price,
               ps_image_url = field_or product ''image_url'' (JStr []),
               ps_description = field_or product ''description'' (JStr []),
               ps_url = field_or product ''url'' (JStr [])\<rparr>)"

text \<open>
  The application's configuration is not among the sources: the one value read
  from it, \<open>AppConfig.tools.maxProductsToDisplay\<close>, is a parameter (\<open>None\<close>
  when it is not set). \<open>max_products\<close> is \<open>maxProductsToDisplay || 10\<close>.
\<close>

record app_config =
  maxProductsToDisplay :: "int option"

definition max_products :: "app_config \<Rightarrow> int" where
  "max_products cfg =
     (case maxProductsToDisplay cfg of None \<Rightarrow> 10 | Some n \<Rightarrow> if n = 0 then 10 else n)"

text \<open>\<open>xs.slice(0, n)\<close>: a negative \<open>n\<close> counts from the end.\<close>

definition slice_from_start :: "int \<Rightarrow> 'a list \<Rightarrow> 'a list" where
  "slice_from_start n xs =
     (if n < 0 then take (nat (int (length xs) + n)) xs else take (nat n) xs)"

text \<open>\<open>xs.map(f)\<close> for a callback that may throw: the first throw ends the map.\<close>

fun map_throwing :: "('a \<Rightarrow> exn + 'b) \<Rightarrow> 'a list \<Rightarrow> exn + 'b list" where
  "map_throwing f [] = Inr []"
| "map_throwing f (x # xs) =
     (case f x of
        Inl e \<Rightarrow> Inl e
      | Inr y \<Rightarrow> (case map_throwing f xs of Inl e \<Rightarrow> Inl e | Inr ys \<Rightarrow> Inr (y # ys)))"

text \<open>\<open>items.find(item => item.type === 'text')\<close>.\<close>

fun find_text :: "json list \<Rightarrow> exn + json option" where
  "find_text [] = Inr None"
| "find_text (item # items) =
     (case get_prop item ''type'' of
        Inl e \<Rightarrow> Inl e
      | Inr t \<Rightarrow> if t = Some (JStr ''text'') then Inr (Some item) else find_text items)"

text \<open>
  The text the product extraction reads from a tool response: the guard
  \<open>content && content.length > 0\<close>, then \<open>content.find(...)?.text\<close>. Only an
  array has \<open>find\<close>; calling it on another value that passed the guard throws.
  \<open>Inr None\<close> stands for a guard that failed and for a text that is undefined.
\<close>

definition search_text :: "builtins \<Rightarrow> json \<Rightarrow> exn + json option" where
  "search_text bi resp =
     (case get_prop resp ''content'' of
        Inl e \<Rightarrow> Inl e
      | Inr c \<Rightarrow>
          if \<not> truthy c then Inr None
          else
            (case get_prop_opt c ''length'' of
               Inl e \<Rightarrow> Inl e
             | Inr n \<Rightarrow>
                 if \<not> js_gt_zero bi n then Inr None
                 else
                   (case c of
                      Some (JArr items) \<Rightarrow>
                        (case find_text items of
                           Inl e \<Rightarrow> Inl e
                         | Inr None \<Rightarrow> Inr None
                         | Inr (Some item) \<Rightarrow> Inr (item_text item))
                    | _ \<Rightarrow> Inl TypeError)))"

text \<open>
  The inner \<open>try\<close> of the extraction, for a truthy text: \<open>responseData\<close> is the
  text itself when it is an object, the parsed text when it is a string, and
  undefined otherwise; then \<open>responseData?.products\<close>, sliced and mapped.
\<close>

definition response_data :: "builtins \<Rightarrow> json \<Rightarrow> exn + json option" where
  "response_data bi content =
     (case content of
        JStr s \<Rightarrow> (case JSON_parse bi s of None \<Rightarrow> Inl SyntaxError | Some v \<Rightarrow> Inr (Some v))
      | JArr xs \<Rightarrow> Inr (Some content)
      | JObj kvs \<Rightarrow> Inr (Some content)
      | _ \<Rightarrow> Inr None)"

definition products_field :: "json option \<Rightarrow> json list option" where
  "products_field responseData =
     (case responseData of
        None \<Rightarrow> None
      | Some JNull \<Rightarrow> None
      | Some v \<Rightarrow> (case get_prop v ''products'' of Inr (Some (JArr ps)) \<Rightarrow> Some ps | _ \<Rightarrow> None))"

definition parse_products ::
  "builtins \<Rightarrow> app_config \<Rightarrow> (json \<Rightarrow> exn + 's) \<Rightarrow> json \<Rightarrow> exn + 's list" where
  "parse_products bi cfg fmt content =
     (case response_data bi content of
        Inl e \<Rightarrow> Inl e
      | Inr responseData \<Rightarrow>
          (case products_field responseData of
             None \<Rightarrow> Inr []
           | Some ps \<Rightarrow> map_throwing fmt (slice_from_start (max_products cfg) ps)))"

text \<open>The outer \<open>try\<close>'s body, for any callback of the map, and the function itself.\<close>

definition processProductSearchResult_try ::
  "builtins \<Rightarrow> app_config \<Rightarrow> (json \<Rightarrow> exn + 's) \<Rightarrow> json \<Rightarrow> exn + 's list" where
  "processProductSearchResult_try bi cfg fmt resp =
     (case search_text bi resp of
        Inl e \<Rightarrow> Inl e
      | Inr None \<Rightarrow> Inr []
      | Inr (Some content) \<Rightarrow>
          if \<not> truthy (Some content) then Inr []
          else (case parse_products bi cfg fmt content of Inl e \<Rightarrow> Inr [] | Inr ps \<Rightarrow> Inr ps))"

definition processProductSearchResult ::
  "builtins \<Rightarrow> app_config \<Rightarrow> json \<Rightarrow> product_summary list" where
  "processProductSearchResult bi cfg resp =
     (case processProductSearchResult_try bi cfg (formatProductData bi) resp of
        Inl e \<Rightarrow> []
      | Inr ps \<Rightarrow> ps)"

text \<open>
  The tool service's \<open>handleToolSuccess\<close>: the new display list, and the content
  it hands to \<open>addToolResultToHistory\<close> (or the exception of a \<open>null\<close> item).
\<close>

definition handleToolSuccess ::
  "builtins \<Rightarrow> app_config \<Rightarrow> json \<Rightarrow> string \<Rightarrow> product_summary list \<Rightarrow>
   product_summary list \<times> (exn + string option)" where
  "handleToolSuccess bi cfg resp toolName products =
     (let products1 = (if toolName = ''search_shop_catalog''
                       then products @ processProductSearchResult bi cfg resp else products)
      in case get_prop resp ''content'' of
           Inl e \<Rightarrow> (products1, Inl e)
         | Inr c \<Rightarrow> (products1, toolResultContent bi c))"

text \<open>
  The normalisation in the words of the specification. A typed content block is
  an object with a type, and a text-typed block, whose type is \<open>text\<close>,
  carries its text, a string. For a list of typed content blocks the content is
  the texts of the text-typed blocks with a newline between each two; for every
  other payload it is the payload stringified (the stringification of
  \<open>undefined\<close> is \<open>undefined\<close>).
\<close>

definition text_typed :: "json \<Rightarrow> bool" where
  "text_typed item =
     (case item of JObj kvs \<Rightarrow> map_of kvs ''type'' = Some (JStr ''text'') | _ \<Rightarrow> False)"

definition typed_block :: "json \<Rightarrow> bool" where
  "typed_block item =
     (case item of
        JObj kvs \<Rightarrow>
          (case map_of kvs ''type'' of
             Some (JStr ty) \<Rightarrow>
               (if ty = ''text''
                then (case map_of kvs ''text'' of Some (JStr t) \<Rightarrow> True | _ \<Rightarrow> False)
                else True)
           | _ \<Rightarrow> False)
      | _ \<Rightarrow> False)"

definition block_text :: "json \<Rightarrow> string" where
  "block_text item =
     (case item of
        JObj kvs \<Rightarrow> (case map_of kvs ''text'' of Some (JStr t) \<Rightarrow> t | _ \<Rightarrow> [])
      | _ \<Rightarrow> [])"

definition newline_joined :: "string list \<Rightarrow> string" where
  "newline_joined ts =
     (case ts of [] \<Rightarrow> [] | t # rest \<Rightarrow> t @ concat (map (\<lambda>u. CHR 0x0A # u) rest))"

definition normalized_content_spec :: "builtins \<Rightarrow> json option \<Rightarrow> string option" where
  "normalized_content_spec bi c =
     (case c of
        None \<Rightarrow> None
      | Some (JArr items) \<Rightarrow>
          Some (if list_all typed_block items
                then newline_joined (map block_text (filter text_typed items))
                else JSON_stringify bi (JArr items))
      | Some v \<Rightarrow> Some (JSON_stringify bi v))"

text \<open>
  What an element whose type is \<open>text\<close> contributes to the joined text, whatever
  its \<open>text\<close> is: a string as it is, nothing when it is missing or \<open>null\<close>,
  and any other value converted to a string.
\<close>

definition element_text :: "builtins \<Rightarrow> json \<Rightarrow> string" where
  "element_text bi item =
     (case item of
        JObj kvs \<Rightarrow>
          (case map_of kvs ''text'' of
             None \<Rightarrow> []
           | Some JNull \<Rightarrow> []
           | Some (JStr t) \<Rightarrow> t
           | Some v \<Rightarrow> ToString bi (Some v))
      | _ \<Rightarrow> [])"

fun is_array :: "json \<Rightarrow> bool" where
  "is_array (JArr xs) = True"
| "is_array v = False"

fun is_string :: "json \<Rightarrow> bool" where
  "is_string (JStr t) = True"
| "is_string v = False"

text \<open>
  The products the extraction finds in a tool response: those of the payload,
  which is the text of the first text block, parsed when it is a string.
  \<open>None\<close> when there is no such text, when it does not parse, and when what it
  denotes has no \<open>products\<close> array.
\<close>

definition payload_products :: "builtins \<Rightarrow> json \<Rightarrow> json list option" where
  "payload_products bi resp =
     (case search_text bi resp of
        Inr (Some c) \<Rightarrow>
          if truthy (Some c)
          then (case response_data bi c of Inl e \<Rightarrow> None | Inr d \<Rightarrow> products_field d)
          else None
      | _ \<Rightarrow> None)"

text \<open>A response without an error, and its content.\<close>

definition successful :: "json \<Rightarrow> bool" where
  "successful resp = (case get_prop resp ''error'' of Inl e \<Rightarrow> False | Inr err \<Rightarrow> \<not> truthy err)"

definition content_of :: "json \<Rightarrow> json option" where
  "content_of resp = (case get_prop resp ''content'' of Inl e \<Rightarrow> None | Inr c \<Rightarrow> c)"

section \<open>The completion adapter (\<open>streamConversation\<close>)\<close>

text \<open>
  What the provider streams: a chunk carries the first choice's delta (its text,
  its tool-call fragments) and finish reason; an absent part is \<open>None\<close> or
  the empty list. A fragment names the call it belongs to by index.
\<close>

record tool_call_delta =
  d_index :: nat
  d_id :: "string option"
  d_name :: "string option"
  d_arguments :: "string option"

record stream_chunk =
  delta_content :: "string option"
  delta_tool_calls :: "tool_call_delta list"
  finish_reason :: "string option"

definition nonempty :: "string option \<Rightarrow> bool" where
  "nonempty v = (case v of None \<Rightarrow> False | Some t \<Rightarrow> t \<noteq> [])"

text \<open>
  \<open>toolCalls\<close> is a sparse array: \<open>entry_at\<close> reads an index (a hole and an
  index past the end are both undefined), \<open>store_at\<close> assigns one, padding with
  holes as JavaScript does.
\<close>

definition entry_at :: "nat \<Rightarrow> 'a option list \<Rightarrow> 'a option" where
  "entry_at i xs = (if i < length xs then xs ! i else None)"

definition store_at :: "nat \<Rightarrow> 'a \<Rightarrow> 'a option list \<Rightarrow> 'a option list" where
  "store_at i v xs =
     (if i < length xs then xs[i := Some v]
      else xs @ replicate (i - length xs) None @ [Some v])"

definition apply_tool_call_delta ::
  "tool_call_delta \<Rightarrow> tool_call option list \<Rightarrow> tool_call option list" where
  "apply_tool_call_delta d tcs =
     (let i = d_index d;
          tc0 = (case entry_at i tcs of
                   None \<Rightarrow> \<lparr>tc_id = d_id d, tc_name = [], tc_arguments = []\<rparr>
                 | Some tc \<Rightarrow> tc);
          tc1 = (if nonempty (d_name d) then tc0\<lparr>tc_name := the (d_name d)\<rparr> else tc0);
          tc2 = (if nonempty (d_arguments d)
                 then tc1\<lparr>tc_arguments := tc_arguments tc1 @ the (d_arguments d)\<rparr> else tc1)
      in store_at i tc2 tcs)"

text \<open>
  The events of the caller-facing stream, in the spec's names, and the state of
  one chat session: the events sent so far, the working history, the products
  gathered for display, and the state of everything outside (the provider, the
  tool servers, the message store), of which nothing is assumed.
\<close>

datatype event =
    ConversationId string
  | Chunk string
  | MessageComplete
  | ToolUse string
  | NewMessage
  | AuthRequired
  | EndTurn
  | ProductResults "product_summary list"

record 'w session =
  events :: "event list"
  conversationHistory :: "message list"
  productsToDisplay :: "product_summary list"
  world :: 'w

text \<open>
  The external collaborators, none of them code of the sources, as functions of
  the outside state. \<open>completions_create\<close> gives the chunks the provider
  streams and, when the transport fails, the error raised once they are read (a
  rejected call is no chunks and an error). \<open>callTool\<close> returns the tool
  server's response or throws. \<open>saveMessage\<close> and
  \<open>getConversationHistory\<close> reject with an error or succeed.
\<close>

record 'w services =
  completions_create :: "'w \<Rightarrow> message list \<Rightarrow> (stream_chunk list \<times> exn option) \<times> 'w"
  callTool :: "'w \<Rightarrow> string \<Rightarrow> json \<Rightarrow> (exn + json) \<times> 'w"
  saveMessage :: "'w \<Rightarrow> string \<Rightarrow> string \<Rightarrow> string option \<Rightarrow> exn option \<times> 'w"
  getConversationHistory :: "'w \<Rightarrow> string \<Rightarrow> (exn + stored_message option list) \<times> 'w"

text \<open>
  \<open>stream.sendMessage\<close>. The stream is built outside the sources; sending is
  taken to put the event at the end of the stream and not to fail.
\<close>

definition emit :: "event \<Rightarrow> 'w session \<Rightarrow> 'w session" where
  "emit e s = s\<lparr>events := events s @ [e]\<rparr>"

text \<open>
  The \<open>for await\<close> loop over the chunks: text is appended and forwarded
  (\<open>onText\<close>), fragments are merged, and a finish reason ends the loop. The
  last component tells whether a finish reason was seen.
\<close>

fun read_stream ::
  "stream_chunk list \<Rightarrow> 'w session \<Rightarrow> string \<Rightarrow> tool_call option list \<Rightarrow>
   'w session \<times> string \<times> tool_call option list \<times> bool" where
  "read_stream [] s text toolCalls = (s, text, toolCalls, False)"
| "read_stream (ch # chs) s text toolCalls =
     (let s1 = (if nonempty (delta_content ch) then emit (Chunk (the (delta_content ch))) s else s);
          text1 = (if nonempty (delta_content ch) then text @ the (delta_content ch) else text);
          toolCalls1 = foldl (\<lambda>tcs d. apply_tool_call_delta d tcs) toolCalls (delta_tool_calls ch)
      in if nonempty (finish_reason ch) then (s1, text1, toolCalls1, True)
         else read_stream chs s1 text1 toolCalls1)"

text \<open>What \<open>onMessage\<close> stringifies for the store: \<open>message.content || message.tool_calls\<close>.\<close>

definition tool_call_json :: "tool_call option \<Rightarrow> json" where
  "tool_call_json tc =
     (case tc of
        None \<Rightarrow> JNull
      | Some c \<Rightarrow>
          JObj ((case tc_id c of None \<Rightarrow> [] | Some i \<Rightarrow> [(''id'', JStr i)]) @
                [(''type'', JStr ''function''),
                 (''function'', JObj [(''name'', JStr (tc_name c)),
                                      (''arguments'', JStr (tc_arguments c))])]))"

definition stored_content :: "builtins \<Rightarrow> message \<Rightarrow> string option" where
  "stored_content bi m =
     (if nonempty (msg_content m) then Some (JSON_stringify bi (JStr (the (msg_content m))))
      else (case msg_tool_calls m of
              None \<Rightarrow> None
            | Some tcs \<Rightarrow> Some (JSON_stringify bi (JArr (map tool_call_json tcs)))))"

text \<open>\<open>onMessage\<close>: the save is not awaited and its failure is only logged.\<close>

definition onMessage :: "builtins \<Rightarrow> 'w services \<Rightarrow> string \<Rightarrow> message \<Rightarrow> 'w session \<Rightarrow> 'w session" where
  "onMessage bi sv cid m s =
     (let s1 = s\<lparr>conversationHistory := conversationHistory s @ [m]\<rparr>;
          w1 = snd (saveMessage sv (world s1) cid (msg_role m) (stored_content bi m))
      in emit MessageComplete (s1\<lparr>world := w1\<rparr>))"

definition tool_use_message :: "builtins \<Rightarrow> string \<Rightarrow> json \<Rightarrow> string" where
  "tool_use_message bi toolName toolArgs =
     ''Calling tool: '' @ toolName @ '' with arguments: '' @ JSON_stringify bi toolArgs"

definition tool_message :: "string option \<Rightarrow> string option \<Rightarrow> message" where
  "tool_message toolUseId c =
     \<lparr>msg_role = ''tool'', msg_content = c, msg_tool_calls = None, msg_tool_call_id = toolUseId\<rparr>"

text \<open>\<open>JSON.stringify({tool_call_id, content})\<close>: an undefined field is left out.\<close>

definition tool_record :: "builtins \<Rightarrow> string option \<Rightarrow> string option \<Rightarrow> string" where
  "tool_record bi toolUseId c =
     JSON_stringify bi
       (JObj ((case toolUseId of None \<Rightarrow> [] | Some i \<Rightarrow> [(''tool_call_id'', JStr i)]) @
              (case c of None \<Rightarrow> [] | Some t \<Rightarrow> [(''content'', JStr t)])))"

text \<open>
  The middle of \<open>onToolUse\<close>: from the tool's response to the content of the
  tool message. An error response gives \<open>Error: \<close> and its data, and the
  \<open>auth_required\<close> event when that is its type; a successful one adds the
  products of a catalog search to the display list and formats its content.
\<close>

definition tool_outcome ::
  "builtins \<Rightarrow> app_config \<Rightarrow> string \<Rightarrow> json \<Rightarrow> 'w session \<Rightarrow> 'w session \<times> (exn + string option)" where
  "tool_outcome bi cfg toolName resp s =
     (case get_prop resp ''error'' of
        Inl e \<Rightarrow> (s, Inl e)
      | Inr err \<Rightarrow>
          if truthy err then
            (let d = (case get_prop_opt err ''data'' of Inl e \<Rightarrow> None | Inr v \<Rightarrow> v);
                 s1 = (if get_prop_opt err ''type'' = Inr (Some (JStr ''auth_required''))
                       then emit AuthRequired s else s)
             in (s1, Inr (Some (''Error: '' @ template bi d))))
          else
            (let s1 = (if toolName = ''search_shop_catalog''
                       then s\<lparr>productsToDisplay :=
                                productsToDisplay s @ processProductSearchResult bi cfg resp\<rparr>
                       else s)
             in case get_prop resp ''content'' of
                  Inl e \<Rightarrow> (s1, Inl e)
                | Inr c \<Rightarrow> (s1, toolResultContent bi c)))"

text \<open>\<open>onToolUse\<close>; the second component is the exception it throws, if any.\<close>

definition onToolUse ::
  "builtins \<Rightarrow> 'w services \<Rightarrow> app_config \<Rightarrow> string \<Rightarrow> string option \<Rightarrow> string \<Rightarrow> json \<Rightarrow>
   'w session \<Rightarrow> 'w session \<times> exn option" where
  "onToolUse bi sv cfg cid toolUseId toolName toolArgs s =
     (let s1 = emit (ToolUse (tool_use_message bi toolName toolArgs)) s;
          called = callTool sv (world s1) toolName toolArgs;
          s2 = s1\<lparr>world := snd called\<rparr>
      in case fst called of
           Inl e \<Rightarrow> (s2, Some e)
         | Inr resp \<Rightarrow>
             (case tool_outcome bi cfg toolName resp s2 of
                (s3, Inl e) \<Rightarrow> (s3, Some e)
              | (s3, Inr c) \<Rightarrow>
                  (let s4 = s3\<lparr>conversationHistory :=
                                  conversationHistory s3 @ [tool_message toolUseId c]\<rparr>;
                       saved = saveMessage sv (world s4) cid ''tool''
                                 (Some (tool_record bi toolUseId c));
                       s5 = s4\<lparr>world := snd saved\<rparr>
                   in case fst saved of
                        Some e \<Rightarrow> (s5, Some e)
                      | None \<Rightarrow> (emit NewMessage s5, None))))"

text \<open>
  One round of the \<open>for\<close> loop over the tool calls. The \<open>try\<close> covers the
  parse of the arguments and the handler: a hole of the array, arguments that do
  not parse, and a handler that throws are logged, and the loop goes on.
\<close>

definition try_tool_call ::
  "builtins \<Rightarrow> 'w services \<Rightarrow> app_config \<Rightarrow> string \<Rightarrow> tool_call option \<Rightarrow> 'w session \<Rightarrow> 'w session" where
  "try_tool_call bi sv cfg cid toolCall s =
     (case toolCall of
        None \<Rightarrow> s
      | Some tc \<Rightarrow>
          (case JSON_parse bi (tc_arguments tc) of
             None \<Rightarrow> s
           | Some args \<Rightarrow> fst (onToolUse bi sv cfg cid (tc_id tc) (tc_name tc) args s)))"

fun process_tool_calls ::
  "builtins \<Rightarrow> 'w services \<Rightarrow> app_config \<Rightarrow> string \<Rightarrow> tool_call option list \<Rightarrow> 'w session \<Rightarrow> 'w session" where
  "process_tool_calls bi sv cfg cid [] s = s"
| "process_tool_calls bi sv cfg cid (toolCall # rest) s =
     process_tool_calls bi sv cfg cid rest (try_tool_call bi sv cfg cid toolCall s)"

definition assistant_message :: "string \<Rightarrow> tool_call option list \<Rightarrow> message" where
  "assistant_message text toolCalls =
     \<lparr>msg_role = ''assistant'', msg_content = Some text,
      msg_tool_calls = (if toolCalls = [] then None else Some toolCalls),
      msg_tool_call_id = None\<rparr>"

text \<open>
  \<open>streamConversation\<close> with the route's three handlers: it returns the final
  message, or throws what the provider raised before a finish reason was read.
  The system prompt it puts before the messages comes from a file that is not
  among the sources; the provider is a function of the working history alone.
\<close>

definition streamConversation ::
  "builtins \<Rightarrow> 'w services \<Rightarrow> app_config \<Rightarrow> string \<Rightarrow> 'w session \<Rightarrow> 'w session \<times> (exn + message)" where
  "streamConversation bi sv cfg cid s =
     (let created = completions_create sv (world s) (conversationHistory s);
          chunks = fst (fst created);
          failure = snd (fst created)
      in case read_stream chunks (s\<lparr>world := snd created\<rparr>) [] [] of
           (s1, text, toolCalls, finished) \<Rightarrow>
             (case (if finished then None else failure) of
                Some e \<Rightarrow> (s1, Inl e)
              | None \<Rightarrow>
                  (let m = assistant_message text toolCalls;
                       s2 = onMessage bi sv cid m s1
                   in (process_tool_calls bi sv cfg cid toolCalls s2, Inr m))))"

section \<open>The conversation loop (\<open>handleChatSession\<close>)\<close>

text \<open>
  The \<open>while\<close> loop: \<open>iteration\<close> counts the completions started. The result
  is the session, the exception that left the loop (if one did), and the final
  value of \<open>iteration\<close>.
\<close>

function conversation_loop ::
  "builtins \<Rightarrow> 'w services \<Rightarrow> app_config \<Rightarrow> string \<Rightarrow> nat \<Rightarrow> nat \<Rightarrow> 'w session \<Rightarrow>
   'w session \<times> exn option \<times> nat" where
  "conversation_loop bi sv cfg cid maxIterations iteration s =
     (if iteration < maxIterations then
        (case streamConversation bi sv cfg cid s of
           (s1, Inl e) \<Rightarrow> (s1, Some e, Suc iteration)
         | (s1, Inr response) \<Rightarrow>
             (case msg_tool_calls response of
                None \<Rightarrow> (s1, None, Suc iteration)
              | Some tcs \<Rightarrow>
                  if tcs = [] then (s1, None, Suc iteration)
                  else conversation_loop bi sv cfg cid maxIterations (Suc iteration) s1))
      else (s, None, iteration))"
  by pat_completeness auto
termination
  by (relation "measure (\<lambda>(bi, sv, cfg, cid, maxIterations, iteration, s). maxIterations - iteration)")
     auto

declare conversation_loop.simps [simp del]

definition maxIterations :: nat where
  "maxIterations = 10"

text \<open>
  \<open>handleChatSession\<close>, from the first event to the last. The connection to
  the tool servers, whose failure is only logged, sends no event and touches
  nothing but the outside state. The second component is the exception the
  function rethrows, if any.
\<close>

definition handleChatSession ::
  "builtins \<Rightarrow> 'w services \<Rightarrow> app_config \<Rightarrow> string \<Rightarrow> string \<Rightarrow> 'w \<Rightarrow> 'w session \<times> exn option" where
  "handleChatSession bi sv cfg cid userMessage w =
     (let s0 = \<lparr>events = [ConversationId cid], conversationHistory = [],
                productsToDisplay = [], world = w\<rparr>;
          saved = saveMessage sv w cid ''user'' (Some userMessage)
      in case fst saved of
           Some e \<Rightarrow> (s0\<lparr>world := snd saved\<rparr>, Some e)
         | None \<Rightarrow>
             (let loaded = getConversationHistory sv (snd saved) cid;
                  s1 = s0\<lparr>conversationHistory :=
                            getTruncatedHistory bi (fst loaded) @ [plain_message ''user'' userMessage],
                          world := snd loaded\<rparr>
              in case conversation_loop bi sv cfg cid maxIterations 0 s1 of
                   (s2, Some e, n) \<Rightarrow> (s2, Some e)
                 | (s2, None, n) \<Rightarrow>
                     (let s3 = emit EndTurn s2
                      in if productsToDisplay s3 \<noteq> []
                         then (emit (ProductResults (productsToDisplay s3)) s3, None)
                         else (s3, None))))"

section \<open>Reading the event stream and the working history\<close>

text \<open>What a step added to the stream and to the working history.\<close>

definition emitted :: "'w session \<Rightarrow> 'w session \<Rightarrow> event list" where
  "emitted s s' = drop (length (events s)) (events s')"

definition appended :: "'w session \<Rightarrow> 'w session \<Rightarrow> message list" where
  "appended s s' = drop (length (conversationHistory s)) (conversationHistory s')"

fun is_chunk :: "event \<Rightarrow> bool" where
  "is_chunk (Chunk t) = True"
| "is_chunk e = False"

fun is_tool_use :: "event \<Rightarrow> bool" where
  "is_tool_use (ToolUse t) = True"
| "is_tool_use e = False"

fun is_product_results :: "event \<Rightarrow> bool" where
  "is_product_results (ProductResults ps) = True"
| "is_product_results e = False"

definition count_event :: "(event \<Rightarrow> bool) \<Rightarrow> event list \<Rightarrow> nat" where
  "count_event p es = length (filter p es)"

text \<open>What the truncation makes of rows none of which is \<open>null\<close>.\<close>

definition truncate_rows :: "builtins \<Rightarrow> stored_message list \<Rightarrow> message list" where
  "truncate_rows bi rows = map (formatMessage bi) (slice_last4 (filter (keepMessage bi) rows))"

text \<open>The events of one completion that follow its \<open>message_complete\<close>.\<close>

definition after_message_complete :: "event list \<Rightarrow> event list" where
  "after_message_complete es = tl (dropWhile (\<lambda>e. e \<noteq> MessageComplete) es)"

text \<open>The events from the first \<open>end_turn\<close> on, and those after it.\<close>

definition from_end_turn :: "event list \<Rightarrow> event list" where
  "from_end_turn es = dropWhile (\<lambda>e. e \<noteq> EndTurn) es"

text \<open>
  The shape of the events the tool calls of one completion leave: blocks, each
  a \<open>tool_use\<close>, then at most one \<open>auth_required\<close>, then at most one
  \<open>new_message\<close>. \<open>scan\<close> reads the events with what may follow next.
\<close>

datatype phase = Idle | AfterToolUse | AfterAuth

fun scan :: "phase \<Rightarrow> event list \<Rightarrow> bool" where
  "scan p [] = True"
| "scan p (ToolUse t # es) = scan AfterToolUse es"
| "scan AfterToolUse (AuthRequired # es) = scan AfterAuth es"
| "scan AfterToolUse (NewMessage # es) = scan Idle es"
| "scan AfterAuth (NewMessage # es) = scan Idle es"
| "scan p (e # es) = False"

definition tool_blocks :: "event list \<Rightarrow> bool" where
  "tool_blocks es = scan Idle es"

text \<open>
  The tool calls of a final message that reach the handler: the entries of the
  array (holes left out) whose arguments parse.
\<close>

definition parseable :: "builtins \<Rightarrow> tool_call option \<Rightarrow> bool" where
  "parseable bi toolCall =
     (case toolCall of None \<Rightarrow> False | Some tc \<Rightarrow> JSON_parse bi (tc_arguments tc) \<noteq> None)"

definition parseable_calls :: "builtins \<Rightarrow> tool_call option list \<Rightarrow> tool_call option list" where
  "parseable_calls bi toolCalls = filter (parseable bi) toolCalls"

text \<open>The tool-call requests of what \<open>streamConversation\<close> returned (none when it threw).\<close>

definition requested_calls :: "exn + message \<Rightarrow> tool_call option list" where
  "requested_calls r =
     (case r of
        Inl e \<Rightarrow> []
      | Inr m \<Rightarrow> (case msg_tool_calls m of None \<Rightarrow> [] | Some tcs \<Rightarrow> tcs))"

definition call_id :: "tool_call option \<Rightarrow> string option" where
  "call_id toolCall = (case toolCall of None \<Rightarrow> None | Some tc \<Rightarrow> tc_id tc)"

text \<open>
  Collaborators that do not fail: every tool call returns a response from which
  a tool message results, and the store accepts every tool result; every
  completion is delivered; the user's message is stored.
\<close>

definition response_handled :: "builtins \<Rightarrow> json \<Rightarrow> bool" where
  "response_handled bi resp =
     (case get_prop resp ''error'' of
        Inl e \<Rightarrow> False
      | Inr err \<Rightarrow>
          truthy err \<or>
          (case get_prop resp ''content'' of
             Inl e \<Rightarrow> False
           | Inr c \<Rightarrow> (case toolResultContent bi c of Inl e \<Rightarrow> False | Inr t \<Rightarrow> True)))"

definition tools_return :: "builtins \<Rightarrow> 'w services \<Rightarrow> string \<Rightarrow> bool" where
  "tools_return bi sv cid =
     ((\<forall>w n a. case fst (callTool sv w n a) of Inl e \<Rightarrow> False | Inr resp \<Rightarrow> response_handled bi resp) \<and>
      (\<forall>w c. fst (saveMessage sv w cid ''tool'' c) = None))"

definition completions_delivered :: "'w services \<Rightarrow> bool" where
  "completions_delivered sv = (\<forall>w ms. snd (fst (completions_create sv w ms)) = None)"

definition user_message_stored :: "'w services \<Rightarrow> string \<Rightarrow> string \<Rightarrow> bool" where
  "user_message_stored sv cid userMessage =
     (\<forall>w. fst (saveMessage sv w cid ''user'' (Some userMessage)) = None)"

text \<open>The events the loop can send, and a provider whose every final message asks for a tool.\<close>

fun loop_event :: "event \<Rightarrow> bool" where
  "loop_event (ConversationId c) = False"
| "loop_event EndTurn = False"
| "loop_event (ProductResults ps) = False"
| "loop_event e = True"


text \<open>
  One run of the handler, read off the collaborators at the state it starts in:
  the content of the tool message it appends (none when the tool call throws or
  its response cannot be formatted), whether the tool's response reports an
  error of type \<open>auth_required\<close>, and whether the store accepted the tool row.
  From these, the events the handler sends and the messages it appends.
\<close>

definition tool_answer ::
  "builtins \<Rightarrow> 'w services \<Rightarrow> app_config \<Rightarrow> string \<Rightarrow> json \<Rightarrow> 'w session \<Rightarrow> string option option" where
  "tool_answer bi sv cfg toolName toolArgs s =
     (case fst (callTool sv (world s) toolName toolArgs) of
        Inl e \<Rightarrow> None
      | Inr resp \<Rightarrow>
          (case snd (tool_outcome bi cfg toolName resp s) of Inl e \<Rightarrow> None | Inr c \<Rightarrow> Some c))"

definition auth_reported :: "'w services \<Rightarrow> string \<Rightarrow> json \<Rightarrow> 'w session \<Rightarrow> bool" where
  "auth_reported sv toolName toolArgs s =
     (case fst (callTool sv (world s) toolName toolArgs) of
        Inl e \<Rightarrow> False
      | Inr resp \<Rightarrow>
          (case get_prop resp ''error'' of
             Inl e \<Rightarrow> False
           | Inr err \<Rightarrow>
               truthy err \<and> get_prop_opt err ''type'' = Inr (Some (JStr ''auth_required''))))"

definition tool_row_saved ::
  "builtins \<Rightarrow> 'w services \<Rightarrow> app_config \<Rightarrow> string \<Rightarrow> string option \<Rightarrow> string \<Rightarrow> json \<Rightarrow>
   'w session \<Rightarrow> bool" where
  "tool_row_saved bi sv cfg cid toolUseId toolName toolArgs s =
     (case tool_answer bi sv cfg toolName toolArgs s of
        None \<Rightarrow> False
      | Some c \<Rightarrow>
          fst (saveMessage sv (snd (callTool sv (world s) toolName toolArgs)) cid ''tool''
                 (Some (tool_record bi toolUseId c))) = None)"

definition handler_events ::
  "builtins \<Rightarrow> 'w services \<Rightarrow> app_config \<Rightarrow> string \<Rightarrow> string option \<Rightarrow> string \<Rightarrow> json \<Rightarrow>
   'w session \<Rightarrow> event list" where
  "handler_events bi sv cfg cid toolUseId toolName toolArgs s =
     ToolUse (tool_use_message bi toolName toolArgs) #
     (if auth_reported sv toolName toolArgs s then [AuthRequired] else []) @
     (if tool_row_saved bi sv cfg cid toolUseId toolName toolArgs s then [NewMessage] else [])"

definition handler_replies ::
  "builtins \<Rightarrow> 'w services \<Rightarrow> app_config \<Rightarrow> string option \<Rightarrow> string \<Rightarrow> json \<Rightarrow>
   'w session \<Rightarrow> message list" where
  "handler_replies bi sv cfg toolUseId toolName toolArgs s =
     (case tool_answer bi sv cfg toolName toolArgs s of
        None \<Rightarrow> []
      | Some c \<Rightarrow>
          [\<lparr>msg_role = ''tool'', msg_content = c, msg_tool_calls = None,
            msg_tool_call_id = toolUseId\<rparr>])"

text \<open>
  The same for the tool-call requests of one final message, in their order: a
  hole of the array and a request whose arguments do not parse contribute
  nothing, every other request what its handler's run contributes, from the
  state the requests before it left.
\<close>

fun tool_events ::
  "builtins \<Rightarrow> 'w services \<Rightarrow> app_config \<Rightarrow> string \<Rightarrow> tool_call option list \<Rightarrow> 'w session \<Rightarrow>
   event list" where
  "tool_events bi sv cfg cid [] s = []"
| "tool_events bi sv cfg cid (toolCall # rest) s =
     (case toolCall of
        None \<Rightarrow> []
      | Some tc \<Rightarrow>
          (case JSON_parse bi (tc_arguments tc) of
             None \<Rightarrow> []
           | Some args \<Rightarrow> handler_events bi sv cfg cid (tc_id tc) (tc_name tc) args s)) @
     tool_events bi sv cfg cid rest (try_tool_call bi sv cfg cid toolCall s)"

fun tool_replies ::
  "builtins \<Rightarrow> 'w services \<Rightarrow> app_config \<Rightarrow> string \<Rightarrow> tool_call option list \<Rightarrow> 'w session \<Rightarrow>
   message list" where
  "tool_replies bi sv cfg cid [] s = []"
| "tool_replies bi sv cfg cid (toolCall # rest) s =
     (case toolCall of
        None \<Rightarrow> []
      | Some tc \<Rightarrow>
          (case JSON_parse bi (tc_arguments tc) of
             None \<Rightarrow> []
           | Some args \<Rightarrow> handler_replies bi sv cfg (tc_id tc) (tc_name tc) args s)) @
     tool_replies bi sv cfg cid rest (try_tool_call bi sv cfg cid toolCall s)"

text \<open>
  The session of a completion at the moment its tool calls are taken up: the
  stream has been read and \<open>onMessage\<close> has run.
\<close>

definition after_completion ::
  "builtins \<Rightarrow> 'w services \<Rightarrow> string \<Rightarrow> 'w session \<Rightarrow> 'w session" where
  "after_completion bi sv cid s =
     (let created = completions_create sv (world s) (conversationHistory s)
      in case read_stream (fst (fst created)) (s\<lparr>world := snd created\<rparr>) [] [] of
           (s1, body, toolCalls, fin) \<Rightarrow> onMessage bi sv cid (assistant_message body toolCalls) s1)"

text \<open>Tool servers every call of which returns a response from which a tool message results.\<close>

definition tools_answer :: "builtins \<Rightarrow> 'w services \<Rightarrow> bool" where
  "tools_answer bi sv =
     (\<forall>w n a. case fst (callTool sv w n a) of Inl e \<Rightarrow> False | Inr resp \<Rightarrow> response_handled bi resp)"

text \<open>
  The session when the loop starts, for a user message the store accepted, and
  the session at the start of a later turn of the loop: turn \<open>k\<close> is reached when
  each of the \<open>k\<close> completions before it was delivered and asked for a tool.
\<close>

definition seeded :: "builtins \<Rightarrow> 'w services \<Rightarrow> string \<Rightarrow> string \<Rightarrow> 'w \<Rightarrow> 'w session" where
  "seeded bi sv cid userMessage w =
     (let loaded = getConversationHistory sv
                     (snd (saveMessage sv w cid ''user'' (Some userMessage))) cid
      in \<lparr>events = [ConversationId cid],
          conversationHistory =
            getTruncatedHistory bi (fst loaded) @ [plain_message ''user'' userMessage],
          productsToDisplay = [], world = snd loaded\<rparr>)"

fun turn_state ::
  "builtins \<Rightarrow> 'w services \<Rightarrow> app_config \<Rightarrow> string \<Rightarrow> nat \<Rightarrow> 'w session \<Rightarrow> 'w session option" where
  "turn_state bi sv cfg cid 0 s = Some s"
| "turn_state bi sv cfg cid (Suc k) s =
     (case snd (streamConversation bi sv cfg cid s) of
        Inl e \<Rightarrow> None
      | Inr m \<Rightarrow>
          if requested_calls (Inr m) = [] then None
          else turn_state bi sv cfg cid k (fst (streamConversation bi sv cfg cid s)))"

section \<open>A sample runtime and sample collaborators\<close>

text \<open>
  For the examples: a runtime, a scripted provider whose outside state counts the
  completions started, a tool server, and a store that accepts everything. The
  sample \<open>JSON.parse\<close> knows the JSON texts of the examples, each listed with
  the value it denotes, and throws on every other text; no other text the
  examples hand to it is JSON.
\<close>

definition args_text :: string where
  \<open>args_text = ''{}''\<close>

definition broken_args_text :: string where
  \<open>broken_args_text = ''{"query":''\<close>

definition products_text :: string where
  \<open>products_text =
     ''{"products":[{"product_id":"p1","title":"Red shoe","price_range":{"currency":"USD","min":"49.00"}}]}''\<close>

definition products_json :: json where
  "products_json =
     JObj [(''products'',
            JArr [JObj [(''product_id'', JStr ''p1''), (''title'', JStr ''Red shoe''),
                        (''price_range'',
                         JObj [(''currency'', JStr ''USD''), (''min'', JStr ''49.00'')])]])]"

definition search_call :: tool_call where
  "search_call = \<lparr>tc_id = Some ''call_1'', tc_name = ''search_shop_catalog'', tc_arguments = args_text\<rparr>"

definition calls_text :: string where
  \<open>calls_text =
     ''[{"id":"call_1","type":"function","function":{"name":"search_shop_catalog","arguments":"{}"}}]''\<close>

definition four_products_text :: string where
  \<open>four_products_text =
     ''{"products":[{"title":"A"},{"title":"B"},{"title":"C"},{"title":"D"}]}''\<close>

definition four_products_json :: json where
  "four_products_json =
     JObj [(''products'',
            JArr [JObj [(''title'', JStr ''A'')], JObj [(''title'', JStr ''B'')],
                  JObj [(''title'', JStr ''C'')], JObj [(''title'', JStr ''D'')]])]"

definition sample_parse :: "string \<Rightarrow> json option" where
  "sample_parse =
     map_of [(args_text, JObj []), (products_text, products_json),
             (four_products_text, four_products_json),
             (calls_text, JArr [tool_call_json (Some search_call)])]"

text \<open>
  \<open>JSON.stringify\<close> and the conversion to text, written out for the sample. An
  integer is written in decimal; a finite number that is not an integer never
  occurs in the examples and is written as a fraction, which JavaScript does not
  do.
\<close>

fun digits :: "nat \<Rightarrow> string" where
  "digits n =
     (if n < 10 then [''0123456789'' ! n] else digits (n div 10) @ [''0123456789'' ! (n mod 10)])"

definition integer_text :: "int \<Rightarrow> string" where
  "integer_text i = (if i < 0 then ''-'' @ digits (nat (- i)) else digits (nat i))"

definition finite_text :: "rat \<Rightarrow> string" where
  "finite_text r =
     (case quotient_of r of (n, d) \<Rightarrow>
        if d = 1 then integer_text n else integer_text n @ ''/'' @ integer_text d)"

definition escape_char :: "char \<Rightarrow> string" where
  "escape_char c =
     (if c = CHR 0x22 then [CHR 0x5C, CHR 0x22]
      else if c = CHR 0x5C then [CHR 0x5C, CHR 0x5C]
      else if c = CHR 0x08 then [CHR 0x5C, CHR ''b'']
      else if c = CHR 0x0C then [CHR 0x5C, CHR ''f'']
      else if c = CHR 0x0A then [CHR 0x5C, CHR ''n'']
      else if c = CHR 0x0D then [CHR 0x5C, CHR ''r'']
      else if c = CHR 0x09 then [CHR 0x5C, CHR ''t'']
      else if (of_char c :: nat) < 32
        then [CHR 0x5C, CHR ''u'', CHR ''0'', CHR ''0'',
              ''0123456789abcdef'' ! (of_char c div 16), ''0123456789abcdef'' ! (of_char c mod 16)]
      else [c])"

definition quote :: "string \<Rightarrow> string" where
  "quote t = [CHR 0x22] @ concat (map escape_char t) @ [CHR 0x22]"

fun stringify :: "json \<Rightarrow> string"
  and stringify_elements :: "json list \<Rightarrow> string"
  and stringify_members :: "(string \<times> json) list \<Rightarrow> string" where
  "stringify JNull = ''null''"
| "stringify (JBool b) = (if b then ''true'' else ''false'')"
| "stringify (JNum n) =
     (case n of Finite r \<Rightarrow> finite_text r | NegZero \<Rightarrow> ''0'' | _ \<Rightarrow> ''null'')"
| "stringify (JStr t) = quote t"
| "stringify (JArr xs) = ''['' @ stringify_elements xs @ '']''"
| "stringify (JObj kvs) = ''{'' @ stringify_members kvs @ ''}''"
| "stringify_elements [] = []"
| "stringify_elements [x] = stringify x"
| "stringify_elements (x # y # ys) = stringify x @ '','' @ stringify_elements (y # ys)"
| "stringify_members [] = []"
| "stringify_members [(k, v)] = quote k @ '':'' @ stringify v"
| "stringify_members ((k, v) # m # ms) =
     quote k @ '':'' @ stringify v @ '','' @ stringify_members (m # ms)"

fun to_string :: "json \<Rightarrow> string"
  and to_string_elements :: "json list \<Rightarrow> string" where
  "to_string JNull = ''null''"
| "to_string (JBool b) = (if b then ''true'' else ''false'')"
| "to_string (JNum n) =
     (case n of Finite r \<Rightarrow> finite_text r | NegZero \<Rightarrow> ''0'' | PosInf \<Rightarrow> ''Infinity''
      | NegInf \<Rightarrow> ''-Infinity'' | NaN \<Rightarrow> ''NaN'')"
| "to_string (JStr t) = t"
| "to_string (JArr xs) = to_string_elements xs"
| "to_string (JObj kvs) = ''[object Object]''"
| "to_string_elements [] = []"
| "to_string_elements [x] = (if x = JNull then [] else to_string x)"
| "to_string_elements (x # y # ys) =
     (if x = JNull then [] else to_string x) @ '','' @ to_string_elements (y # ys)"

text \<open>
  The conversion to a number is exact on \<open>undefined\<close>, \<open>null\<close>, booleans,
  numbers and objects; the examples compare no string and no array with a number.
\<close>

definition sample_builtins :: builtins where
  "sample_builtins =
     \<lparr>JSON_parse = sample_parse, JSON_stringify = stringify,
      ToString = (\<lambda>v. case v of None \<Rightarrow> ''undefined'' | Some j \<Rightarrow> to_string j),
      ToNumber = (\<lambda>v. case v of Some (JNum n) \<Rightarrow> n | Some JNull \<Rightarrow> Finite 0
                          | Some (JBool b) \<Rightarrow> Finite (if b then 1 else 0) | _ \<Rightarrow> NaN)\<rparr>"

definition sample_config :: app_config where
  "sample_config = \<lparr>maxProductsToDisplay = Some 3\<rparr>"

definition catalog_response :: json where
  "catalog_response =
     JObj [(''content'', JArr [JObj [(''type'', JStr ''text''), (''text'', JStr products_text)]])]"

definition text_response :: "string \<Rightarrow> json" where
  "text_response t = JObj [(''content'', JArr [JObj [(''type'', JStr ''text''), (''text'', JStr t)]])]"

definition auth_response :: json where
  "auth_response =
     JObj [(''error'', JObj [(''type'', JStr ''auth_required''),
                             (''data'', JStr ''https://shop.example/authorize'')])]"

definition failure_response :: json where
  "failure_response =
     JObj [(''error'', JObj [(''type'', JStr ''internal_error''),
                             (''data'', JStr ''tool failed'')])]"

definition sample_callTool :: "string \<Rightarrow> exn + json" where
  "sample_callTool toolName =
     (if toolName = ''search_shop_catalog'' then Inr catalog_response
      else if toolName = ''get_cart'' then Inr auth_response
      else Inr failure_response)"

definition scripted ::
  "(stream_chunk list \<times> exn option) list \<Rightarrow> stored_message list \<Rightarrow> nat services" where
  "scripted script rows =
     \<lparr>completions_create =
        (\<lambda>w ms. (if w < length script then script ! w else ([], None), Suc w)),
      callTool = (\<lambda>w toolName toolArgs. (sample_callTool toolName, w)),
      saveMessage = (\<lambda>w cid r c. (None, w)),
      getConversationHistory = (\<lambda>w cid. (Inr (map Some rows), w))\<rparr>"

text \<open>Completions: one tool call in a single chunk, and plain text.\<close>

definition tool_call_completion :: "string \<Rightarrow> string \<Rightarrow> stream_chunk list \<times> exn option" where
  "tool_call_completion toolName arguments =
     ([\<lparr>delta_content = None,
        delta_tool_calls = [\<lparr>d_index = 0, d_id = Some ''call_1'', d_name = Some toolName,
                              d_arguments = Some arguments\<rparr>],
        finish_reason = Some ''tool_calls''\<rparr>], None)"

definition text_completion :: "string \<Rightarrow> stream_chunk list \<times> exn option" where
  "text_completion t =
     ([\<lparr>delta_content = Some t, delta_tool_calls = [], finish_reason = None\<rparr>,
       \<lparr>delta_content = None, delta_tool_calls = [], finish_reason = Some ''stop''\<rparr>], None)"

definition failed_completion :: "stream_chunk list \<times> exn option" where
  "failed_completion = ([], Some (ServiceError ''provider unreachable''))"

definition red_shoe :: product_summary where
  "red_shoe =
     \<lparr>ps_id = GivenId (JStr ''p1''), ps_title = JStr ''Red shoe'', ps_price = ''USD 49.00'',
      ps_image_url = JStr [], ps_description = JStr [], ps_url = JStr []\<rparr>"


text \<open>A session at the start of a completion: the user's message is the working history.\<close>

definition sample_session :: "nat session" where
  "sample_session =
     \<lparr>events = [], conversationHistory = [plain_message ''user'' ''show me red shoes''],
      productsToDisplay = [], world = 0\<rparr>"

text \<open>
  The scripted collaborators with a store that rejects every row, and with tool
  servers that cannot be reached.
\<close>

definition unsaved :: "(stream_chunk list \<times> exn option) list \<Rightarrow> nat services" where
  "unsaved script =
     (scripted script [])
       \<lparr>saveMessage := (\<lambda>w cid r c. (Some (ServiceError ''store unavailable''), w))\<rparr>"

definition unreachable :: "(stream_chunk list \<times> exn option) list \<Rightarrow> nat services" where
  "unreachable script =
     (scripted script [])
       \<lparr>callTool := (\<lambda>w toolName toolArgs. (Inl (ServiceError ''tool server unreachable''), w))\<rparr>"

text \<open>
  A catalog response whose text block carries its payload as an object with
  twelve products, and a response with an image block only.
\<close>

definition twelve_products_response :: json where
  "twelve_products_response =
     JObj [(''content'',
            JArr [JObj [(''type'', JStr ''text''),
                        (''text'', JObj [(''products'', JArr (replicate 12 (JObj [])))])]])]"

definition image_response :: json where
  "image_response =
     JObj [(''content'', JArr [JObj [(''type'', JStr ''image''), (''data'', JStr ''iVBORw0KGgo='')]])]"

text \<open>
  A successful response with a \<open>null\<close> among its content blocks, and tool
  servers that answer every call with it.
\<close>

definition null_block_response :: json where
  "null_block_response =
     JObj [(''content'', JArr [JObj [(''type'', JStr ''text''), (''text'', JStr ''one'')], JNull])]"

definition careless :: "nat services" where
  "careless =
     (scripted [] [])\<lparr>callTool := (\<lambda>w toolName toolArgs. (Inr null_block_response, w))\<rparr>"

section \<open>The sample runtime\<close>

text \<open>Each text the sample \<open>JSON.parse\<close> knows is the JSON text of its value.\<close>

lemma sample_texts:
  "stringify (JObj []) = args_text \<and>
   stringify products_json = products_text \<and>
   stringify four_products_json = four_products_text \<and>
   stringify (JArr [tool_call_json (Some search_call)]) = calls_text"
  by code_simp

lemma sample_parse_stringify:
  "v \<in> {JObj [], products_json, four_products_json, JArr [tool_call_json (Some search_call)]} \<Longrightarrow>
   sample_parse (stringify v) = Some v"
  by (elim insertE emptyE; hypsubst) code_simp+

section \<open>Properties of the truncated history\<close>

lemma slice_last4_length: "length (slice_last4 xs) \<le> 4"
  by (simp add: slice_last4_def)

lemma slice_last4_subset: "set (slice_last4 xs) \<subseteq> set xs"
  by (simp add: slice_last4_def set_drop_subset)

lemma keepMessage_role:
  "keepMessage bi msg \<Longrightarrow> sm_role msg = ''user'' \<or> sm_role msg = ''assistant''"
  by (auto simp: keepMessage_def split: if_splits sum.splits bool.splits)

lemma formatMessage_role: "msg_role (formatMessage bi msg) = sm_role msg"
  by (simp add: formatMessage_def plain_message_def split: option.splits json.splits)

lemma filter_rows_kept:
  "filter_rows bi rows = Inr kept \<Longrightarrow> list_all (keepMessage bi) kept"
proof (induction rows arbitrary: kept)
  case Nil
  then show ?case by simp
next
  case (Cons row rows)
  then show ?case by (cases row) (auto split: sum.splits if_splits)
qed

lemma filter_rows_all:
  "filter_rows bi (map Some rows) = Inr (filter (keepMessage bi) rows)"
  by (induction rows) simp_all

lemma filter_rows_null: "None \<in> set rows \<Longrightarrow> filter_rows bi rows = Inl TypeError"
proof (induction rows)
  case Nil
  then show ?case by simp
next
  case (Cons row rows)
  then show ?case by (cases row) (auto split: sum.splits)
qed

lemma filter_rows_throws: "filter_rows bi rows = Inl e \<Longrightarrow> None \<in> set rows"
proof (induction rows)
  case Nil
  then show ?case by simp
next
  case (Cons row rows)
  then show ?case by (cases row) (auto split: sum.splits)
qed

text \<open>
  C6. Whatever the store returns for a conversation (rows or an error) and whatever
  \<open>JSON.parse\<close> makes of each row, the truncated history has at most four
  messages, each of role \<open>user\<close> or \<open>assistant\<close>, none of role \<open>system\<close> or
  \<open>tool\<close>.
\<close>

theorem truncated_history_bounded:
  "length (getTruncatedHistory bi loaded) \<le> 4 \<and>
   list_all (\<lambda>m. msg_role m = ''user'' \<or> msg_role m = ''assistant'')
     (getTruncatedHistory bi loaded) \<and>
   list_all (\<lambda>m. msg_role m \<noteq> ''system'' \<and> msg_role m \<noteq> ''tool'')
     (getTruncatedHistory bi loaded)"
proof (cases "getTruncatedHistory_try bi loaded")
  case (Inl e)
  then show ?thesis by (simp add: getTruncatedHistory_def)
next
  case (Inr ms)
  then obtain rows kept where
    kept: "filter_rows bi rows = Inr kept" and ms: "ms = map (formatMessage bi) (slice_last4 kept)"
    by (auto simp: getTruncatedHistory_try_def split: sum.splits)
  from filter_rows_kept [OF kept] slice_last4_subset [of kept]
  have "\<forall>r \<in> set (slice_last4 kept). keepMessage bi r" by (auto simp: list_all_iff)
  then have roles: "list_all (\<lambda>m. msg_role m = ''user'' \<or> msg_role m = ''assistant'') ms"
    by (auto simp: ms list_all_iff formatMessage_role dest: keepMessage_role)
  then have "list_all (\<lambda>m. msg_role m \<noteq> ''system'' \<and> msg_role m \<noteq> ''tool'') ms"
    by (auto simp: list_all_iff)
  with roles Inr show ?thesis
    by (simp add: getTruncatedHistory_def ms slice_last4_length)
qed

text \<open>
  C10. Loading the truncated history returns a list in every case, so nothing
  reaches the caller as an exception: the empty list when reading the stored
  messages fails, the empty list when processing them fails (the body under the
  outer \<open>try\<close> throws, which it does exactly when the read failed or a row is
  \<open>null\<close>), and otherwise the formatted last four kept rows. A row whose
  content does not parse, or whose parsed content cannot be inspected, is handled
  inside and is no failure.
\<close>

theorem truncated_history_never_raises:
  "getTruncatedHistory bi (Inl e) = [] \<and>
   (getTruncatedHistory_try bi loaded = Inl e \<longrightarrow> getTruncatedHistory bi loaded = []) \<and>
   (None \<in> set stored \<longrightarrow> getTruncatedHistory bi (Inr stored) = []) \<and>
   getTruncatedHistory bi (Inr (map Some rows)) = truncate_rows bi rows \<and>
   ((\<exists>e. getTruncatedHistory_try bi loaded = Inl e) =
      ((\<exists>e. loaded = Inl e) \<or> (\<exists>stored. loaded = Inr stored \<and> None \<in> set stored)))"
proof -
  have a: "getTruncatedHistory bi (Inl e) = []"
    by (simp add: getTruncatedHistory_def getTruncatedHistory_try_def)
  have b: "getTruncatedHistory bi loaded = []" if "getTruncatedHistory_try bi loaded = Inl e"
    using that by (simp add: getTruncatedHistory_def)
  have c: "getTruncatedHistory bi (Inr stored) = []" if "None \<in> set stored"
    using filter_rows_null [OF that, of bi]
    by (simp add: getTruncatedHistory_def getTruncatedHistory_try_def)
  have d: "getTruncatedHistory bi (Inr (map Some rows)) = truncate_rows bi rows"
    by (simp add: getTruncatedHistory_def getTruncatedHistory_try_def filter_rows_all
        truncate_rows_def)
  have f: "(\<exists>e. getTruncatedHistory_try bi loaded = Inl e) =
      ((\<exists>e. loaded = Inl e) \<or> (\<exists>stored. loaded = Inr stored \<and> None \<in> set stored))"
  proof (cases loaded)
    case (Inl e')
    then show ?thesis by (simp add: getTruncatedHistory_try_def)
  next
    case (Inr stored)
    show ?thesis
    proof (cases "filter_rows bi stored")
      case (Inl e')
      from filter_rows_throws [OF this] Inl Inr show ?thesis
        by (simp add: getTruncatedHistory_try_def)
    next
      case kept: (Inr kept)
      with filter_rows_null [of stored bi] Inr show ?thesis
        by (auto simp: getTruncatedHistory_try_def)
    qed
  qed
  from a b c d f show ?thesis by blast
qed

text \<open>A store that rejects; a \<open>null\<close> row among the rows; two rows of plain text.\<close>

theorem truncated_history_never_raises_witness:
  "getTruncatedHistory sample_builtins (Inl (ServiceError ''store unreachable'')) = [] \<and>
   getTruncatedHistory_try sample_builtins
     (Inr [Some \<lparr>sm_role = ''user'', sm_content = ''hi''\<rparr>, None]) = Inl TypeError \<and>
   None \<in> set [Some \<lparr>sm_role = ''user'', sm_content = ''hi''\<rparr>, None] \<and>
   getTruncatedHistory sample_builtins
     (Inr [Some \<lparr>sm_role = ''user'', sm_content = ''hi''\<rparr>, None]) = [] \<and>
   getTruncatedHistory sample_builtins
     (Inr [Some \<lparr>sm_role = ''user'', sm_content = ''hi''\<rparr>,
           Some \<lparr>sm_role = ''assistant'', sm_content = ''Hello''\<rparr>]) =
     [plain_message ''user'' ''hi'', plain_message ''assistant'' ''Hello'']"
proof -
  let ?stored = "[Some \<lparr>sm_role = ''user'', sm_content = ''hi''\<rparr>, None]"
  have t: "getTruncatedHistory_try sample_builtins (Inr ?stored) = Inl TypeError" by code_simp
  have n: "None \<in> set ?stored" by simp
  have r: "truncate_rows sample_builtins
             [\<lparr>sm_role = ''user'', sm_content = ''hi''\<rparr>,
              \<lparr>sm_role = ''assistant'', sm_content = ''Hello''\<rparr>] =
           [plain_message ''user'' ''hi'', plain_message ''assistant'' ''Hello'']"
    by code_simp
  note th = truncated_history_never_raises [of sample_builtins _ "Inr ?stored" ?stored
      "[\<lparr>sm_role = ''user'', sm_content = ''hi''\<rparr>,
        \<lparr>sm_role = ''assistant'', sm_content = ''Hello''\<rparr>]"]
  from th [of "ServiceError ''store unreachable''"]
  have a: "getTruncatedHistory sample_builtins (Inl (ServiceError ''store unreachable'')) = []"
    by blast
  from th [of TypeError] t n
  have b: "getTruncatedHistory sample_builtins (Inr ?stored) = []" by blast
  from th [of TypeError] r
  have c: "getTruncatedHistory sample_builtins
     (Inr [Some \<lparr>sm_role = ''user'', sm_content = ''hi''\<rparr>,
           Some \<lparr>sm_role = ''assistant'', sm_content = ''Hello''\<rparr>]) =
     [plain_message ''user'' ''hi'', plain_message ''assistant'' ''Hello'']"
    by simp
  from a t n b c show ?thesis by blast
qed

section \<open>Properties of the event stream and the working history\<close>

lemma emit_simps [simp]:
  "events (emit e s) = events s @ [e]"
  "conversationHistory (emit e s) = conversationHistory s"
  "productsToDisplay (emit e s) = productsToDisplay s"
  "world (emit e s) = world s"
  by (simp_all add: emit_def)

lemma read_stream_frame:
  "read_stream chs s t tcs = (s1, t1, tcs1, f) \<Longrightarrow>
   (\<exists>cs. events s1 = events s @ cs \<and> list_all is_chunk cs) \<and>
   conversationHistory s1 = conversationHistory s \<and>
   productsToDisplay s1 = productsToDisplay s \<and> world s1 = world s"
proof (induction chs arbitrary: s t tcs)
  case Nil
  then show ?case by simp
next
  case (Cons ch chs)
  show ?case
  proof (cases "nonempty (finish_reason ch)")
    case True
    with Cons.prems show ?thesis by (auto simp: Let_def split: if_splits)
  next
    case False
    let ?s = "if nonempty (delta_content ch) then emit (Chunk (the (delta_content ch))) s else s"
    from False Cons.prems obtain t' tcs' where
      rec: "read_stream chs ?s t' tcs' = (s1, t1, tcs1, f)"
      by (auto simp: Let_def split: if_splits)
    from Cons.IH [OF rec] obtain cs where
      cs: "events s1 = events ?s @ cs" "list_all is_chunk cs"
      and fr: "conversationHistory s1 = conversationHistory ?s"
        "productsToDisplay s1 = productsToDisplay ?s" "world s1 = world ?s"
      by blast
    show ?thesis
    proof (cases "nonempty (delta_content ch)")
      case True
      with cs fr show ?thesis by (auto intro!: exI [of _ "Chunk (the (delta_content ch)) # cs"])
    next
      case False
      with cs fr show ?thesis by auto
    qed
  qed
qed

lemma onMessage_simps [simp]:
  "events (onMessage bi sv cid m s) = events s @ [MessageComplete]"
  "conversationHistory (onMessage bi sv cid m s) = conversationHistory s @ [m]"
  "productsToDisplay (onMessage bi sv cid m s) = productsToDisplay s"
  by (simp_all add: onMessage_def Let_def)

lemma tool_outcome_events:
  "events (fst (tool_outcome bi cfg n resp s)) = events s \<or>
   events (fst (tool_outcome bi cfg n resp s)) = events s @ [AuthRequired]"
  by (simp add: tool_outcome_def Let_def split: sum.splits)

lemma tool_outcome_history [simp]:
  "conversationHistory (fst (tool_outcome bi cfg n resp s)) = conversationHistory s"
  by (simp add: tool_outcome_def Let_def split: sum.splits)

lemma tool_outcome_world [simp]:
  "world (fst (tool_outcome bi cfg n resp s)) = world s"
  by (simp add: tool_outcome_def Let_def split: sum.splits)

lemma tool_outcome_handled:
  "response_handled bi resp \<Longrightarrow> \<exists>c. snd (tool_outcome bi cfg n resp s) = Inr c"
  by (auto simp: tool_outcome_def response_handled_def Let_def split: sum.splits)

lemma onToolUse_products:
  "\<exists>ps. productsToDisplay (fst (onToolUse bi sv cfg cid tid n a s)) = productsToDisplay s @ ps"
proof -
  let ?s2 = "emit (ToolUse (tool_use_message bi n a)) s\<lparr>world := snd (callTool sv (world s) n a)\<rparr>"
  have po: "\<exists>ps. productsToDisplay (fst (tool_outcome bi cfg n resp ?s2)) = productsToDisplay s @ ps" for resp
    by (simp add: tool_outcome_def Let_def split: sum.splits)
  show ?thesis
  proof (cases "fst (callTool sv (world s) n a)")
    case (Inl e)
    then show ?thesis by (simp add: onToolUse_def Let_def)
  next
    case (Inr resp)
    with po [of resp] show ?thesis
      by (cases "tool_outcome bi cfg n resp ?s2")
         (auto simp: onToolUse_def Let_def split: sum.splits option.splits)
  qed
qed

lemma onToolUse_returning:
  assumes "tools_return bi sv cid"
  shows "\<exists>c blk. conversationHistory (fst (onToolUse bi sv cfg cid tid n a s)) =
                    conversationHistory s @ [tool_message tid c] \<and>
                  events (fst (onToolUse bi sv cfg cid tid n a s)) =
                    events s @ ToolUse (tool_use_message bi n a) # blk \<and>
                  (blk = [NewMessage] \<or> blk = [AuthRequired, NewMessage])"
proof -
  let ?s2 = "emit (ToolUse (tool_use_message bi n a)) s\<lparr>world := snd (callTool sv (world s) n a)\<rparr>"
  from assms have "case fst (callTool sv (world s) n a) of
                     Inl e \<Rightarrow> False | Inr resp \<Rightarrow> response_handled bi resp"
    by (simp add: tools_return_def)
  then obtain resp where
    resp: "fst (callTool sv (world s) n a) = Inr resp" "response_handled bi resp"
    by (cases "fst (callTool sv (world s) n a)") auto
  from assms have saved: "fst (saveMessage sv w cid ''tool'' c) = None" for w c
    by (simp add: tools_return_def)
  from tool_outcome_handled [OF resp(2)] obtain c where
    c: "snd (tool_outcome bi cfg n resp ?s2) = Inr c" by blast
  have ev: "events ?s2 = events s @ [ToolUse (tool_use_message bi n a)]" by simp
  from tool_outcome_events [of bi cfg n resp ?s2] ev
  have "events (fst (tool_outcome bi cfg n resp ?s2)) = events s @ [ToolUse (tool_use_message bi n a)] \<or>
        events (fst (tool_outcome bi cfg n resp ?s2)) = events s @ [ToolUse (tool_use_message bi n a), AuthRequired]"
    by auto
  moreover have "conversationHistory (fst (tool_outcome bi cfg n resp ?s2)) = conversationHistory s"
    by simp
  ultimately show ?thesis using resp(1) c saved
    by (cases "tool_outcome bi cfg n resp ?s2")
       (auto simp: onToolUse_def Let_def split: sum.splits option.splits)
qed

lemma scan_Idle_any: "scan Idle es \<Longrightarrow> scan p es"
proof (cases es)
  case Nil
  then show ?thesis by simp
next
  case (Cons e es')
  assume "scan Idle es"
  with Cons show ?thesis by (cases e; cases p) simp_all
qed

lemma onToolUse_cases:
  "\<exists>blk ms. events (fst (onToolUse bi sv cfg cid tid n a s)) =
               events s @ ToolUse (tool_use_message bi n a) # blk \<and>
             conversationHistory (fst (onToolUse bi sv cfg cid tid n a s)) =
               conversationHistory s @ ms \<and>
             ((blk = [] \<or> blk = [AuthRequired]) \<and> (ms = [] \<or> (\<exists>x. ms = [tool_message tid x])) \<or>
              (blk = [NewMessage] \<or> blk = [AuthRequired, NewMessage]) \<and>
                (\<exists>x. ms = [tool_message tid x]))"
proof -
  let ?s2 = "emit (ToolUse (tool_use_message bi n a)) s\<lparr>world := snd (callTool sv (world s) n a)\<rparr>"
  show ?thesis
  proof (cases "fst (callTool sv (world s) n a)")
    case (Inl e)
    then show ?thesis by (simp add: onToolUse_def Let_def)
  next
    case (Inr resp)
    have ev: "events ?s2 = events s @ [ToolUse (tool_use_message bi n a)]" by simp
    from tool_outcome_events [of bi cfg n resp ?s2] ev
    have "events (fst (tool_outcome bi cfg n resp ?s2)) = events s @ [ToolUse (tool_use_message bi n a)] \<or>
          events (fst (tool_outcome bi cfg n resp ?s2)) = events s @ [ToolUse (tool_use_message bi n a), AuthRequired]"
      by auto
    moreover have "conversationHistory (fst (tool_outcome bi cfg n resp ?s2)) = conversationHistory s"
      by simp
    ultimately show ?thesis using Inr
      by (cases "tool_outcome bi cfg n resp ?s2")
         (auto simp: onToolUse_def Let_def split: sum.splits option.splits)
  qed
qed

lemma try_tool_call_trace:
  "\<exists>es ms ps.
     events (try_tool_call bi sv cfg cid c s) = events s @ es \<and>
     conversationHistory (try_tool_call bi sv cfg cid c s) = conversationHistory s @ ms \<and>
     productsToDisplay (try_tool_call bi sv cfg cid c s) = productsToDisplay s @ ps \<and>
     (if parseable bi c
      then \<exists>t blk. es = ToolUse t # blk \<and>
             ((blk = [] \<or> blk = [AuthRequired]) \<and> (ms = [] \<or> (\<exists>x. ms = [tool_message (call_id c) x])) \<or>
              (blk = [NewMessage] \<or> blk = [AuthRequired, NewMessage]) \<and>
                (\<exists>x. ms = [tool_message (call_id c) x]))
      else es = [] \<and> ms = [])"
proof (cases "parseable bi c")
  case False
  then have "try_tool_call bi sv cfg cid c s = s"
    by (auto simp: try_tool_call_def parseable_def split: option.splits)
  with False show ?thesis by simp
next
  case True
  then obtain tc a where c: "c = Some tc" "JSON_parse bi (tc_arguments tc) = Some a"
    by (auto simp: parseable_def split: option.splits)
  then have
    "try_tool_call bi sv cfg cid c s = fst (onToolUse bi sv cfg cid (call_id c) (tc_name tc) a s)"
    by (simp add: try_tool_call_def call_id_def)
  with True onToolUse_cases [of bi sv cfg cid "call_id c" "tc_name tc" a s]
    onToolUse_products [of bi sv cfg cid "call_id c" "tc_name tc" a s]
  show ?thesis by fastforce
qed

lemma process_tool_calls_trace:
  "\<exists>es ms ps.
     events (process_tool_calls bi sv cfg cid calls s) = events s @ es \<and>
     conversationHistory (process_tool_calls bi sv cfg cid calls s) = conversationHistory s @ ms \<and>
     productsToDisplay (process_tool_calls bi sv cfg cid calls s) = productsToDisplay s @ ps \<and>
     tool_blocks es \<and>
     count_event is_tool_use es = length (parseable_calls bi calls) \<and>
     list_all (\<lambda>m. msg_role m = ''tool'') ms \<and>
     length ms \<le> length (parseable_calls bi calls) \<and>
     count_event (\<lambda>e. e = NewMessage) es \<le> length ms"
proof (induction calls arbitrary: s)
  case Nil
  show ?case by (simp add: tool_blocks_def count_event_def parseable_calls_def)
next
  case (Cons c calls)
  let ?s1 = "try_tool_call bi sv cfg cid c s"
  from Cons.IH [of ?s1] obtain es ms ps where
    ih: "events (process_tool_calls bi sv cfg cid calls ?s1) = events ?s1 @ es"
      "conversationHistory (process_tool_calls bi sv cfg cid calls ?s1) = conversationHistory ?s1 @ ms"
      "productsToDisplay (process_tool_calls bi sv cfg cid calls ?s1) = productsToDisplay ?s1 @ ps"
      "tool_blocks es"
      "count_event is_tool_use es = length (parseable_calls bi calls)"
      "list_all (\<lambda>m. msg_role m = ''tool'') ms"
      "length ms \<le> length (parseable_calls bi calls)"
      "count_event (\<lambda>e. e = NewMessage) es \<le> length ms"
    by blast
  from try_tool_call_trace [of bi sv cfg cid c s] obtain es1 ms1 ps1 where
    st: "events ?s1 = events s @ es1"
      "conversationHistory ?s1 = conversationHistory s @ ms1"
      "productsToDisplay ?s1 = productsToDisplay s @ ps1"
      "if parseable bi c
       then \<exists>t blk. es1 = ToolUse t # blk \<and>
             ((blk = [] \<or> blk = [AuthRequired]) \<and> (ms1 = [] \<or> (\<exists>x. ms1 = [tool_message (call_id c) x])) \<or>
              (blk = [NewMessage] \<or> blk = [AuthRequired, NewMessage]) \<and>
                (\<exists>x. ms1 = [tool_message (call_id c) x]))
       else es1 = [] \<and> ms1 = []"
    by blast
  have shape: "tool_blocks (es1 @ es)"
    using st(4) ih(4) scan_Idle_any [of es AfterToolUse] scan_Idle_any [of es AfterAuth]
    by (auto simp: tool_blocks_def split: if_splits)
  have cnt: "count_event is_tool_use (es1 @ es) = length (parseable_calls bi (c # calls))"
    using st(4) ih(5) by (auto simp: count_event_def parseable_calls_def split: if_splits)
  have roles: "list_all (\<lambda>m. msg_role m = ''tool'') (ms1 @ ms)"
    using st(4) ih(6) by (auto simp: tool_message_def split: if_splits)
  have len: "length (ms1 @ ms) \<le> length (parseable_calls bi (c # calls))"
    using st(4) ih(7) by (auto simp: parseable_calls_def split: if_splits)
  have nm: "count_event (\<lambda>e. e = NewMessage) (es1 @ es) \<le> length (ms1 @ ms)"
    using st(4) ih(8) by (auto simp: count_event_def split: if_splits)
  have "events (process_tool_calls bi sv cfg cid (c # calls) s) = events s @ (es1 @ es)"
    "conversationHistory (process_tool_calls bi sv cfg cid (c # calls) s) = conversationHistory s @ (ms1 @ ms)"
    "productsToDisplay (process_tool_calls bi sv cfg cid (c # calls) s) = productsToDisplay s @ (ps1 @ ps)"
    using ih(1-3) st(1-3) by simp_all
  with shape cnt roles len nm show ?case by blast
qed

lemma try_tool_call_returning:
  assumes "tools_return bi sv cid"
  shows "\<exists>es ms.
     events (try_tool_call bi sv cfg cid c s) = events s @ es \<and>
     conversationHistory (try_tool_call bi sv cfg cid c s) = conversationHistory s @ ms \<and>
     map msg_tool_call_id ms = map call_id (filter (parseable bi) [c]) \<and>
     count_event (\<lambda>e. e = NewMessage) es = length (filter (parseable bi) [c])"
proof (cases "parseable bi c")
  case False
  then have "try_tool_call bi sv cfg cid c s = s"
    by (auto simp: try_tool_call_def parseable_def split: option.splits)
  with False show ?thesis by (simp add: count_event_def)
next
  case True
  then obtain tc a where c: "c = Some tc" "JSON_parse bi (tc_arguments tc) = Some a"
    by (auto simp: parseable_def split: option.splits)
  then have
    "try_tool_call bi sv cfg cid c s = fst (onToolUse bi sv cfg cid (call_id c) (tc_name tc) a s)"
    by (simp add: try_tool_call_def call_id_def)
  with True onToolUse_returning [OF assms, of cfg "call_id c" "tc_name tc" a s]
  show ?thesis by (fastforce simp: count_event_def tool_message_def)
qed

lemma process_tool_calls_returning:
  assumes "tools_return bi sv cid"
  shows "\<exists>es ms.
     events (process_tool_calls bi sv cfg cid calls s) = events s @ es \<and>
     conversationHistory (process_tool_calls bi sv cfg cid calls s) = conversationHistory s @ ms \<and>
     map msg_tool_call_id ms = map call_id (parseable_calls bi calls) \<and>
     count_event (\<lambda>e. e = NewMessage) es = length (parseable_calls bi calls)"
proof (induction calls arbitrary: s)
  case Nil
  show ?case by (simp add: count_event_def parseable_calls_def)
next
  case (Cons c calls)
  let ?s1 = "try_tool_call bi sv cfg cid c s"
  from Cons.IH [of ?s1] obtain es ms where
    ih: "events (process_tool_calls bi sv cfg cid calls ?s1) = events ?s1 @ es"
      "conversationHistory (process_tool_calls bi sv cfg cid calls ?s1) = conversationHistory ?s1 @ ms"
      "map msg_tool_call_id ms = map call_id (parseable_calls bi calls)"
      "count_event (\<lambda>e. e = NewMessage) es = length (parseable_calls bi calls)"
    by blast
  from try_tool_call_returning [OF assms, of cfg c s] obtain es1 ms1 where
    st: "events ?s1 = events s @ es1"
      "conversationHistory ?s1 = conversationHistory s @ ms1"
      "map msg_tool_call_id ms1 = map call_id (filter (parseable bi) [c])"
      "count_event (\<lambda>e. e = NewMessage) es1 = length (filter (parseable bi) [c])"
    by blast
  have "events (process_tool_calls bi sv cfg cid (c # calls) s) = events s @ (es1 @ es)"
    "conversationHistory (process_tool_calls bi sv cfg cid (c # calls) s) = conversationHistory s @ (ms1 @ ms)"
    using ih(1,2) st(1,2) by simp_all
  moreover have "map msg_tool_call_id (ms1 @ ms) = map call_id (parseable_calls bi (c # calls))"
    using ih(3) st(3) by (simp add: parseable_calls_def)
  moreover have "count_event (\<lambda>e. e = NewMessage) (es1 @ es) = length (parseable_calls bi (c # calls))"
    using ih(4) st(4) by (simp add: parseable_calls_def count_event_def)
  ultimately show ?case by blast
qed

lemma scan_loop_event: "scan p es \<Longrightarrow> list_all loop_event es"
proof (induction es arbitrary: p)
  case Nil
  show ?case by simp
next
  case (Cons e es)
  then show ?case by (cases e; cases p) auto
qed

lemma is_chunk_loop_event: "list_all is_chunk cs \<Longrightarrow> list_all loop_event cs"
proof (induction cs)
  case Nil
  show ?case by simp
next
  case (Cons e cs)
  then show ?case by (cases e) auto
qed

lemma after_message_complete_chunks:
  "list_all is_chunk cs \<Longrightarrow> after_message_complete (cs @ MessageComplete # es) = es"
proof (induction cs)
  case Nil
  show ?case by (simp add: after_message_complete_def)
next
  case (Cons e cs)
  then show ?case by (cases e) (auto simp: after_message_complete_def)
qed

lemma after_message_complete_none:
  "list_all is_chunk cs \<Longrightarrow> after_message_complete cs = []"
proof (induction cs)
  case Nil
  show ?case by (simp add: after_message_complete_def)
next
  case (Cons e cs)
  then show ?case by (cases e) (auto simp: after_message_complete_def)
qed

lemma streamConversation_trace:
  "\<exists>cs. list_all is_chunk cs \<and>
     (case snd (streamConversation bi sv cfg cid s) of
        Inl e \<Rightarrow>
          events (fst (streamConversation bi sv cfg cid s)) = events s @ cs \<and>
          conversationHistory (fst (streamConversation bi sv cfg cid s)) = conversationHistory s \<and>
          productsToDisplay (fst (streamConversation bi sv cfg cid s)) = productsToDisplay s
      | Inr m \<Rightarrow>
          (\<exists>es ms ps.
             events (fst (streamConversation bi sv cfg cid s)) = events s @ cs @ MessageComplete # es \<and>
             conversationHistory (fst (streamConversation bi sv cfg cid s)) =
               conversationHistory s @ m # ms \<and>
             productsToDisplay (fst (streamConversation bi sv cfg cid s)) = productsToDisplay s @ ps \<and>
             tool_blocks es \<and>
             count_event is_tool_use es = length (parseable_calls bi (requested_calls (Inr m))) \<and>
             list_all (\<lambda>m. msg_role m = ''tool'') ms \<and>
             length ms \<le> length (parseable_calls bi (requested_calls (Inr m))) \<and>
             count_event (\<lambda>e. e = NewMessage) es \<le> length ms \<and>
             (tools_return bi sv cid \<longrightarrow>
                map msg_tool_call_id ms = map call_id (parseable_calls bi (requested_calls (Inr m))) \<and>
                count_event (\<lambda>e. e = NewMessage) es =
                  length (parseable_calls bi (requested_calls (Inr m))))))"
proof -
  let ?created = "completions_create sv (world s) (conversationHistory s)"
  let ?s0 = "s\<lparr>world := snd ?created\<rparr>"
  obtain s1 body toolCalls fin where
    rs: "read_stream (fst (fst ?created)) ?s0 [] [] = (s1, body, toolCalls, fin)"
    by (cases "read_stream (fst (fst ?created)) ?s0 [] []") auto
  from read_stream_frame [OF rs] obtain cs where
    cs: "events s1 = events s @ cs" "list_all is_chunk cs"
    and fr: "conversationHistory s1 = conversationHistory s" "productsToDisplay s1 = productsToDisplay s"
    by auto
  show ?thesis
  proof (cases "if fin then None else snd (fst ?created)")
    case (Some e)
    with rs cs fr show ?thesis
      by (auto simp: streamConversation_def Let_def intro!: exI [of _ cs])
  next
    case None
    let ?m = "assistant_message body toolCalls"
    let ?s2 = "onMessage bi sv cid ?m s1"
    have res: "streamConversation bi sv cfg cid s = (process_tool_calls bi sv cfg cid toolCalls ?s2, Inr ?m)"
      using rs None by (simp add: streamConversation_def Let_def)
    have rc: "requested_calls (Inr ?m) = toolCalls"
      by (simp add: requested_calls_def assistant_message_def)
    from process_tool_calls_trace [of bi sv cfg cid toolCalls ?s2] obtain es ms ps where
      tr: "events (process_tool_calls bi sv cfg cid toolCalls ?s2) = events ?s2 @ es"
        "conversationHistory (process_tool_calls bi sv cfg cid toolCalls ?s2) = conversationHistory ?s2 @ ms"
        "productsToDisplay (process_tool_calls bi sv cfg cid toolCalls ?s2) = productsToDisplay ?s2 @ ps"
        "tool_blocks es"
        "count_event is_tool_use es = length (parseable_calls bi toolCalls)"
        "list_all (\<lambda>m. msg_role m = ''tool'') ms"
        "length ms \<le> length (parseable_calls bi toolCalls)"
        "count_event (\<lambda>e. e = NewMessage) es \<le> length ms"
      by blast
    have rel: "map msg_tool_call_id ms = map call_id (parseable_calls bi toolCalls) \<and>
               count_event (\<lambda>e. e = NewMessage) es = length (parseable_calls bi toolCalls)"
      if "tools_return bi sv cid"
      using process_tool_calls_returning [OF that, of cfg toolCalls ?s2] tr(1,2) by auto
    have "events (process_tool_calls bi sv cfg cid toolCalls ?s2) = events s @ cs @ MessageComplete # es"
      "conversationHistory (process_tool_calls bi sv cfg cid toolCalls ?s2) = conversationHistory s @ ?m # ms"
      "productsToDisplay (process_tool_calls bi sv cfg cid toolCalls ?s2) = productsToDisplay s @ ps"
      using tr(1-3) cs(1) fr by simp_all
    with tr(4-8) rel have
      "\<exists>es ms ps.
         events (process_tool_calls bi sv cfg cid toolCalls ?s2) = events s @ cs @ MessageComplete # es \<and>
         conversationHistory (process_tool_calls bi sv cfg cid toolCalls ?s2) =
           conversationHistory s @ ?m # ms \<and>
         productsToDisplay (process_tool_calls bi sv cfg cid toolCalls ?s2) = productsToDisplay s @ ps \<and>
         tool_blocks es \<and>
         count_event is_tool_use es = length (parseable_calls bi toolCalls) \<and>
         list_all (\<lambda>m. msg_role m = ''tool'') ms \<and>
         length ms \<le> length (parseable_calls bi toolCalls) \<and>
         count_event (\<lambda>e. e = NewMessage) es \<le> length ms \<and>
         (tools_return bi sv cid \<longrightarrow>
            map msg_tool_call_id ms = map call_id (parseable_calls bi toolCalls) \<and>
            count_event (\<lambda>e. e = NewMessage) es = length (parseable_calls bi toolCalls))"
      by blast
    with cs(2) show ?thesis
      by (intro exI [of _ cs]) (simp only: res rc fst_conv snd_conv sum.case)
  qed
qed

lemma scan_no_message_complete: "scan p es \<Longrightarrow> MessageComplete \<notin> set es"
proof (induction es arbitrary: p)
  case Nil
  show ?case by simp
next
  case (Cons e es)
  then show ?case by (cases e; cases p) auto
qed

lemma chunks_no_message_complete: "list_all is_chunk cs \<Longrightarrow> MessageComplete \<notin> set cs"
  by (auto simp: list_all_iff)

lemma count_event_none: "x \<notin> set es \<Longrightarrow> count_event (\<lambda>e. e = x) es = 0"
  by (induction es) (auto simp: count_event_def)

lemma count_event_append [simp]:
  "count_event p (xs @ ys) = count_event p xs + count_event p ys"
  by (simp add: count_event_def)

lemma streamConversation_events:
  "\<exists>es ps. events (fst (streamConversation bi sv cfg cid s)) = events s @ es \<and>
     productsToDisplay (fst (streamConversation bi sv cfg cid s)) = productsToDisplay s @ ps \<and>
     list_all loop_event es \<and>
     count_event (\<lambda>e. e = MessageComplete) es =
       (case snd (streamConversation bi sv cfg cid s) of Inl e \<Rightarrow> 0 | Inr m \<Rightarrow> 1)"
proof -
  from streamConversation_trace [of bi sv cfg cid s] obtain cs where
    cs: "list_all is_chunk cs"
    and tr: "case snd (streamConversation bi sv cfg cid s) of
        Inl e \<Rightarrow>
          events (fst (streamConversation bi sv cfg cid s)) = events s @ cs \<and>
          conversationHistory (fst (streamConversation bi sv cfg cid s)) = conversationHistory s \<and>
          productsToDisplay (fst (streamConversation bi sv cfg cid s)) = productsToDisplay s
      | Inr m \<Rightarrow>
          (\<exists>es ms ps.
             events (fst (streamConversation bi sv cfg cid s)) = events s @ cs @ MessageComplete # es \<and>
             conversationHistory (fst (streamConversation bi sv cfg cid s)) =
               conversationHistory s @ m # ms \<and>
             productsToDisplay (fst (streamConversation bi sv cfg cid s)) = productsToDisplay s @ ps \<and>
             tool_blocks es \<and>
             count_event is_tool_use es = length (parseable_calls bi (requested_calls (Inr m))) \<and>
             list_all (\<lambda>m. msg_role m = ''tool'') ms \<and>
             length ms \<le> length (parseable_calls bi (requested_calls (Inr m))) \<and>
             count_event (\<lambda>e. e = NewMessage) es \<le> length ms \<and>
             (tools_return bi sv cid \<longrightarrow>
                map msg_tool_call_id ms = map call_id (parseable_calls bi (requested_calls (Inr m))) \<and>
                count_event (\<lambda>e. e = NewMessage) es =
                  length (parseable_calls bi (requested_calls (Inr m)))))"
    by blast
  have c0: "count_event (\<lambda>e. e = MessageComplete) cs = 0"
    using cs by (simp add: count_event_none chunks_no_message_complete)
  show ?thesis
  proof (cases "snd (streamConversation bi sv cfg cid s)")
    case (Inl e)
    with tr cs c0 show ?thesis
      by (auto simp: is_chunk_loop_event intro!: exI [of _ cs] exI [of _ "[]"])
  next
    case (Inr m)
    with tr obtain es ps where
      es: "events (fst (streamConversation bi sv cfg cid s)) = events s @ cs @ MessageComplete # es"
        "productsToDisplay (fst (streamConversation bi sv cfg cid s)) = productsToDisplay s @ ps"
        "tool_blocks es"
      by auto
    have "list_all loop_event (cs @ MessageComplete # es)"
      using cs es(3) by (simp add: is_chunk_loop_event scan_loop_event tool_blocks_def)
    moreover have "count_event (\<lambda>e. e = MessageComplete) (cs @ MessageComplete # es) = 1"
      using c0 es(3) count_event_none [OF scan_no_message_complete, of Idle es]
      by (simp add: tool_blocks_def) (simp add: count_event_def)
    ultimately show ?thesis using es(1,2) Inr by auto
  qed
qed

lemma conversation_loop_step:
  "conversation_loop bi sv cfg cid mx it s =
     (if it < mx then
        (case snd (streamConversation bi sv cfg cid s) of
           Inl e \<Rightarrow> (fst (streamConversation bi sv cfg cid s), Some e, Suc it)
         | Inr m \<Rightarrow>
             if requested_calls (Inr m) = []
             then (fst (streamConversation bi sv cfg cid s), None, Suc it)
             else conversation_loop bi sv cfg cid mx (Suc it) (fst (streamConversation bi sv cfg cid s)))
      else (s, None, it))"
  by (subst conversation_loop.simps)
     (cases "streamConversation bi sv cfg cid s",
      simp add: requested_calls_def split: sum.splits option.splits)

lemma conversation_loop_trace:
  "\<exists>es ps.
     events (fst (conversation_loop bi sv cfg cid mx it s)) = events s @ es \<and>
     productsToDisplay (fst (conversation_loop bi sv cfg cid mx it s)) = productsToDisplay s @ ps \<and>
     list_all loop_event es \<and>
     count_event (\<lambda>e. e = MessageComplete) es \<le> mx - it \<and>
     it \<le> snd (snd (conversation_loop bi sv cfg cid mx it s)) \<and>
     snd (snd (conversation_loop bi sv cfg cid mx it s)) \<le> max it mx"
proof (induction "mx - it" arbitrary: it s)
  case 0
  then have "conversation_loop bi sv cfg cid mx it s = (s, None, it)"
    by (subst conversation_loop_step) simp
  then show ?case by (simp add: count_event_def)
next
  case (Suc k)
  let ?r = "streamConversation bi sv cfg cid s"
  from Suc.hyps(2) have lt: "it < mx" by simp
  from streamConversation_events [of bi sv cfg cid s] obtain es1 ps1 where
    st: "events (fst ?r) = events s @ es1"
      "productsToDisplay (fst ?r) = productsToDisplay s @ ps1"
      "list_all loop_event es1"
      "count_event (\<lambda>e. e = MessageComplete) es1 = (case snd ?r of Inl e \<Rightarrow> 0 | Inr m \<Rightarrow> 1)"
    by blast
  have c1: "count_event (\<lambda>e. e = MessageComplete) es1 \<le> 1"
    using st(4) by (simp split: sum.splits)
  show ?case
  proof (cases "\<exists>m. snd ?r = Inr m \<and> requested_calls (Inr m) \<noteq> []")
    case False
    then have "conversation_loop bi sv cfg cid mx it s =
                 (fst ?r, (case snd ?r of Inl e \<Rightarrow> Some e | Inr m \<Rightarrow> None), Suc it)"
      using lt by (subst conversation_loop_step) (auto split: sum.splits)
    with st c1 lt show ?thesis by auto
  next
    case True
    then have step: "conversation_loop bi sv cfg cid mx it s =
                       conversation_loop bi sv cfg cid mx (Suc it) (fst ?r)"
      using lt by (subst conversation_loop_step) auto
    have "k = mx - Suc it" using Suc.hyps(2) by simp
    from Suc.hyps(1) [OF this, of "fst ?r"] obtain es ps where
      ih: "events (fst (conversation_loop bi sv cfg cid mx (Suc it) (fst ?r))) = events (fst ?r) @ es"
        "productsToDisplay (fst (conversation_loop bi sv cfg cid mx (Suc it) (fst ?r))) =
           productsToDisplay (fst ?r) @ ps"
        "list_all loop_event es"
        "count_event (\<lambda>e. e = MessageComplete) es \<le> mx - Suc it"
        "Suc it \<le> snd (snd (conversation_loop bi sv cfg cid mx (Suc it) (fst ?r)))"
        "snd (snd (conversation_loop bi sv cfg cid mx (Suc it) (fst ?r))) \<le> max (Suc it) mx"
      by blast
    have "events (fst (conversation_loop bi sv cfg cid mx it s)) = events s @ (es1 @ es)"
      "productsToDisplay (fst (conversation_loop bi sv cfg cid mx it s)) = productsToDisplay s @ (ps1 @ ps)"
      using ih(1,2) st(1,2) step by simp_all
    moreover have "list_all loop_event (es1 @ es)" using st(3) ih(3) by simp
    moreover have "count_event (\<lambda>e. e = MessageComplete) (es1 @ es) \<le> mx - it"
      using c1 ih(4) lt by simp
    moreover have "it \<le> snd (snd (conversation_loop bi sv cfg cid mx it s))"
      "snd (snd (conversation_loop bi sv cfg cid mx it s)) \<le> max it mx"
      using ih(5,6) step lt by simp_all
    ultimately show ?thesis by blast
  qed
qed

lemma delivered_streamConversation:
  "completions_delivered sv \<Longrightarrow> \<exists>m. snd (streamConversation bi sv cfg cid s) = Inr m"
  by (cases "read_stream (fst (fst (completions_create sv (world s) (conversationHistory s))))
               (s\<lparr>world := snd (completions_create sv (world s) (conversationHistory s))\<rparr>) [] []")
     (simp add: streamConversation_def completions_delivered_def Let_def)

lemma conversation_loop_no_exception:
  assumes "\<forall>s. \<exists>m. snd (streamConversation bi sv cfg cid s) = Inr m"
  shows "fst (snd (conversation_loop bi sv cfg cid mx it s)) = None"
proof (induction "mx - it" arbitrary: it s)
  case 0
  then show ?case by (subst conversation_loop_step) simp
next
  case (Suc k)
  from assms obtain m where m: "snd (streamConversation bi sv cfg cid s) = Inr m" by blast
  have "k = mx - Suc it" using Suc.hyps(2) by simp
  from Suc.hyps(1) [OF this] m show ?case
    by (subst conversation_loop_step) simp
qed


lemma handleChatSession_trace:
  "\<exists>es. list_all loop_event es \<and>
     count_event (\<lambda>e. e = MessageComplete) es \<le> maxIterations \<and>
     (case snd (handleChatSession bi sv cfg cid um w) of
        Some e \<Rightarrow> events (fst (handleChatSession bi sv cfg cid um w)) = ConversationId cid # es
      | None \<Rightarrow>
          events (fst (handleChatSession bi sv cfg cid um w)) =
            ConversationId cid # es @ EndTurn #
              (if productsToDisplay (fst (handleChatSession bi sv cfg cid um w)) = [] then []
               else [ProductResults (productsToDisplay (fst (handleChatSession bi sv cfg cid um w)))]))"
proof (cases "fst (saveMessage sv w cid ''user'' (Some um))")
  case (Some e)
  then show ?thesis
    by (auto simp: handleChatSession_def Let_def count_event_def intro!: exI [of _ "[]"])
next
  case None
  let ?loaded = "getConversationHistory sv (snd (saveMessage sv w cid ''user'' (Some um))) cid"
  let ?s1 = "\<lparr>events = [ConversationId cid],
              conversationHistory = getTruncatedHistory bi (fst ?loaded) @ [plain_message ''user'' um],
              productsToDisplay = [], world = snd ?loaded\<rparr>"
  let ?l = "conversation_loop bi sv cfg cid maxIterations 0 ?s1"
  from conversation_loop_trace [of bi sv cfg cid maxIterations 0 ?s1] obtain es ps where
    tr: "events (fst ?l) = events ?s1 @ es" "list_all loop_event es"
      "count_event (\<lambda>e. e = MessageComplete) es \<le> maxIterations"
    by auto
  obtain s2 err n where l: "?l = (s2, err, n)" by (cases ?l) auto
  with tr have ev: "events s2 = ConversationId cid # es" by simp
  show ?thesis
  proof (cases err)
    case (Some e)
    with None l ev tr(2,3) show ?thesis
      by (auto simp: handleChatSession_def Let_def intro!: exI [of _ es])
  next
    case err: None
    with None l ev tr(2,3) show ?thesis
      by (auto simp: handleChatSession_def Let_def intro!: exI [of _ es])
  qed
qed

lemma loop_events_from_end_turn:
  "list_all loop_event es \<Longrightarrow> from_end_turn (es @ EndTurn # rest) = EndTurn # rest"
  by (induction es) (auto simp: from_end_turn_def)

lemma loop_events_no_end_turn:
  "list_all loop_event es \<Longrightarrow> from_end_turn es = [] \<and> count_event (\<lambda>e. e = EndTurn) es = 0"
  by (induction es) (auto simp: from_end_turn_def count_event_def)

lemma loop_events_no_product_results:
  "list_all loop_event es \<Longrightarrow> filter is_product_results es = []"
proof (induction es)
  case Nil
  show ?case by simp
next
  case (Cons e es)
  then show ?case by (cases e) auto
qed

text \<open>
  C3 (as amended). The stream carries at most one \<open>product_results\<close> event: it
  is there exactly when the session ran to its end with products gathered, it
  carries all of them, and it is the last event, sent right after \<open>end_turn\<close>
  (not before it or with it).
\<close>

theorem product_results_follow_end_turn:
  "filter is_product_results (events (fst (handleChatSession bi sv cfg cid um w))) =
     (if snd (handleChatSession bi sv cfg cid um w) = None \<and>
         productsToDisplay (fst (handleChatSession bi sv cfg cid um w)) \<noteq> []
      then [ProductResults (productsToDisplay (fst (handleChatSession bi sv cfg cid um w)))]
      else []) \<and>
   from_end_turn (events (fst (handleChatSession bi sv cfg cid um w))) =
     (case snd (handleChatSession bi sv cfg cid um w) of
        Some e \<Rightarrow> []
      | None \<Rightarrow>
          EndTurn #
            (if productsToDisplay (fst (handleChatSession bi sv cfg cid um w)) = [] then []
             else [ProductResults (productsToDisplay (fst (handleChatSession bi sv cfg cid um w)))]))"
proof -
  let ?r = "handleChatSession bi sv cfg cid um w"
  from handleChatSession_trace [of bi sv cfg cid um w] obtain es where
    es: "list_all loop_event es"
    and tr: "case snd ?r of
        Some e \<Rightarrow> events (fst ?r) = ConversationId cid # es
      | None \<Rightarrow>
          events (fst ?r) =
            ConversationId cid # es @ EndTurn #
              (if productsToDisplay (fst ?r) = [] then []
               else [ProductResults (productsToDisplay (fst ?r))])"
    by blast
  show ?thesis
  proof (cases "snd ?r")
    case (Some e)
    with tr have ev: "events (fst ?r) = ConversationId cid # es" by simp
    have "from_end_turn (ConversationId cid # es) = from_end_turn es"
      by (simp add: from_end_turn_def)
    with Some es show ?thesis
      by (simp add: ev loop_events_no_product_results loop_events_no_end_turn)
  next
    case None
    with tr have ev: "events (fst ?r) =
            ConversationId cid # es @ EndTurn #
              (if productsToDisplay (fst ?r) = [] then []
               else [ProductResults (productsToDisplay (fst ?r))])" by simp
    have "from_end_turn (events (fst ?r)) =
            EndTurn # (if productsToDisplay (fst ?r) = [] then []
               else [ProductResults (productsToDisplay (fst ?r))])"
      using loop_events_from_end_turn [OF es] by (subst ev) (simp add: from_end_turn_def)
    moreover have "filter is_product_results (events (fst ?r)) =
            (if productsToDisplay (fst ?r) = [] then []
               else [ProductResults (productsToDisplay (fst ?r))])"
      using loop_events_no_product_results [OF es] by (subst ev) simp
    ultimately show ?thesis using None by simp
  qed
qed

text \<open>
  The catalog search of the spec's example: \<open>product_results\<close> is the event after
  \<open>end_turn\<close>.
\<close>

theorem product_results_follow_end_turn_counterexample:
  "events (fst (handleChatSession sample_builtins
     (scripted [tool_call_completion ''search_shop_catalog'' args_text,
                text_completion ''Here are red shoes''] [])
     sample_config ''c1'' ''show me red shoes'' 0)) =
   [ConversationId ''c1'', MessageComplete,
    ToolUse ''Calling tool: search_shop_catalog with arguments: {}'', NewMessage,
    Chunk ''Here are red shoes'', MessageComplete, EndTurn, ProductResults [red_shoe]]"
  by code_simp

lemma handleChatSession_delivered:
  assumes "\<forall>s. \<exists>m. snd (streamConversation bi sv cfg cid s) = Inr m"
    and "user_message_stored sv cid um"
  shows "snd (handleChatSession bi sv cfg cid um w) = None"
proof -
  let ?loaded = "getConversationHistory sv (snd (saveMessage sv w cid ''user'' (Some um))) cid"
  let ?s1 = "\<lparr>events = [ConversationId cid],
              conversationHistory = getTruncatedHistory bi (fst ?loaded) @ [plain_message ''user'' um],
              productsToDisplay = [], world = snd ?loaded\<rparr>"
  let ?l = "conversation_loop bi sv cfg cid maxIterations 0 ?s1"
  from assms(2) have saved: "fst (saveMessage sv w cid ''user'' (Some um)) = None"
    by (simp add: user_message_stored_def)
  from conversation_loop_no_exception [OF assms(1), of maxIterations 0 ?s1]
  obtain s2 n where "?l = (s2, None, n)" by (cases ?l) auto
  with saved show ?thesis by (simp add: handleChatSession_def Let_def)
qed

lemma handleChatSession_end_turn:
  "count_event (\<lambda>e. e = EndTurn) (events (fst (handleChatSession bi sv cfg cid um w))) =
     (case snd (handleChatSession bi sv cfg cid um w) of None \<Rightarrow> 1 | Some e \<Rightarrow> 0) \<and>
   list_all (\<lambda>e. \<not> is_chunk e \<and> \<not> is_tool_use e)
     (from_end_turn (events (fst (handleChatSession bi sv cfg cid um w))))"
proof -
  let ?r = "handleChatSession bi sv cfg cid um w"
  from handleChatSession_trace [of bi sv cfg cid um w] obtain es where
    es: "list_all loop_event es"
    and tr: "case snd ?r of
        Some e \<Rightarrow> events (fst ?r) = ConversationId cid # es
      | None \<Rightarrow>
          events (fst ?r) =
            ConversationId cid # es @ EndTurn #
              (if productsToDisplay (fst ?r) = [] then []
               else [ProductResults (productsToDisplay (fst ?r))])"
    by blast
  have fe: "from_end_turn (ConversationId cid # xs) = from_end_turn xs" for xs
    by (simp add: from_end_turn_def)
  have ce: "count_event (\<lambda>e. e = EndTurn) (ConversationId cid # xs) =
            count_event (\<lambda>e. e = EndTurn) xs" for xs
    by (simp add: count_event_def)
  show ?thesis
  proof (cases "snd ?r")
    case (Some e)
    with tr have ev: "events (fst ?r) = ConversationId cid # es" by simp
    show ?thesis using Some loop_events_no_end_turn [OF es] by (simp add: ev fe ce)
  next
    case None
    with tr have ev: "events (fst ?r) =
            ConversationId cid # es @ EndTurn #
              (if productsToDisplay (fst ?r) = [] then []
               else [ProductResults (productsToDisplay (fst ?r))])" by simp
    have "count_event (\<lambda>e. e = EndTurn)
            (EndTurn # (if productsToDisplay (fst ?r) = [] then []
               else [ProductResults (productsToDisplay (fst ?r))])) = 1"
      by (simp add: count_event_def)
    then show ?thesis
      using None loop_events_no_end_turn [OF es] loop_events_from_end_turn [OF es]
      by (simp add: ev fe ce)
  qed
qed

lemma handleChatSession_completes:
  assumes "completions_delivered sv" and "user_message_stored sv cid um"
  shows "snd (handleChatSession bi sv cfg cid um w) = None \<and>
         count_event (\<lambda>e. e = EndTurn) (events (fst (handleChatSession bi sv cfg cid um w))) = 1"
proof -
  have "snd (handleChatSession bi sv cfg cid um w) = None"
    using handleChatSession_delivered [of bi sv cfg cid um w]
      delivered_streamConversation [OF assms(1)] assms(2) by blast
  with handleChatSession_end_turn [of bi sv cfg cid um w] show ?thesis by simp
qed

lemma turn_failure_ends_loop:
  "it + k < mx \<Longrightarrow> turn_state bi sv cfg cid k s = Some sk \<Longrightarrow>
   snd (streamConversation bi sv cfg cid sk) = Inl e \<Longrightarrow>
   fst (snd (conversation_loop bi sv cfg cid mx it s)) = Some e"
proof (induction k arbitrary: it s)
  case 0
  then show ?case by (subst conversation_loop_step) simp
next
  case (Suc k)
  from Suc.prems(2) obtain m where
    m: "snd (streamConversation bi sv cfg cid s) = Inr m" "requested_calls (Inr m) \<noteq> []"
    and rest: "turn_state bi sv cfg cid k (fst (streamConversation bi sv cfg cid s)) = Some sk"
    by (auto split: sum.splits if_splits)
  from Suc.prems(1) have "Suc it + k < mx" by simp
  from Suc.IH [OF this rest Suc.prems(3)] m Suc.prems(1) show ?case
    by (subst conversation_loop_step) simp
qed

lemma loop_ends_by_turn_failure:
  "fst (snd (conversation_loop bi sv cfg cid mx it s)) = Some e \<Longrightarrow>
   \<exists>k sk. it + k < mx \<and> turn_state bi sv cfg cid k s = Some sk \<and>
          snd (streamConversation bi sv cfg cid sk) = Inl e"
proof (induction "mx - it" arbitrary: it s)
  case 0
  then show ?case by (subst (asm) conversation_loop_step) simp
next
  case (Suc n)
  from Suc.hyps(2) have lt: "it < mx" by simp
  show ?case
  proof (cases "snd (streamConversation bi sv cfg cid s)")
    case (Inl e')
    with Suc.prems lt have "e' = e" by (subst (asm) conversation_loop_step) simp
    with Inl lt show ?thesis by (intro exI [of _ 0] exI [of _ s]) simp
  next
    case (Inr m)
    show ?thesis
    proof (cases "requested_calls (Inr m) = []")
      case True
      with Inr Suc.prems lt show ?thesis by (subst (asm) conversation_loop_step) simp
    next
      case False
      with Inr Suc.prems lt have
        rec: "fst (snd (conversation_loop bi sv cfg cid mx (Suc it)
                (fst (streamConversation bi sv cfg cid s)))) = Some e"
        by (subst (asm) conversation_loop_step) simp
      have "n = mx - Suc it" using Suc.hyps(2) by simp
      from Suc.hyps(1) [OF this rec] obtain k sk where
        k: "Suc it + k < mx"
          "turn_state bi sv cfg cid k (fst (streamConversation bi sv cfg cid s)) = Some sk"
          "snd (streamConversation bi sv cfg cid sk) = Inl e"
        by blast
      with Inr False show ?thesis
        by (intro exI [of _ "Suc k"] exI [of _ sk]) simp
    qed
  qed
qed

lemma handleChatSession_unsaved:
  "fst (saveMessage sv w cid ''user'' (Some um)) = Some e \<Longrightarrow>
   snd (handleChatSession bi sv cfg cid um w) = Some e \<and>
   events (fst (handleChatSession bi sv cfg cid um w)) = [ConversationId cid]"
  by (simp add: handleChatSession_def Let_def)

lemma handleChatSession_seeded:
  "fst (saveMessage sv w cid ''user'' (Some um)) = None \<Longrightarrow>
   snd (handleChatSession bi sv cfg cid um w) =
     fst (snd (conversation_loop bi sv cfg cid maxIterations 0 (seeded bi sv cid um w)))"
  by (cases "conversation_loop bi sv cfg cid maxIterations 0 (seeded bi sv cid um w)";
      cases "fst (snd (conversation_loop bi sv cfg cid maxIterations 0 (seeded bi sv cid um w)))")
     (auto simp: handleChatSession_def seeded_def Let_def)

lemma handleChatSession_rethrows:
  "(snd (handleChatSession bi sv cfg cid um w) = Some e) =
     (fst (saveMessage sv w cid ''user'' (Some um)) = Some e \<or>
      fst (saveMessage sv w cid ''user'' (Some um)) = None \<and>
      (\<exists>k sk. k < maxIterations \<and>
         turn_state bi sv cfg cid k (seeded bi sv cid um w) = Some sk \<and>
         snd (streamConversation bi sv cfg cid sk) = Inl e))"
proof (cases "fst (saveMessage sv w cid ''user'' (Some um))")
  case (Some e')
  with handleChatSession_unsaved [OF Some, of bi cfg] show ?thesis by auto
next
  case None
  note loop = handleChatSession_seeded [OF None, of bi cfg]
  show ?thesis
  proof
    assume "snd (handleChatSession bi sv cfg cid um w) = Some e"
    with loop have
      "fst (snd (conversation_loop bi sv cfg cid maxIterations 0 (seeded bi sv cid um w))) = Some e"
      by simp
    from loop_ends_by_turn_failure [OF this] None show
      "fst (saveMessage sv w cid ''user'' (Some um)) = Some e \<or>
       fst (saveMessage sv w cid ''user'' (Some um)) = None \<and>
       (\<exists>k sk. k < maxIterations \<and>
          turn_state bi sv cfg cid k (seeded bi sv cid um w) = Some sk \<and>
          snd (streamConversation bi sv cfg cid sk) = Inl e)"
      by auto
  next
    assume "fst (saveMessage sv w cid ''user'' (Some um)) = Some e \<or>
       fst (saveMessage sv w cid ''user'' (Some um)) = None \<and>
       (\<exists>k sk. k < maxIterations \<and>
          turn_state bi sv cfg cid k (seeded bi sv cid um w) = Some sk \<and>
          snd (streamConversation bi sv cfg cid sk) = Inl e)"
    with None obtain k sk where
      k: "0 + k < maxIterations" "turn_state bi sv cfg cid k (seeded bi sv cid um w) = Some sk"
        "snd (streamConversation bi sv cfg cid sk) = Inl e"
      by auto
    from turn_failure_ends_loop [OF k] loop
    show "snd (handleChatSession bi sv cfg cid um w) = Some e" by simp
  qed
qed

text \<open>
  C4 (as amended). In every chat session \<open>end_turn\<close> is sent at most once: once
  when \<open>handleChatSession\<close> returns, not at all when it rethrows an error; and
  no \<open>chunk\<close> and no \<open>tool_use\<close> event follows it. The session rethrows in two
  cases and in no other: the store rejects the user's message, and then the
  conversation id is the only event sent; or the store accepts it and the
  completion call of some turn that the loop reaches fails, and then the loop
  ends with that error. When every completion is delivered and the user's
  message is stored, the session returns.
\<close>

theorem end_turn_once:
  "count_event (\<lambda>e. e = EndTurn) (events (fst (handleChatSession bi sv cfg cid um w))) =
     (case snd (handleChatSession bi sv cfg cid um w) of None \<Rightarrow> 1 | Some e \<Rightarrow> 0) \<and>
   list_all (\<lambda>e. \<not> is_chunk e \<and> \<not> is_tool_use e)
     (from_end_turn (events (fst (handleChatSession bi sv cfg cid um w)))) \<and>
   (completions_delivered sv \<and> user_message_stored sv cid um \<longrightarrow>
      snd (handleChatSession bi sv cfg cid um w) = None) \<and>
   (fst (saveMessage sv w cid ''user'' (Some um)) = Some e \<longrightarrow>
      snd (handleChatSession bi sv cfg cid um w) = Some e \<and>
      events (fst (handleChatSession bi sv cfg cid um w)) = [ConversationId cid]) \<and>
   (fst (saveMessage sv w cid ''user'' (Some um)) = None \<and> k < maxIterations \<and>
    turn_state bi sv cfg cid k (seeded bi sv cid um w) = Some sk \<and>
    snd (streamConversation bi sv cfg cid sk) = Inl e \<longrightarrow>
      snd (handleChatSession bi sv cfg cid um w) = Some e \<and>
      count_event (\<lambda>e. e = EndTurn) (events (fst (handleChatSession bi sv cfg cid um w))) = 0) \<and>
   (snd (handleChatSession bi sv cfg cid um w) = Some e \<longrightarrow>
      fst (saveMessage sv w cid ''user'' (Some um)) = Some e \<or>
      fst (saveMessage sv w cid ''user'' (Some um)) = None \<and>
      (\<exists>k sk. k < maxIterations \<and>
         turn_state bi sv cfg cid k (seeded bi sv cid um w) = Some sk \<and>
         snd (streamConversation bi sv cfg cid sk) = Inl e))"
proof -
  note once = handleChatSession_end_turn [of bi sv cfg cid um w]
  have a: "snd (handleChatSession bi sv cfg cid um w) = None"
    if "completions_delivered sv" "user_message_stored sv cid um"
    using handleChatSession_completes [OF that] by simp
  have b: "snd (handleChatSession bi sv cfg cid um w) = Some e \<and>
      events (fst (handleChatSession bi sv cfg cid um w)) = [ConversationId cid]"
    if "fst (saveMessage sv w cid ''user'' (Some um)) = Some e"
    using that by (rule handleChatSession_unsaved)
  have c: "snd (handleChatSession bi sv cfg cid um w) = Some e \<and>
      count_event (\<lambda>e. e = EndTurn) (events (fst (handleChatSession bi sv cfg cid um w))) = 0"
    if "fst (saveMessage sv w cid ''user'' (Some um)) = None" "k < maxIterations"
      "turn_state bi sv cfg cid k (seeded bi sv cid um w) = Some sk"
      "snd (streamConversation bi sv cfg cid sk) = Inl e"
  proof -
    from that have "snd (handleChatSession bi sv cfg cid um w) = Some e"
      by (subst handleChatSession_rethrows) blast
    with once show ?thesis by simp
  qed
  have d: "fst (saveMessage sv w cid ''user'' (Some um)) = Some e \<or>
      fst (saveMessage sv w cid ''user'' (Some um)) = None \<and>
      (\<exists>k sk. k < maxIterations \<and>
         turn_state bi sv cfg cid k (seeded bi sv cid um w) = Some sk \<and>
         snd (streamConversation bi sv cfg cid sk) = Inl e)"
    if "snd (handleChatSession bi sv cfg cid um w) = Some e"
    using that by (simp only: handleChatSession_rethrows)
  from once a b c d show ?thesis by blast
qed

text \<open>
  A session whose first completion fails sends the conversation id and nothing
  else: no \<open>end_turn\<close>. So does a session whose store rejects the user's
  message.
\<close>

theorem end_turn_once_counterexample:
  "count_event (\<lambda>e. e = EndTurn)
     (events (fst (handleChatSession sample_builtins (scripted [failed_completion] [])
        sample_config ''c1'' ''show me red shoes'' 0))) = 0 \<and>
   events (fst (handleChatSession sample_builtins (scripted [failed_completion] [])
        sample_config ''c1'' ''show me red shoes'' 0)) = [ConversationId ''c1''] \<and>
   events (fst (handleChatSession sample_builtins (unsaved [text_completion ''Hello''])
        sample_config ''c1'' ''show me red shoes'' 0)) = [ConversationId ''c1'']"
  by code_simp

lemma scripted_text_delivered: "completions_delivered (scripted [text_completion t] rows)"
  by (simp add: completions_delivered_def scripted_def text_completion_def)

lemma scripted_stored: "user_message_stored (scripted script rows) cid um"
  by (simp add: user_message_stored_def scripted_def)

text \<open>
  A session with one completion of plain text; a session whose store rejects the
  user's message; a session whose second completion fails.
\<close>

theorem end_turn_once_witness:
  "completions_delivered (scripted [text_completion ''Hello''] []) \<and>
   user_message_stored (scripted [text_completion ''Hello''] []) ''c1'' ''hi'' \<and>
   snd (handleChatSession sample_builtins (scripted [text_completion ''Hello''] [])
          sample_config ''c1'' ''hi'' 0) = None \<and>
   events (fst (handleChatSession sample_builtins (scripted [text_completion ''Hello''] [])
          sample_config ''c1'' ''hi'' 0)) =
     [ConversationId ''c1'', Chunk ''Hello'', MessageComplete, EndTurn] \<and>
   fst (saveMessage (unsaved [text_completion ''Hello'']) 0 ''c1'' ''user'' (Some ''hi'')) =
     Some (ServiceError ''store unavailable'') \<and>
   snd (handleChatSession sample_builtins (unsaved [text_completion ''Hello''])
          sample_config ''c1'' ''hi'' 0) = Some (ServiceError ''store unavailable'') \<and>
   events (fst (handleChatSession sample_builtins (unsaved [text_completion ''Hello''])
          sample_config ''c1'' ''hi'' 0)) = [ConversationId ''c1''] \<and>
   fst (saveMessage
          (scripted [tool_call_completion ''search_shop_catalog'' args_text, failed_completion] [])
          0 ''c1'' ''user'' (Some ''show me red shoes'')) = None \<and>
   (1::nat) < maxIterations \<and>
   turn_state sample_builtins
     (scripted [tool_call_completion ''search_shop_catalog'' args_text, failed_completion] [])
     sample_config ''c1'' 1
     (seeded sample_builtins
        (scripted [tool_call_completion ''search_shop_catalog'' args_text, failed_completion] [])
        ''c1'' ''show me red shoes'' 0) \<noteq> None \<and>
   snd (streamConversation sample_builtins
     (scripted [tool_call_completion ''search_shop_catalog'' args_text, failed_completion] [])
     sample_config ''c1''
     (the (turn_state sample_builtins
        (scripted [tool_call_completion ''search_shop_catalog'' args_text, failed_completion] [])
        sample_config ''c1'' 1
        (seeded sample_builtins
           (scripted [tool_call_completion ''search_shop_catalog'' args_text, failed_completion] [])
           ''c1'' ''show me red shoes'' 0)))) = Inl (ServiceError ''provider unreachable'') \<and>
   snd (handleChatSession sample_builtins
     (scripted [tool_call_completion ''search_shop_catalog'' args_text, failed_completion] [])
     sample_config ''c1'' ''show me red shoes'' 0) = Some (ServiceError ''provider unreachable'') \<and>
   count_event (\<lambda>e. e = EndTurn)
     (events (fst (handleChatSession sample_builtins
        (scripted [tool_call_completion ''search_shop_catalog'' args_text, failed_completion] [])
        sample_config ''c1'' ''show me red shoes'' 0))) = 0 \<and>
   (fst (saveMessage (unsaved [text_completion ''Hello'']) 0 ''c1'' ''user'' (Some ''hi'')) =
      Some (ServiceError ''store unavailable'') \<or>
    fst (saveMessage (unsaved [text_completion ''Hello'']) 0 ''c1'' ''user'' (Some ''hi'')) = None \<and>
    (\<exists>k sk. k < maxIterations \<and>
       turn_state sample_builtins (unsaved [text_completion ''Hello'']) sample_config ''c1'' k
         (seeded sample_builtins (unsaved [text_completion ''Hello'']) ''c1'' ''hi'' 0) = Some sk \<and>
       snd (streamConversation sample_builtins (unsaved [text_completion ''Hello''])
              sample_config ''c1'' sk) = Inl (ServiceError ''store unavailable'')))"
proof -
  let ?hello = "scripted [text_completion ''Hello''] []"
  let ?closed = "unsaved [text_completion ''Hello'']"
  let ?failing =
    "scripted [tool_call_completion ''search_shop_catalog'' args_text, failed_completion] []"
  let ?turn = "turn_state sample_builtins ?failing sample_config ''c1'' 1
                 (seeded sample_builtins ?failing ''c1'' ''show me red shoes'' 0)"
  note hello = end_turn_once [of sample_builtins ?hello sample_config "''c1''" "''hi''" 0]
  note closed = end_turn_once [of sample_builtins ?closed sample_config "''c1''" "''hi''" 0
      "ServiceError ''store unavailable''"]
  note failing = end_turn_once [of sample_builtins ?failing sample_config "''c1''"
      "''show me red shoes''" 0 "ServiceError ''provider unreachable''" 1 "the ?turn"]
  have d: "completions_delivered ?hello" by (rule scripted_text_delivered)
  have u: "user_message_stored ?hello ''c1'' ''hi''" by (rule scripted_stored)
  from hello [THEN conjunct2, THEN conjunct2, THEN conjunct1] d u
  have n: "snd (handleChatSession sample_builtins ?hello sample_config ''c1'' ''hi'' 0) = None"
    by blast
  have ev: "events (fst (handleChatSession sample_builtins ?hello sample_config ''c1'' ''hi'' 0)) =
     [ConversationId ''c1'', Chunk ''Hello'', MessageComplete, EndTurn]"
    by code_simp
  have rej: "fst (saveMessage ?closed 0 ''c1'' ''user'' (Some ''hi'')) =
     Some (ServiceError ''store unavailable'')"
    by code_simp
  from closed [THEN conjunct2, THEN conjunct2, THEN conjunct2, THEN conjunct1] rej
  have r: "snd (handleChatSession sample_builtins ?closed sample_config ''c1'' ''hi'' 0) =
             Some (ServiceError ''store unavailable'')"
    "events (fst (handleChatSession sample_builtins ?closed sample_config ''c1'' ''hi'' 0)) =
       [ConversationId ''c1'']"
    by blast+
  from closed [THEN conjunct2, THEN conjunct2, THEN conjunct2, THEN conjunct2, THEN conjunct2] r(1)
  have only: "fst (saveMessage ?closed 0 ''c1'' ''user'' (Some ''hi'')) =
      Some (ServiceError ''store unavailable'') \<or>
    fst (saveMessage ?closed 0 ''c1'' ''user'' (Some ''hi'')) = None \<and>
    (\<exists>k sk. k < maxIterations \<and>
       turn_state sample_builtins ?closed sample_config ''c1'' k
         (seeded sample_builtins ?closed ''c1'' ''hi'' 0) = Some sk \<and>
       snd (streamConversation sample_builtins ?closed sample_config ''c1'' sk) =
         Inl (ServiceError ''store unavailable''))"
    by blast
  have acc: "fst (saveMessage ?failing 0 ''c1'' ''user'' (Some ''show me red shoes'')) = None"
    by code_simp
  have lt: "(1::nat) < maxIterations" by (simp add: maxIterations_def)
  have reached: "?turn \<noteq> None" by code_simp
  then have sk: "?turn = Some (the ?turn)" by simp
  have fails: "snd (streamConversation sample_builtins ?failing sample_config ''c1'' (the ?turn)) =
                 Inl (ServiceError ''provider unreachable'')"
    by code_simp
  from failing [THEN conjunct2, THEN conjunct2, THEN conjunct2, THEN conjunct2, THEN conjunct1]
    acc lt sk fails
  have f: "snd (handleChatSession sample_builtins ?failing sample_config ''c1''
                  ''show me red shoes'' 0) = Some (ServiceError ''provider unreachable'')"
    "count_event (\<lambda>e. e = EndTurn)
       (events (fst (handleChatSession sample_builtins ?failing sample_config ''c1''
          ''show me red shoes'' 0))) = 0"
    by blast+
  from d u n ev rej r only acc lt reached fails f show ?thesis by blast
qed







text \<open>
  What the handler, the loop over the tool calls and a whole completion add to the
  stream and to the working history, exactly.
\<close>

lemma tool_outcome_content:
  "snd (tool_outcome bi cfg n resp s) = snd (tool_outcome bi cfg n resp s')"
  by (simp add: tool_outcome_def Let_def split: sum.splits)

lemma tool_outcome_auth:
  "events (fst (tool_outcome bi cfg n resp s)) =
     events s @
     (if (case get_prop resp ''error'' of
            Inl e \<Rightarrow> False
          | Inr err \<Rightarrow>
              truthy err \<and> get_prop_opt err ''type'' = Inr (Some (JStr ''auth_required'')))
      then [AuthRequired] else [])"
  by (simp add: tool_outcome_def Let_def split: sum.splits)

lemma onToolUse_exact:
  "events (fst (onToolUse bi sv cfg cid tid n a s)) =
     events s @ handler_events bi sv cfg cid tid n a s \<and>
   conversationHistory (fst (onToolUse bi sv cfg cid tid n a s)) =
     conversationHistory s @ handler_replies bi sv cfg tid n a s \<and>
   (snd (onToolUse bi sv cfg cid tid n a s) = None) = tool_row_saved bi sv cfg cid tid n a s"
proof -
  let ?s2 = "emit (ToolUse (tool_use_message bi n a)) s\<lparr>world := snd (callTool sv (world s) n a)\<rparr>"
  show ?thesis
  proof (cases "fst (callTool sv (world s) n a)")
    case (Inl e)
    then show ?thesis
      by (simp add: onToolUse_def Let_def handler_events_def handler_replies_def
          tool_row_saved_def tool_answer_def auth_reported_def)
  next
    case (Inr resp)
    have c: "snd (tool_outcome bi cfg n resp ?s2) = snd (tool_outcome bi cfg n resp s)"
      by (rule tool_outcome_content)
    have ev: "events (fst (tool_outcome bi cfg n resp ?s2)) =
                events s @ ToolUse (tool_use_message bi n a) #
                  (if auth_reported sv n a s then [AuthRequired] else [])"
      using Inr by (simp add: tool_outcome_auth auth_reported_def)
    have h: "conversationHistory (fst (tool_outcome bi cfg n resp ?s2)) = conversationHistory s"
      "world (fst (tool_outcome bi cfg n resp ?s2)) = snd (callTool sv (world s) n a)"
      by simp_all
    obtain s3 out where o: "tool_outcome bi cfg n resp ?s2 = (s3, out)"
      by (cases "tool_outcome bi cfg n resp ?s2") auto
    with c ev h have s3: "snd (tool_outcome bi cfg n resp s) = out"
      "events s3 = events s @ ToolUse (tool_use_message bi n a) #
                  (if auth_reported sv n a s then [AuthRequired] else [])"
      "conversationHistory s3 = conversationHistory s"
      "world s3 = snd (callTool sv (world s) n a)"
      by simp_all
    show ?thesis
    proof (cases out)
      case (Inl e)
      with Inr o s3 show ?thesis
        by (simp add: onToolUse_def Let_def handler_events_def handler_replies_def
            tool_row_saved_def tool_answer_def)
    next
      case out: (Inr c)
      with Inr o s3 show ?thesis
        by (simp add: onToolUse_def Let_def handler_events_def handler_replies_def
            tool_row_saved_def tool_answer_def tool_message_def split: option.splits)
    qed
  qed
qed

lemma try_tool_call_exact:
  "events (try_tool_call bi sv cfg cid c s) = events s @ tool_events bi sv cfg cid [c] s \<and>
   conversationHistory (try_tool_call bi sv cfg cid c s) =
     conversationHistory s @ tool_replies bi sv cfg cid [c] s"
  using onToolUse_exact [of bi sv cfg cid _ _ _ s]
  by (simp add: try_tool_call_def split: option.splits)

lemma process_tool_calls_exact:
  "events (process_tool_calls bi sv cfg cid calls s) = events s @ tool_events bi sv cfg cid calls s \<and>
   conversationHistory (process_tool_calls bi sv cfg cid calls s) =
     conversationHistory s @ tool_replies bi sv cfg cid calls s"
proof (induction calls arbitrary: s)
  case Nil
  show ?case by simp
next
  case (Cons c calls)
  from Cons.IH [of "try_tool_call bi sv cfg cid c s"] try_tool_call_exact [of bi sv cfg cid c s]
  show ?case by simp
qed

lemma streamConversation_exact:
  assumes "snd (streamConversation bi sv cfg cid s) = Inr m"
  shows "fst (streamConversation bi sv cfg cid s) =
           process_tool_calls bi sv cfg cid (requested_calls (Inr m)) (after_completion bi sv cid s) \<and>
         conversationHistory (after_completion bi sv cid s) = conversationHistory s @ [m] \<and>
         (\<exists>cs. list_all is_chunk cs \<and>
            events (after_completion bi sv cid s) = events s @ cs @ [MessageComplete])"
proof -
  let ?created = "completions_create sv (world s) (conversationHistory s)"
  let ?s0 = "s\<lparr>world := snd ?created\<rparr>"
  obtain s1 body toolCalls fin where
    rs: "read_stream (fst (fst ?created)) ?s0 [] [] = (s1, body, toolCalls, fin)"
    by (cases "read_stream (fst (fst ?created)) ?s0 [] []") auto
  from read_stream_frame [OF rs] obtain cs where
    fr: "conversationHistory s1 = conversationHistory s" "events s1 = events s @ cs"
      "list_all is_chunk cs"
    by auto
  show ?thesis
  proof (cases "if fin then None else snd (fst ?created)")
    case (Some e)
    with rs assms show ?thesis by (simp add: streamConversation_def Let_def)
  next
    case None
    let ?m = "assistant_message body toolCalls"
    have res: "streamConversation bi sv cfg cid s =
                 (process_tool_calls bi sv cfg cid toolCalls (onMessage bi sv cid ?m s1), Inr ?m)"
      using rs None by (simp add: streamConversation_def Let_def)
    with assms have m: "m = ?m" by simp
    have rc: "requested_calls (Inr ?m) = toolCalls"
      by (simp add: requested_calls_def assistant_message_def)
    have ac: "after_completion bi sv cid s = onMessage bi sv cid ?m s1"
      using rs by (simp add: after_completion_def Let_def)
    from res m rc ac fr show ?thesis by auto
  qed
qed

lemma streamConversation_tool_events:
  "after_message_complete (emitted s (fst (streamConversation bi sv cfg cid s))) =
     tool_events bi sv cfg cid (requested_calls (snd (streamConversation bi sv cfg cid s)))
       (after_completion bi sv cid s)"
proof (cases "snd (streamConversation bi sv cfg cid s)")
  case (Inl e)
  from streamConversation_trace [of bi sv cfg cid s] Inl obtain cs where
    "list_all is_chunk cs" "events (fst (streamConversation bi sv cfg cid s)) = events s @ cs"
    by auto
  then show ?thesis using Inl
    by (simp add: emitted_def after_message_complete_none requested_calls_def)
next
  case (Inr m)
  from streamConversation_exact [OF Inr] obtain cs where
    f: "fst (streamConversation bi sv cfg cid s) =
           process_tool_calls bi sv cfg cid (requested_calls (Inr m)) (after_completion bi sv cid s)"
    and cs: "list_all is_chunk cs"
      "events (after_completion bi sv cid s) = events s @ cs @ [MessageComplete]"
    by blast
  have "events (fst (streamConversation bi sv cfg cid s)) =
          events s @ cs @ MessageComplete #
            tool_events bi sv cfg cid (requested_calls (Inr m)) (after_completion bi sv cid s)"
    using process_tool_calls_exact [of bi sv cfg cid "requested_calls (Inr m)"
        "after_completion bi sv cid s"] cs(2)
    by (simp add: f)
  then show ?thesis using Inr cs(1)
    by (simp add: emitted_def after_message_complete_chunks)
qed

lemma streamConversation_tool_replies:
  "appended s (fst (streamConversation bi sv cfg cid s)) =
     (case snd (streamConversation bi sv cfg cid s) of
        Inl e \<Rightarrow> []
      | Inr m \<Rightarrow>
          m # tool_replies bi sv cfg cid (requested_calls (Inr m)) (after_completion bi sv cid s))"
proof (cases "snd (streamConversation bi sv cfg cid s)")
  case (Inl e)
  from streamConversation_trace [of bi sv cfg cid s] Inl
  have "conversationHistory (fst (streamConversation bi sv cfg cid s)) = conversationHistory s"
    by auto
  then show ?thesis using Inl by (simp add: appended_def)
next
  case (Inr m)
  from streamConversation_exact [OF Inr] have
    f: "fst (streamConversation bi sv cfg cid s) =
           process_tool_calls bi sv cfg cid (requested_calls (Inr m)) (after_completion bi sv cid s)"
    and h: "conversationHistory (after_completion bi sv cid s) = conversationHistory s @ [m]"
    by blast+
  have "conversationHistory (fst (streamConversation bi sv cfg cid s)) =
          conversationHistory s @ m #
            tool_replies bi sv cfg cid (requested_calls (Inr m)) (after_completion bi sv cid s)"
    using process_tool_calls_exact [of bi sv cfg cid "requested_calls (Inr m)"
        "after_completion bi sv cid s"] h
    by (simp add: f)
  then show ?thesis using Inr by (simp add: appended_def)
qed

lemma tool_replies_answering:
  assumes "tools_answer bi sv"
  shows "map msg_tool_call_id (tool_replies bi sv cfg cid calls s) =
           map call_id (parseable_calls bi calls)"
proof (induction calls arbitrary: s)
  case Nil
  show ?case by (simp add: parseable_calls_def)
next
  case (Cons c calls)
  have one: "\<exists>x. tool_answer bi sv cfg n a s = Some x" for n a
  proof -
    from assms have "case fst (callTool sv (world s) n a) of
                       Inl e \<Rightarrow> False | Inr resp \<Rightarrow> response_handled bi resp"
      by (simp add: tools_answer_def)
    then obtain resp where
      resp: "fst (callTool sv (world s) n a) = Inr resp" "response_handled bi resp"
      by (cases "fst (callTool sv (world s) n a)") auto
    from tool_outcome_handled [OF resp(2), of cfg n s] resp(1) show ?thesis
      by (auto simp: tool_answer_def)
  qed
  show ?case
  proof (cases "parseable bi c")
    case False
    then show ?thesis using Cons.IH [of "try_tool_call bi sv cfg cid c s"]
      by (auto simp: parseable_def parseable_calls_def split: option.splits)
  next
    case True
    then obtain tc a where c: "c = Some tc" "JSON_parse bi (tc_arguments tc) = Some a"
      by (auto simp: parseable_def split: option.splits)
    from one [of "tc_name tc" a] obtain x where
      "tool_answer bi sv cfg (tc_name tc) a s = Some x" by blast
    with True c Cons.IH [of "try_tool_call bi sv cfg cid c s"] show ?thesis
      by (simp add: parseable_calls_def handler_replies_def call_id_def)
  qed
qed

lemma chunks_counts:
  "list_all is_chunk cs \<Longrightarrow>
   count_event is_tool_use cs = 0 \<and> count_event (\<lambda>e. e = NewMessage) cs = 0"
proof (induction cs)
  case Nil
  show ?case by (simp add: count_event_def)
next
  case (Cons e cs)
  then show ?case by (cases e) (auto simp: count_event_def)
qed

lemma streamConversation_tool_counts:
  "count_event is_tool_use (emitted s (fst (streamConversation bi sv cfg cid s))) =
     length (parseable_calls bi (requested_calls (snd (streamConversation bi sv cfg cid s)))) \<and>
   tool_blocks (after_message_complete (emitted s (fst (streamConversation bi sv cfg cid s)))) \<and>
   (tools_return bi sv cid \<longrightarrow>
      count_event (\<lambda>e. e = NewMessage) (emitted s (fst (streamConversation bi sv cfg cid s))) =
      count_event is_tool_use (emitted s (fst (streamConversation bi sv cfg cid s))))"
proof -
  let ?r = "streamConversation bi sv cfg cid s"
  from streamConversation_trace [of bi sv cfg cid s] obtain cs where
    cs: "list_all is_chunk cs"
    and tr: "case snd ?r of
        Inl e \<Rightarrow>
          events (fst ?r) = events s @ cs \<and>
          conversationHistory (fst ?r) = conversationHistory s \<and>
          productsToDisplay (fst ?r) = productsToDisplay s
      | Inr m \<Rightarrow>
          (\<exists>es ms ps.
             events (fst ?r) = events s @ cs @ MessageComplete # es \<and>
             conversationHistory (fst ?r) = conversationHistory s @ m # ms \<and>
             productsToDisplay (fst ?r) = productsToDisplay s @ ps \<and>
             tool_blocks es \<and>
             count_event is_tool_use es = length (parseable_calls bi (requested_calls (Inr m))) \<and>
             list_all (\<lambda>m. msg_role m = ''tool'') ms \<and>
             length ms \<le> length (parseable_calls bi (requested_calls (Inr m))) \<and>
             count_event (\<lambda>e. e = NewMessage) es \<le> length ms \<and>
             (tools_return bi sv cid \<longrightarrow>
                map msg_tool_call_id ms = map call_id (parseable_calls bi (requested_calls (Inr m))) \<and>
                count_event (\<lambda>e. e = NewMessage) es =
                  length (parseable_calls bi (requested_calls (Inr m)))))"
    by blast
  note c0 = chunks_counts [OF cs]
  show ?thesis
  proof (cases "snd ?r")
    case (Inl e)
    with tr have "emitted s (fst ?r) = cs" by (simp add: emitted_def)
    with Inl c0 cs show ?thesis
      by (simp add: after_message_complete_none requested_calls_def parseable_calls_def
          tool_blocks_def)
  next
    case (Inr m)
    with tr obtain es where
      es: "events (fst ?r) = events s @ cs @ MessageComplete # es"
        "tool_blocks es"
        "count_event is_tool_use es = length (parseable_calls bi (requested_calls (Inr m)))"
        "tools_return bi sv cid \<longrightarrow>
           count_event (\<lambda>e. e = NewMessage) es =
             length (parseable_calls bi (requested_calls (Inr m)))"
      by auto
    have em: "emitted s (fst ?r) = cs @ MessageComplete # es"
      using es(1) by (simp add: emitted_def)
    have "count_event is_tool_use (cs @ MessageComplete # es) = count_event is_tool_use es"
      "count_event (\<lambda>e. e = NewMessage) (cs @ MessageComplete # es) =
         count_event (\<lambda>e. e = NewMessage) es"
      using c0 by (simp_all add: count_event_def)
    with es(2-4) Inr cs show ?thesis
      by (simp add: em after_message_complete_chunks)
  qed
qed

text \<open>
  C1 (as amended). A turn of the conversation loop is one run of
  \<open>streamConversation\<close> from the state the turn before left, so what holds of a
  run from every state holds of every turn. In every such run, the number of
  \<open>tool_use\<close> events equals the number of tool-call requests of the final
  message whose arguments parse as JSON (a request whose arguments do not parse
  gets no event). The events after \<open>message_complete\<close> are blocks of a
  \<open>tool_use\<close>, then at most one \<open>auth_required\<close>, then at most one
  \<open>new_message\<close>, and they are exactly what the handlers of the requests that
  parse send, one after the other. A handler sends \<open>tool_use\<close>; then
  \<open>auth_required\<close> exactly when the tool's response reports an error of that
  type; then \<open>new_message\<close> exactly when the tool call returned, a tool message
  resulted and the store accepted the tool row. So a tool that reports
  \<open>auth_required\<close> gets both events when its row is stored and
  \<open>auth_required\<close> alone when it is not, and a tool call that throws gets
  neither. When every tool call returns and every tool row is stored, each
  \<open>tool_use\<close> has its \<open>new_message\<close>.
\<close>

theorem tool_use_events_per_completion:
  "count_event is_tool_use (emitted s (fst (streamConversation bi sv cfg cid s))) =
     length (parseable_calls bi (requested_calls (snd (streamConversation bi sv cfg cid s)))) \<and>
   tool_blocks (after_message_complete (emitted s (fst (streamConversation bi sv cfg cid s)))) \<and>
   after_message_complete (emitted s (fst (streamConversation bi sv cfg cid s))) =
     tool_events bi sv cfg cid (requested_calls (snd (streamConversation bi sv cfg cid s)))
       (after_completion bi sv cid s) \<and>
   emitted s (fst (onToolUse bi sv cfg cid toolUseId toolName toolArgs s)) =
     ToolUse (tool_use_message bi toolName toolArgs) #
     (if auth_reported sv toolName toolArgs s then [AuthRequired] else []) @
     (if tool_row_saved bi sv cfg cid toolUseId toolName toolArgs s then [NewMessage] else []) \<and>
   (tools_return bi sv cid \<longrightarrow>
      count_event (\<lambda>e. e = NewMessage) (emitted s (fst (streamConversation bi sv cfg cid s))) =
      count_event is_tool_use (emitted s (fst (streamConversation bi sv cfg cid s))))"
proof -
  have h: "emitted s (fst (onToolUse bi sv cfg cid toolUseId toolName toolArgs s)) =
     ToolUse (tool_use_message bi toolName toolArgs) #
     (if auth_reported sv toolName toolArgs s then [AuthRequired] else []) @
     (if tool_row_saved bi sv cfg cid toolUseId toolName toolArgs s then [NewMessage] else [])"
    using onToolUse_exact [of bi sv cfg cid toolUseId toolName toolArgs s]
    by (simp add: emitted_def handler_events_def)
  from streamConversation_tool_counts [of s bi sv cfg cid]
    streamConversation_tool_events [of s bi sv cfg cid] h
  show ?thesis by blast
qed

text \<open>
  A tool that answers \<open>auth_required\<close> is followed by both \<open>auth_required\<close> and
  \<open>new_message\<close>; a tool call that throws is followed by neither; a request
  whose arguments do not parse gets no \<open>tool_use\<close> event.
\<close>

theorem tool_use_events_per_completion_counterexample:
  "emitted sample_session
     (fst (streamConversation sample_builtins
        (scripted [tool_call_completion ''get_cart'' args_text] []) sample_config ''c1''
        sample_session)) =
     [MessageComplete, ToolUse ''Calling tool: get_cart with arguments: {}'',
      AuthRequired, NewMessage] \<and>
   emitted sample_session
     (fst (streamConversation sample_builtins
        (unreachable [tool_call_completion ''get_cart'' args_text]) sample_config ''c1''
        sample_session)) =
     [MessageComplete, ToolUse ''Calling tool: get_cart with arguments: {}''] \<and>
   count_event is_tool_use
     (emitted sample_session
        (fst (streamConversation sample_builtins
           (scripted [tool_call_completion ''search_shop_catalog'' broken_args_text] [])
           sample_config ''c1'' sample_session))) = 0 \<and>
   length (requested_calls
     (snd (streamConversation sample_builtins
        (scripted [tool_call_completion ''search_shop_catalog'' broken_args_text] [])
        sample_config ''c1'' sample_session))) = 1"
  by code_simp

lemma scripted_tools_return: "tools_return sample_builtins (scripted script rows) cid"
  by (simp add: tools_return_def scripted_def sample_callTool_def response_handled_def
      catalog_response_def auth_response_def failure_response_def toolResultContent_def
      item_text_def)

text \<open>
  One catalog search with a store that accepts the row: one \<open>tool_use\<close>, one
  \<open>new_message\<close>. The cart tool, which reports \<open>auth_required\<close>, with a store
  that rejects the row: \<open>tool_use\<close> and \<open>auth_required\<close>, no \<open>new_message\<close>.
\<close>

theorem tool_use_events_per_completion_witness:
  "tools_return sample_builtins
     (scripted [tool_call_completion ''search_shop_catalog'' args_text] []) ''c1'' \<and>
   count_event (\<lambda>e. e = NewMessage)
     (emitted sample_session
        (fst (streamConversation sample_builtins
           (scripted [tool_call_completion ''search_shop_catalog'' args_text] [])
           sample_config ''c1'' sample_session))) = 1 \<and>
   count_event is_tool_use
     (emitted sample_session
        (fst (streamConversation sample_builtins
           (scripted [tool_call_completion ''search_shop_catalog'' args_text] [])
           sample_config ''c1'' sample_session))) = 1 \<and>
   auth_reported (unsaved []) ''get_cart'' (JObj []) sample_session \<and>
   \<not> tool_row_saved sample_builtins (unsaved []) sample_config ''c1'' (Some ''call_1'')
       ''get_cart'' (JObj []) sample_session \<and>
   emitted sample_session
     (fst (onToolUse sample_builtins (unsaved []) sample_config ''c1'' (Some ''call_1'')
        ''get_cart'' (JObj []) sample_session)) =
     [ToolUse (tool_use_message sample_builtins ''get_cart'' (JObj [])), AuthRequired]"
proof -
  have t: "tools_return sample_builtins
     (scripted [tool_call_completion ''search_shop_catalog'' args_text] []) ''c1''"
    by (rule scripted_tools_return)
  have u: "count_event is_tool_use
     (emitted sample_session
        (fst (streamConversation sample_builtins
           (scripted [tool_call_completion ''search_shop_catalog'' args_text] [])
           sample_config ''c1'' sample_session))) = 1"
    by code_simp
  have a: "auth_reported (unsaved []) ''get_cart'' (JObj []) sample_session"
    by code_simp
  have r: "\<not> tool_row_saved sample_builtins (unsaved []) sample_config ''c1'' (Some ''call_1'')
       ''get_cart'' (JObj []) sample_session"
    by code_simp
  from t u tool_use_events_per_completion [of sample_session sample_builtins
      "scripted [tool_call_completion ''search_shop_catalog'' args_text] []" sample_config "''c1''"]
  have n: "count_event (\<lambda>e. e = NewMessage)
     (emitted sample_session
        (fst (streamConversation sample_builtins
           (scripted [tool_call_completion ''search_shop_catalog'' args_text] [])
           sample_config ''c1'' sample_session))) = 1"
    by simp
  from a r tool_use_events_per_completion [of sample_session sample_builtins "unsaved []"
      sample_config "''c1''" "Some ''call_1''" "''get_cart''" "JObj []"]
  have e: "emitted sample_session
     (fst (onToolUse sample_builtins (unsaved []) sample_config ''c1'' (Some ''call_1'')
        ''get_cart'' (JObj []) sample_session)) =
     [ToolUse (tool_use_message sample_builtins ''get_cart'' (JObj [])), AuthRequired]"
    by simp
  from t n u a r e show ?thesis by blast
qed

lemma process_tool_calls_ids:
  "\<exists>ms. conversationHistory (process_tool_calls bi sv cfg cid calls s) = conversationHistory s @ ms \<and>
        subseq (map msg_tool_call_id ms) (map call_id (parseable_calls bi calls))"
proof (induction calls arbitrary: s)
  case Nil
  show ?case by (simp add: parseable_calls_def)
next
  case (Cons c calls)
  let ?s1 = "try_tool_call bi sv cfg cid c s"
  from Cons.IH [of ?s1] obtain ms where
    ih: "conversationHistory (process_tool_calls bi sv cfg cid calls ?s1) = conversationHistory ?s1 @ ms"
      "subseq (map msg_tool_call_id ms) (map call_id (parseable_calls bi calls))"
    by blast
  have "\<exists>ms1. conversationHistory ?s1 = conversationHistory s @ ms1 \<and>
          (if parseable bi c then ms1 = [] \<or> (\<exists>x. ms1 = [tool_message (call_id c) x])
           else ms1 = [])"
    using try_tool_call_trace [of bi sv cfg cid c s] by (fastforce split: if_splits)
  then obtain ms1 where
    st: "conversationHistory ?s1 = conversationHistory s @ ms1"
      "if parseable bi c then ms1 = [] \<or> (\<exists>x. ms1 = [tool_message (call_id c) x]) else ms1 = []"
    by blast
  have "subseq (map msg_tool_call_id (ms1 @ ms)) (map call_id (parseable_calls bi (c # calls)))"
    using st(2) ih(2) by (auto simp: parseable_calls_def tool_message_def split: if_splits)
  moreover have "conversationHistory (process_tool_calls bi sv cfg cid (c # calls) s) =
                   conversationHistory s @ (ms1 @ ms)"
    using ih(1) st(1) by simp
  ultimately show ?case by blast
qed

lemma streamConversation_tool_messages:
  "conversationHistory (fst (streamConversation bi sv cfg cid s)) =
     conversationHistory s @ appended s (fst (streamConversation bi sv cfg cid s)) \<and>
   list_all (\<lambda>m. msg_role m = ''tool'')
     (tl (appended s (fst (streamConversation bi sv cfg cid s)))) \<and>
   length (tl (appended s (fst (streamConversation bi sv cfg cid s)))) \<le>
     length (parseable_calls bi (requested_calls (snd (streamConversation bi sv cfg cid s)))) \<and>
   subseq (map msg_tool_call_id (tl (appended s (fst (streamConversation bi sv cfg cid s)))))
     (map call_id
        (parseable_calls bi (requested_calls (snd (streamConversation bi sv cfg cid s)))))"
proof -
  let ?r = "streamConversation bi sv cfg cid s"
  from streamConversation_trace [of bi sv cfg cid s] obtain cs where
    tr: "case snd ?r of
        Inl e \<Rightarrow>
          events (fst ?r) = events s @ cs \<and>
          conversationHistory (fst ?r) = conversationHistory s \<and>
          productsToDisplay (fst ?r) = productsToDisplay s
      | Inr m \<Rightarrow>
          (\<exists>es ms ps.
             events (fst ?r) = events s @ cs @ MessageComplete # es \<and>
             conversationHistory (fst ?r) = conversationHistory s @ m # ms \<and>
             productsToDisplay (fst ?r) = productsToDisplay s @ ps \<and>
             tool_blocks es \<and>
             count_event is_tool_use es = length (parseable_calls bi (requested_calls (Inr m))) \<and>
             list_all (\<lambda>m. msg_role m = ''tool'') ms \<and>
             length ms \<le> length (parseable_calls bi (requested_calls (Inr m))) \<and>
             count_event (\<lambda>e. e = NewMessage) es \<le> length ms \<and>
             (tools_return bi sv cid \<longrightarrow>
                map msg_tool_call_id ms = map call_id (parseable_calls bi (requested_calls (Inr m))) \<and>
                count_event (\<lambda>e. e = NewMessage) es =
                  length (parseable_calls bi (requested_calls (Inr m)))))"
    by blast
  show ?thesis
  proof (cases "snd ?r")
    case (Inl e)
    with tr have "appended s (fst ?r) = []" "conversationHistory (fst ?r) = conversationHistory s"
      by (simp_all add: appended_def)
    with Inl show ?thesis by (simp add: requested_calls_def parseable_calls_def)
  next
    case (Inr m)
    with tr obtain ms where
      ms: "conversationHistory (fst ?r) = conversationHistory s @ m # ms"
        "list_all (\<lambda>m. msg_role m = ''tool'') ms"
        "length ms \<le> length (parseable_calls bi (requested_calls (Inr m)))"
      by auto
    have ap: "appended s (fst ?r) = m # ms" using ms(1) by (simp add: appended_def)
    from streamConversation_exact [OF Inr] have
      s2: "fst ?r = process_tool_calls bi sv cfg cid (requested_calls (Inr m))
                      (after_completion bi sv cid s)"
        "conversationHistory (after_completion bi sv cid s) = conversationHistory s @ [m]"
      by blast+
    from process_tool_calls_ids [of bi sv cfg cid "requested_calls (Inr m)"
        "after_completion bi sv cid s"] obtain ms' where
      ms': "conversationHistory (fst ?r) = conversationHistory s @ m # ms'"
        "subseq (map msg_tool_call_id ms')
           (map call_id (parseable_calls bi (requested_calls (Inr m))))"
      using s2 by auto
    from ms'(1) ms(1) have "ms' = ms" by simp
    with ms ms'(2) ap Inr show ?thesis by simp
  qed
qed

text \<open>
  C2 (as amended). A run of \<open>streamConversation\<close>, from whatever state the
  loop has reached, that delivers a final message appends it to the working
  history, followed by tool messages only, and nothing when it delivers none.
  The tool messages are exactly the ones the handlers of the requests append, in
  the order of the requests: none for a hole and for a request whose arguments
  do not parse as JSON (no error result takes its place), none for a request
  whose tool call throws or whose response cannot be formatted, and for every
  other request one message of role \<open>tool\<close> under the request's id. So there
  is at most one for each request that parses, and their ids, in order, are ids
  of requests that parse, in their order. When every tool call returns a
  response from which a tool message results there is exactly one for each
  request that parses, under its id, whether or not the store accepts it: the
  message is appended before the row is saved.
\<close>

theorem tool_results_per_completion:
  "conversationHistory (fst (streamConversation bi sv cfg cid s)) =
     conversationHistory s @ appended s (fst (streamConversation bi sv cfg cid s)) \<and>
   appended s (fst (streamConversation bi sv cfg cid s)) =
     (case snd (streamConversation bi sv cfg cid s) of
        Inl e \<Rightarrow> []
      | Inr m \<Rightarrow>
          m # tool_replies bi sv cfg cid (requested_calls (Inr m)) (after_completion bi sv cid s)) \<and>
   conversationHistory (fst (onToolUse bi sv cfg cid toolUseId toolName toolArgs s)) =
     conversationHistory s @
     (case tool_answer bi sv cfg toolName toolArgs s of
        None \<Rightarrow> []
      | Some c \<Rightarrow>
          [\<lparr>msg_role = ''tool'', msg_content = c, msg_tool_calls = None,
            msg_tool_call_id = toolUseId\<rparr>]) \<and>
   list_all (\<lambda>m. msg_role m = ''tool'')
     (tl (appended s (fst (streamConversation bi sv cfg cid s)))) \<and>
   length (tl (appended s (fst (streamConversation bi sv cfg cid s)))) \<le>
     length (parseable_calls bi (requested_calls (snd (streamConversation bi sv cfg cid s)))) \<and>
   subseq (map msg_tool_call_id (tl (appended s (fst (streamConversation bi sv cfg cid s)))))
     (map call_id
        (parseable_calls bi (requested_calls (snd (streamConversation bi sv cfg cid s))))) \<and>
   (tools_answer bi sv \<longrightarrow>
      map msg_tool_call_id (tl (appended s (fst (streamConversation bi sv cfg cid s)))) =
      map call_id
        (parseable_calls bi (requested_calls (snd (streamConversation bi sv cfg cid s)))))"
proof -
  let ?r = "streamConversation bi sv cfg cid s"
  note ap = streamConversation_tool_replies [of s bi sv cfg cid]
  have h: "conversationHistory (fst (onToolUse bi sv cfg cid toolUseId toolName toolArgs s)) =
     conversationHistory s @
     (case tool_answer bi sv cfg toolName toolArgs s of
        None \<Rightarrow> []
      | Some c \<Rightarrow>
          [\<lparr>msg_role = ''tool'', msg_content = c, msg_tool_calls = None,
            msg_tool_call_id = toolUseId\<rparr>])"
    using onToolUse_exact [of bi sv cfg cid toolUseId toolName toolArgs s]
    by (simp add: handler_replies_def)
  have ids: "map msg_tool_call_id (tl (appended s (fst ?r))) =
               map call_id (parseable_calls bi (requested_calls (snd ?r)))"
    if "tools_answer bi sv"
  proof (cases "snd ?r")
    case (Inl e)
    with ap show ?thesis by (simp add: requested_calls_def parseable_calls_def)
  next
    case (Inr m)
    with ap tool_replies_answering [OF that, of cfg cid "requested_calls (Inr m)"
        "after_completion bi sv cid s"]
    show ?thesis by simp
  qed
  from streamConversation_tool_messages [of bi sv cfg cid s] ap h ids
  show ?thesis by blast
qed

text \<open>
  A final message with one request whose arguments do not parse: the history
  gains the assistant message and no tool message. The same with a request that
  parses when the tool call throws, and when the tool's response has a \<open>null\<close>
  among its content blocks.
\<close>

theorem tool_results_per_completion_counterexample:
  "appended sample_session
     (fst (streamConversation sample_builtins
        (scripted [tool_call_completion ''search_shop_catalog'' broken_args_text] [])
        sample_config ''c1'' sample_session)) =
     [assistant_message []
        [Some \<lparr>tc_id = Some ''call_1'', tc_name = ''search_shop_catalog'',
               tc_arguments = broken_args_text\<rparr>]] \<and>
   length (requested_calls
     (snd (streamConversation sample_builtins
        (scripted [tool_call_completion ''search_shop_catalog'' broken_args_text] [])
        sample_config ''c1'' sample_session))) = 1 \<and>
   appended sample_session
     (fst (streamConversation sample_builtins
        (unreachable [tool_call_completion ''search_shop_catalog'' args_text])
        sample_config ''c1'' sample_session)) =
     [assistant_message [] [Some search_call]] \<and>
   appended sample_session
     (fst (streamConversation sample_builtins
        (careless\<lparr>completions_create :=
           (\<lambda>w ms. (tool_call_completion ''search_shop_catalog'' args_text, Suc w))\<rparr>)
        sample_config ''c1'' sample_session)) =
     [assistant_message [] [Some search_call]]"
  by code_simp

lemma unsaved_tools_answer: "tools_answer sample_builtins (unsaved script)"
  by (simp add: tools_answer_def unsaved_def scripted_def sample_callTool_def response_handled_def
      catalog_response_def auth_response_def failure_response_def toolResultContent_def
      item_text_def)

text \<open>
  One catalog search with a store that rejects every row: one tool message,
  under the id of the request.
\<close>

theorem tool_results_per_completion_witness:
  "tools_answer sample_builtins (unsaved [tool_call_completion ''search_shop_catalog'' args_text]) \<and>
   appended sample_session
     (fst (streamConversation sample_builtins
        (unsaved [tool_call_completion ''search_shop_catalog'' args_text])
        sample_config ''c1'' sample_session)) =
     [assistant_message [] [Some search_call],
      \<lparr>msg_role = ''tool'', msg_content = Some products_text, msg_tool_calls = None,
       msg_tool_call_id = Some ''call_1''\<rparr>] \<and>
   map msg_tool_call_id
     (tl (appended sample_session
        (fst (streamConversation sample_builtins
           (unsaved [tool_call_completion ''search_shop_catalog'' args_text])
           sample_config ''c1'' sample_session)))) = [Some ''call_1'']"
proof -
  have t: "tools_answer sample_builtins
     (unsaved [tool_call_completion ''search_shop_catalog'' args_text])"
    by (rule unsaved_tools_answer)
  have c: "map call_id (parseable_calls sample_builtins (requested_calls
     (snd (streamConversation sample_builtins
        (unsaved [tool_call_completion ''search_shop_catalog'' args_text])
        sample_config ''c1'' sample_session)))) = [Some ''call_1'']"
    by code_simp
  have a: "appended sample_session
     (fst (streamConversation sample_builtins
        (unsaved [tool_call_completion ''search_shop_catalog'' args_text])
        sample_config ''c1'' sample_session)) =
     [assistant_message [] [Some search_call],
      \<lparr>msg_role = ''tool'', msg_content = Some products_text, msg_tool_calls = None,
       msg_tool_call_id = Some ''call_1''\<rparr>]"
    by code_simp
  note run = tool_results_per_completion [of sample_builtins
      "unsaved [tool_call_completion ''search_shop_catalog'' args_text]" sample_config "''c1''"
      sample_session]
  note ids = run [THEN conjunct2, THEN conjunct2, THEN conjunct2, THEN conjunct2,
      THEN conjunct2, THEN conjunct2, rule_format]
  from ids [OF t] c
  have i: "map msg_tool_call_id
     (tl (appended sample_session
        (fst (streamConversation sample_builtins
           (unsaved [tool_call_completion ''search_shop_catalog'' args_text])
           sample_config ''c1'' sample_session)))) = [Some ''call_1'']"
    by simp
  from t a i show ?thesis by blast
qed

section \<open>Properties of the tool results and of the stored tool calls\<close>

lemma map_throwing_length: "map_throwing f xs = Inr ys \<Longrightarrow> length ys = length xs"
  by (induction xs arbitrary: ys) (auto split: sum.splits)

lemma slice_from_start_length:
  "length (slice_from_start n xs) =
     (if n < 0 then length xs - nat (- n) else min (nat n) (length xs))"
  by (auto simp: slice_from_start_def)

lemma extraction_of_payload:
  "processProductSearchResult bi cfg resp =
     (case payload_products bi resp of
        None \<Rightarrow> []
      | Some ps \<Rightarrow>
          (case map_throwing (formatProductData bi) (slice_from_start (max_products cfg) ps) of
             Inl e \<Rightarrow> []
           | Inr summaries \<Rightarrow> summaries))"
  by (simp add: processProductSearchResult_def processProductSearchResult_try_def
      parse_products_def payload_products_def split: sum.splits option.splits)

lemma extraction_length:
  assumes "payload_products bi resp = Some ps"
  shows "processProductSearchResult bi cfg resp = [] \<or>
         length (processProductSearchResult bi cfg resp) =
           length (slice_from_start (max_products cfg) ps)"
proof (cases "map_throwing (formatProductData bi) (slice_from_start (max_products cfg) ps)")
  case (Inl e)
  with assms show ?thesis by (simp add: extraction_of_payload)
next
  case (Inr summaries)
  from map_throwing_length [OF Inr] Inr assms show ?thesis by (simp add: extraction_of_payload)
qed

lemma extraction_bound:
  "0 \<le> max_products cfg \<Longrightarrow> length (processProductSearchResult bi cfg resp) \<le> nat (max_products cfg)"
proof (cases "payload_products bi resp")
  case None
  then show ?thesis by (simp add: extraction_of_payload)
next
  case (Some ps)
  assume "0 \<le> max_products cfg"
  with extraction_length [OF Some, of cfg] show ?thesis
    by (auto simp: slice_from_start_length)
qed

lemma no_text_block:
  assumes "get_prop resp ''content'' = Inr (Some (JArr items))" and "find_text items = Inr None"
  shows "search_text bi resp = Inr None"
  using assms by (simp add: search_text_def js_gt_zero_def)

text \<open>
  C9 (as amended). For every tool response the product extraction returns a list
  (it has no way to raise). The number it cuts the payload's products to is
  \<open>maxProductsToDisplay || 10\<close>: it returns at most the configured count when
  that is positive and at most ten when no count or the count 0 is configured;
  with a negative count \<open>n\<close> it returns at most the payload's products without
  the last \<open>-n\<close>. In each case it returns either that many summaries or, when
  formatting a product throws, none. It returns the empty list whenever there is
  no payload with a \<open>products\<close> array: when reading the content throws, when
  the content is missing, empty or without a text block, when the text of the
  first text block does not parse, and when what it denotes has no \<open>products\<close>
  array.
\<close>

theorem product_extraction_bounded:
  "(payload_products bi resp = None \<longrightarrow> processProductSearchResult bi cfg resp = []) \<and>
   (payload_products bi resp = Some ps \<longrightarrow>
      (processProductSearchResult bi cfg resp = [] \<or>
       length (processProductSearchResult bi cfg resp) =
         (if max_products cfg < 0 then length ps - nat (- max_products cfg)
          else min (nat (max_products cfg)) (length ps)))) \<and>
   (maxProductsToDisplay cfg = Some n \<and> 0 < n \<longrightarrow>
      length (processProductSearchResult bi cfg resp) \<le> nat n) \<and>
   (maxProductsToDisplay cfg = None \<or> maxProductsToDisplay cfg = Some 0 \<longrightarrow>
      length (processProductSearchResult bi cfg resp) \<le> 10) \<and>
   (maxProductsToDisplay cfg = Some n \<and> n < 0 \<and> payload_products bi resp = Some ps \<longrightarrow>
      length (processProductSearchResult bi cfg resp) \<le> length ps - nat (- n)) \<and>
   (search_text bi resp = Inl e \<longrightarrow> processProductSearchResult bi cfg resp = []) \<and>
   (search_text bi resp = Inr None \<longrightarrow> processProductSearchResult bi cfg resp = []) \<and>
   (get_prop resp ''content'' = Inr v \<and> \<not> truthy v \<longrightarrow>
      processProductSearchResult bi cfg resp = []) \<and>
   (get_prop resp ''content'' = Inr (Some (JArr items)) \<and> find_text items = Inr None \<longrightarrow>
      processProductSearchResult bi cfg resp = []) \<and>
   (search_text bi resp = Inr (Some c) \<and> response_data bi c = Inl e' \<longrightarrow>
      processProductSearchResult bi cfg resp = []) \<and>
   (search_text bi resp = Inr (Some c) \<and> response_data bi c = Inr d \<and>
    products_field d = None \<longrightarrow>
      processProductSearchResult bi cfg resp = []) \<and>
   (response_data bi (JStr t) = Inl SyntaxError) = (JSON_parse bi t = None)"
proof -
  let ?result = "processProductSearchResult bi cfg resp"
  have a: "?result = []" if "payload_products bi resp = None"
    using that by (simp add: extraction_of_payload)
  have b: "?result = [] \<or>
       length ?result =
         (if max_products cfg < 0 then length ps - nat (- max_products cfg)
          else min (nat (max_products cfg)) (length ps))"
    if "payload_products bi resp = Some ps"
    using extraction_length [OF that, of cfg] by (simp only: slice_from_start_length)
  have c: "length ?result \<le> nat n" if "maxProductsToDisplay cfg = Some n" "0 < n"
    using that extraction_bound [of cfg bi resp] by (simp add: max_products_def)
  have d: "length ?result \<le> 10"
    if "maxProductsToDisplay cfg = None \<or> maxProductsToDisplay cfg = Some 0"
    using that extraction_bound [of cfg bi resp] by (auto simp: max_products_def)
  have e: "length ?result \<le> length ps - nat (- n)"
    if "maxProductsToDisplay cfg = Some n" "n < 0" "payload_products bi resp = Some ps"
    using that b [OF that(3)] by (auto simp: max_products_def)
  have f: "?result = []" if "search_text bi resp = Inl e"
    using that by (simp add: extraction_of_payload payload_products_def)
  have g: "?result = []" if "search_text bi resp = Inr None"
    using that by (simp add: extraction_of_payload payload_products_def)
  have h: "?result = []" if "get_prop resp ''content'' = Inr v" "\<not> truthy v"
    using that by (simp add: extraction_of_payload payload_products_def search_text_def)
  have i: "?result = []"
    if "get_prop resp ''content'' = Inr (Some (JArr items))" "find_text items = Inr None"
    using no_text_block [OF that, of bi] by (simp add: extraction_of_payload payload_products_def)
  have j: "?result = []" if "search_text bi resp = Inr (Some c)" "response_data bi c = Inl e'"
    using that by (simp add: extraction_of_payload payload_products_def)
  have k: "?result = []"
    if "search_text bi resp = Inr (Some c)" "response_data bi c = Inr d" "products_field d = None"
    using that by (simp add: extraction_of_payload payload_products_def)
  have p: "(response_data bi (JStr t) = Inl SyntaxError) = (JSON_parse bi t = None)"
    by (simp add: response_data_def split: option.splits)
  from a b c d e f g h i j k p show ?thesis by blast
qed

text \<open>
  Twelve products with a configured count of 0 give ten summaries, not none; with
  a configured count of -1 they give eleven.
\<close>

theorem product_extraction_bounded_counterexample:
  "length (processProductSearchResult sample_builtins \<lparr>maxProductsToDisplay = Some 0\<rparr>
     twelve_products_response) = 10 \<and>
   length (processProductSearchResult sample_builtins \<lparr>maxProductsToDisplay = Some (- 1)\<rparr>
     twelve_products_response) = 11"
  by code_simp

text \<open>
  An image block alone; four products with a configured count of three; twelve
  products with no count and with the count -1; a content that is a string; no
  content; a text that is not JSON; a payload without products.
\<close>

theorem product_extraction_bounded_witness:
  "payload_products sample_builtins image_response = None \<and>
   processProductSearchResult sample_builtins sample_config image_response = [] \<and>
   payload_products sample_builtins (text_response four_products_text) =
     Some [JObj [(''title'', JStr ''A'')], JObj [(''title'', JStr ''B'')],
      JObj [(''title'', JStr ''C'')], JObj [(''title'', JStr ''D'')]] \<and>
   processProductSearchResult sample_builtins sample_config (text_response four_products_text) =
     [\<lparr>ps_id = GeneratedId, ps_title = JStr ''A'', ps_price = ''Price not available'',
       ps_image_url = JStr [], ps_description = JStr [], ps_url = JStr []\<rparr>,
      \<lparr>ps_id = GeneratedId, ps_title = JStr ''B'', ps_price = ''Price not available'',
       ps_image_url = JStr [], ps_description = JStr [], ps_url = JStr []\<rparr>,
      \<lparr>ps_id = GeneratedId, ps_title = JStr ''C'', ps_price = ''Price not available'',
       ps_image_url = JStr [], ps_description = JStr [], ps_url = JStr []\<rparr>] \<and>
   length (processProductSearchResult sample_builtins sample_config
       (text_response four_products_text)) = min 3 4 \<and>
   maxProductsToDisplay sample_config = Some 3 \<and>
   length (processProductSearchResult sample_builtins sample_config
       (text_response four_products_text)) \<le> 3 \<and>
   length (processProductSearchResult sample_builtins \<lparr>maxProductsToDisplay = None\<rparr>
       twelve_products_response) \<le> 10 \<and>
   payload_products sample_builtins twelve_products_response = Some (replicate 12 (JObj [])) \<and>
   length (processProductSearchResult sample_builtins \<lparr>maxProductsToDisplay = Some (- 1)\<rparr>
       twelve_products_response) \<le> 11 \<and>
   search_text sample_builtins (JObj [(''content'', JStr ''no blocks'')]) = Inl TypeError \<and>
   processProductSearchResult sample_builtins sample_config
       (JObj [(''content'', JStr ''no blocks'')]) = [] \<and>
   search_text sample_builtins image_response = Inr None \<and>
   processProductSearchResult sample_builtins \<lparr>maxProductsToDisplay = None\<rparr> image_response = [] \<and>
   get_prop (JObj []) ''content'' = Inr None \<and>
   processProductSearchResult sample_builtins sample_config (JObj []) = [] \<and>
   get_prop image_response ''content'' =
     Inr (Some (JArr [JObj [(''type'', JStr ''image''), (''data'', JStr ''iVBORw0KGgo='')]])) \<and>
   find_text [JObj [(''type'', JStr ''image''), (''data'', JStr ''iVBORw0KGgo='')]] = Inr None \<and>
   processProductSearchResult sample_builtins \<lparr>maxProductsToDisplay = Some 0\<rparr> image_response = [] \<and>
   search_text sample_builtins (text_response ''out of stock'') = Inr (Some (JStr ''out of stock'')) \<and>
   response_data sample_builtins (JStr ''out of stock'') = Inl SyntaxError \<and>
   processProductSearchResult sample_builtins sample_config (text_response ''out of stock'') = [] \<and>
   search_text sample_builtins (text_response args_text) = Inr (Some (JStr args_text)) \<and>
   response_data sample_builtins (JStr args_text) = Inr (Some (JObj [])) \<and>
   products_field (Some (JObj [])) = None \<and>
   processProductSearchResult sample_builtins sample_config (text_response args_text) = []"
proof -
  have h1: "payload_products sample_builtins image_response = None"
    by code_simp
  have h2: "payload_products sample_builtins (text_response four_products_text) =
     Some [JObj [(''title'', JStr ''A'')], JObj [(''title'', JStr ''B'')],
      JObj [(''title'', JStr ''C'')], JObj [(''title'', JStr ''D'')]]"
    by code_simp
  have ev: "processProductSearchResult sample_builtins sample_config (text_response four_products_text) =
     [\<lparr>ps_id = GeneratedId, ps_title = JStr ''A'', ps_price = ''Price not available'',
       ps_image_url = JStr [], ps_description = JStr [], ps_url = JStr []\<rparr>,
      \<lparr>ps_id = GeneratedId, ps_title = JStr ''B'', ps_price = ''Price not available'',
       ps_image_url = JStr [], ps_description = JStr [], ps_url = JStr []\<rparr>,
      \<lparr>ps_id = GeneratedId, ps_title = JStr ''C'', ps_price = ''Price not available'',
       ps_image_url = JStr [], ps_description = JStr [], ps_url = JStr []\<rparr>]"
    by code_simp
  have h3: "maxProductsToDisplay sample_config = Some 3"
    by (simp add: sample_config_def)
  have h5: "payload_products sample_builtins twelve_products_response = Some (replicate 12 (JObj []))"
    by code_simp
  have h6: "search_text sample_builtins (JObj [(''content'', JStr ''no blocks'')]) = Inl TypeError"
    by code_simp
  have h7: "search_text sample_builtins image_response = Inr None"
    by code_simp
  have h8: "get_prop (JObj []) ''content'' = Inr None"
    by simp
  have h9: "get_prop image_response ''content'' =
     Inr (Some (JArr [JObj [(''type'', JStr ''image''), (''data'', JStr ''iVBORw0KGgo='')]]))"
    by code_simp
  have h9': "find_text [JObj [(''type'', JStr ''image''), (''data'', JStr ''iVBORw0KGgo='')]] = Inr None"
    by code_simp
  have h10: "search_text sample_builtins (text_response ''out of stock'') = Inr (Some (JStr ''out of stock''))"
    by code_simp
  have h10': "response_data sample_builtins (JStr ''out of stock'') = Inl SyntaxError"
    by code_simp
  have h11: "search_text sample_builtins (text_response args_text) = Inr (Some (JStr args_text))"
    by code_simp
  have h11': "response_data sample_builtins (JStr args_text) = Inr (Some (JObj []))"
    by code_simp
  have h11'': "products_field (Some (JObj [])) = None"
    by code_simp
  from product_extraction_bounded
      [where bi = sample_builtins and resp = "text_response four_products_text"
      and cfg = sample_config and ps = "[JObj [(''title'', JStr ''A'')], JObj [(''title'', JStr ''B'')],       JObj [(''title'', JStr ''C'')], JObj [(''title'', JStr ''D'')]]",
       THEN conjunct2, THEN conjunct1] h2 ev
  have r2: "length (processProductSearchResult sample_builtins sample_config
       (text_response four_products_text)) = min 3 4"
    by (simp add: max_products_def sample_config_def)
  from product_extraction_bounded
      [where bi = sample_builtins and resp = image_response and cfg = sample_config,
       THEN conjunct1] h1
  have r1: "processProductSearchResult sample_builtins sample_config image_response = []"
    by blast
  from product_extraction_bounded
      [where bi = sample_builtins and resp = "text_response four_products_text" and
         cfg = sample_config and n = 3,
       THEN conjunct2, THEN conjunct2, THEN conjunct1] h3
  have r3: "length (processProductSearchResult sample_builtins sample_config
       (text_response four_products_text)) \<le> 3"
    by simp
  from product_extraction_bounded
      [where bi = sample_builtins and resp = twelve_products_response and
         cfg = "\<lparr>maxProductsToDisplay = None\<rparr>",
       THEN conjunct2, THEN conjunct2, THEN conjunct2, THEN conjunct1]
  have r4: "length (processProductSearchResult sample_builtins \<lparr>maxProductsToDisplay = None\<rparr>
       twelve_products_response) \<le> 10"
    by simp
  from product_extraction_bounded
      [where bi = sample_builtins and resp = twelve_products_response and
         cfg = "\<lparr>maxProductsToDisplay = Some (- 1)\<rparr>" and n = "- 1" and
         ps = "replicate 12 (JObj [])",
       THEN conjunct2, THEN conjunct2, THEN conjunct2, THEN conjunct2, THEN conjunct1] h5
  have r5: "length (processProductSearchResult sample_builtins \<lparr>maxProductsToDisplay = Some (- 1)\<rparr>
       twelve_products_response) \<le> 11"
    by simp
  from product_extraction_bounded
      [where bi = sample_builtins and resp = "JObj [(''content'', JStr ''no blocks'')]" and
         cfg = sample_config and e = TypeError,
       THEN conjunct2, THEN conjunct2, THEN conjunct2, THEN conjunct2, THEN conjunct2,
       THEN conjunct1] h6
  have r6: "processProductSearchResult sample_builtins sample_config
       (JObj [(''content'', JStr ''no blocks'')]) = []"
    by blast
  from product_extraction_bounded
      [where bi = sample_builtins and resp = image_response and
         cfg = "\<lparr>maxProductsToDisplay = None\<rparr>",
       THEN conjunct2, THEN conjunct2, THEN conjunct2, THEN conjunct2, THEN conjunct2,
       THEN conjunct2, THEN conjunct1] h7
  have r7: "processProductSearchResult sample_builtins \<lparr>maxProductsToDisplay = None\<rparr> image_response = []"
    by blast
  from product_extraction_bounded
      [where bi = sample_builtins and resp = "JObj []" and cfg = sample_config and v = None,
       THEN conjunct2, THEN conjunct2, THEN conjunct2, THEN conjunct2, THEN conjunct2,
       THEN conjunct2, THEN conjunct2, THEN conjunct1] h8
  have r8: "processProductSearchResult sample_builtins sample_config (JObj []) = []"
    by simp
  from product_extraction_bounded
      [where bi = sample_builtins and resp = image_response and
         cfg = "\<lparr>maxProductsToDisplay = Some 0\<rparr>" and
         items = "[JObj [(''type'', JStr ''image''), (''data'', JStr ''iVBORw0KGgo='')]]",
       THEN conjunct2, THEN conjunct2, THEN conjunct2, THEN conjunct2, THEN conjunct2,
       THEN conjunct2, THEN conjunct2, THEN conjunct2, THEN conjunct1] h9 h9'
  have r9: "processProductSearchResult sample_builtins \<lparr>maxProductsToDisplay = Some 0\<rparr> image_response = []"
    by blast
  from product_extraction_bounded
      [where bi = sample_builtins and resp = "text_response ''out of stock''" and
         cfg = sample_config and c = "JStr ''out of stock''" and e' = SyntaxError,
       THEN conjunct2, THEN conjunct2, THEN conjunct2, THEN conjunct2, THEN conjunct2,
       THEN conjunct2, THEN conjunct2, THEN conjunct2, THEN conjunct2, THEN conjunct1] h10 h10'
  have r10: "processProductSearchResult sample_builtins sample_config (text_response ''out of stock'') = []"
    by blast
  from product_extraction_bounded
      [where bi = sample_builtins and resp = "text_response args_text" and cfg = sample_config and
         c = "JStr args_text" and d = "Some (JObj [])",
       THEN conjunct2, THEN conjunct2, THEN conjunct2, THEN conjunct2, THEN conjunct2,
       THEN conjunct2, THEN conjunct2, THEN conjunct2, THEN conjunct2, THEN conjunct2,
       THEN conjunct1] h11 h11' h11''
  have r11: "processProductSearchResult sample_builtins sample_config (text_response args_text) = []"
    by blast
  from h1 r1 h2 ev r2 h3 r3 r4 h5 r5 h6 r6 h7 r7 h8 r8 h9 h9' r9 h10 h10' r10 h11 h11' h11'' r11 show ?thesis by blast
qed

lemma join_with_char: "join_with [c] (t # rest) = t @ concat (map (\<lambda>u. c # u) rest)"
  by (induction rest arbitrary: t) simp_all

lemma join_with_newline: "join_with newline ts = newline_joined ts"
  by (cases ts) (simp_all add: newline_def newline_joined_def join_with_char)

lemma get_prop_not_null: "item \<noteq> JNull \<Longrightarrow> \<exists>v. get_prop item k = Inr v"
  by (cases item) simp_all

lemma type_is_text: "item \<noteq> JNull \<Longrightarrow> (get_prop item ''type'' = Inr (Some (JStr ''text''))) = text_typed item"
  by (cases item) (simp_all add: text_typed_def)

lemma filter_text_total: "JNull \<notin> set items \<Longrightarrow> filter_text items = Inr (filter text_typed items)"
proof (induction items)
  case Nil
  show ?case by simp
next
  case (Cons item items)
  then have n: "item \<noteq> JNull" and rest: "filter_text items = Inr (filter text_typed items)"
    by auto
  from get_prop_not_null [OF n, of "''type''"] obtain v where v: "get_prop item ''type'' = Inr v"
    by blast
  with type_is_text [OF n] rest show ?case by auto
qed

lemma filter_text_null: "JNull \<in> set items \<Longrightarrow> filter_text items = Inl TypeError"
proof (induction items)
  case Nil
  then show ?case by simp
next
  case (Cons item items)
  show ?case
  proof (cases "item = JNull")
    case True
    then show ?thesis by simp
  next
    case False
    with Cons have rest: "filter_text items = Inl TypeError" by simp
    from get_prop_not_null [OF False, of "''type''"] obtain v where "get_prop item ''type'' = Inr v"
      by blast
    with rest show ?thesis by simp
  qed
qed

lemma text_typed_text: "text_typed item \<Longrightarrow> join_element bi (item_text item) = element_text bi item"
  by (cases item)
     (auto simp: text_typed_def item_text_def element_text_def join_element_def
       split: option.splits json.splits)

lemma typed_blocks_not_null: "list_all typed_block items \<Longrightarrow> JNull \<notin> set items"
  by (auto simp: list_all_iff typed_block_def)

lemma typed_block_text:
  "typed_block item \<Longrightarrow> text_typed item \<Longrightarrow> element_text bi item = block_text item"
  by (cases item)
     (auto simp: typed_block_def text_typed_def element_text_def block_text_def
       split: option.splits json.splits if_splits)

lemma typed_blocks_texts:
  "list_all typed_block items \<Longrightarrow>
   map (element_text bi) (filter text_typed items) = map block_text (filter text_typed items)"
  by (simp add: list_all_iff typed_block_text)

lemma toolResultContent_array:
  assumes "JNull \<notin> set items"
  shows "toolResultContent bi (Some (JArr items)) =
           Inr (Some (newline_joined (map (element_text bi) (filter text_typed items))))"
proof -
  have eq: "map (join_element bi \<circ> item_text) (filter text_typed items) =
          map (element_text bi) (filter text_typed items)"
    by (simp add: text_typed_text)
  have "toolResultContent bi (Some (JArr items)) =
          Inr (Some (join_with newline
            (map (join_element bi \<circ> item_text) (filter text_typed items))))"
    using filter_text_total [OF assms] by (simp add: toolResultContent_def)
  also have "\<dots> = Inr (Some (newline_joined (map (element_text bi) (filter text_typed items))))"
    by (simp only: eq join_with_newline)
  finally show ?thesis .
qed

lemma toolResultContent_other:
  "\<not> is_array v \<Longrightarrow> \<not> is_string v \<Longrightarrow>
   toolResultContent bi (Some v) = Inr (Some (JSON_stringify bi v))"
  by (cases v) (simp_all add: toolResultContent_def)

lemma successful_content:
  assumes "successful resp"
  shows "snd (tool_outcome bi cfg toolName resp s) = toolResultContent bi (content_of resp)"
    and "snd (handleToolSuccess bi cfg resp toolName products) =
           toolResultContent bi (content_of resp)"
  using assms
  by (cases resp;
      auto simp: tool_outcome_def handleToolSuccess_def successful_def content_of_def Let_def)+

lemma onToolUse_successful:
  assumes "fst (callTool sv (world s) toolName toolArgs) = Inr resp" and "successful resp"
  shows "toolResultContent bi (content_of resp) = Inr r \<Longrightarrow>
           conversationHistory (fst (onToolUse bi sv cfg cid toolUseId toolName toolArgs s)) =
             conversationHistory s @
               [\<lparr>msg_role = ''tool'', msg_content = r, msg_tool_calls = None,
                 msg_tool_call_id = toolUseId\<rparr>]"
    and "toolResultContent bi (content_of resp) = Inl e \<Longrightarrow>
           conversationHistory (fst (onToolUse bi sv cfg cid toolUseId toolName toolArgs s)) =
             conversationHistory s \<and>
           snd (onToolUse bi sv cfg cid toolUseId toolName toolArgs s) = Some e"
proof -
  let ?s2 = "emit (ToolUse (tool_use_message bi toolName toolArgs)) s
               \<lparr>world := snd (callTool sv (world s) toolName toolArgs)\<rparr>"
  obtain s3 out where o: "tool_outcome bi cfg toolName resp ?s2 = (s3, out)"
    by (cases "tool_outcome bi cfg toolName resp ?s2") auto
  then have out: "out = toolResultContent bi (content_of resp)"
    using successful_content(1) [OF assms(2), of bi cfg toolName ?s2] by simp
  have h: "conversationHistory s3 = conversationHistory s"
    using tool_outcome_history [of bi cfg toolName resp ?s2] o by simp
  show "toolResultContent bi (content_of resp) = Inr r \<Longrightarrow>
           conversationHistory (fst (onToolUse bi sv cfg cid toolUseId toolName toolArgs s)) =
             conversationHistory s @
               [\<lparr>msg_role = ''tool'', msg_content = r, msg_tool_calls = None,
                 msg_tool_call_id = toolUseId\<rparr>]"
    using assms(1) o out h
    by (simp add: onToolUse_def Let_def tool_message_def split: option.splits)
  show "toolResultContent bi (content_of resp) = Inl e \<Longrightarrow>
           conversationHistory (fst (onToolUse bi sv cfg cid toolUseId toolName toolArgs s)) =
             conversationHistory s \<and>
           snd (onToolUse bi sv cfg cid toolUseId toolName toolArgs s) = Some e"
    using assms(1) o out h by (simp add: onToolUse_def Let_def)
qed

text \<open>
  C8 (as amended). The content of the tool message for a successful tool
  response, as the formatting lines compute it, as \<open>handleToolSuccess\<close> hands
  it on and as \<open>onToolUse\<close> appends it to the working history. When the
  response's content is an array, it is the texts of the elements whose type is
  \<open>text\<close> (a text that is no string converted to one), a newline between
  each two, every other element left out, whether the elements are typed
  content blocks or not; an element that is \<open>null\<close> makes the handler
  throw, and no tool message is appended. When the content is
  a string, it is that string itself. For every other content it is the
  content stringified, and undefined when the response has no content. This is
  the specification's normal form for an array of typed content blocks and for
  a content that is neither an array nor a string.
\<close>

theorem tool_result_content:
  "(JNull \<notin> set items \<longrightarrow>
      toolResultContent bi (Some (JArr items)) =
        Inr (Some (newline_joined (map (element_text bi) (filter text_typed items))))) \<and>
   (JNull \<in> set items \<longrightarrow> toolResultContent bi (Some (JArr items)) = Inl TypeError) \<and>
   toolResultContent bi (Some (JStr t)) = Inr (Some t) \<and>
   (\<not> is_array v \<and> \<not> is_string v \<longrightarrow>
      toolResultContent bi (Some v) = Inr (Some (JSON_stringify bi v))) \<and>
   toolResultContent bi None = Inr None \<and>
   (list_all typed_block items \<longrightarrow>
      toolResultContent bi (Some (JArr items)) =
        Inr (normalized_content_spec bi (Some (JArr items)))) \<and>
   (\<not> is_array v \<and> \<not> is_string v \<longrightarrow>
      toolResultContent bi (Some v) = Inr (normalized_content_spec bi (Some v))) \<and>
   toolResultContent bi None = Inr (normalized_content_spec bi None) \<and>
   (successful resp \<longrightarrow>
      snd (tool_outcome bi cfg toolName resp s) = toolResultContent bi (content_of resp) \<and>
      snd (handleToolSuccess bi cfg resp toolName products) =
        toolResultContent bi (content_of resp)) \<and>
   (fst (callTool sv (world s) toolName toolArgs) = Inr resp \<and> successful resp \<and>
    toolResultContent bi (content_of resp) = Inr r \<longrightarrow>
      conversationHistory (fst (onToolUse bi sv cfg cid toolUseId toolName toolArgs s)) =
        conversationHistory s @
          [\<lparr>msg_role = ''tool'', msg_content = r, msg_tool_calls = None,
            msg_tool_call_id = toolUseId\<rparr>]) \<and>
   (fst (callTool sv (world s) toolName toolArgs) = Inr resp \<and> successful resp \<and>
    toolResultContent bi (content_of resp) = Inl e \<longrightarrow>
      conversationHistory (fst (onToolUse bi sv cfg cid toolUseId toolName toolArgs s)) =
        conversationHistory s \<and>
      snd (onToolUse bi sv cfg cid toolUseId toolName toolArgs s) = Some e) \<and>
   (fst (callTool sv (world s) toolName toolArgs) = Inr resp \<and> successful resp \<and>
    content_of resp = Some (JArr items) \<and> JNull \<notin> set items \<longrightarrow>
      conversationHistory (fst (onToolUse bi sv cfg cid toolUseId toolName toolArgs s)) =
        conversationHistory s @
          [\<lparr>msg_role = ''tool'',
            msg_content = Some (newline_joined (map (element_text bi) (filter text_typed items))),
            msg_tool_calls = None, msg_tool_call_id = toolUseId\<rparr>])"
proof -
  have a1: "toolResultContent bi (Some (JArr items)) =
        Inr (Some (newline_joined (map (element_text bi) (filter text_typed items))))"
    if "JNull \<notin> set items"
    using that by (rule toolResultContent_array)
  have a2: "toolResultContent bi (Some (JArr items)) = Inl TypeError" if "JNull \<in> set items"
    using filter_text_null [OF that] by (simp add: toolResultContent_def)
  have a3: "toolResultContent bi (Some (JStr t)) = Inr (Some t)"
    by (simp add: toolResultContent_def)
  have a4: "toolResultContent bi (Some v) = Inr (Some (JSON_stringify bi v))"
    if "\<not> is_array v \<and> \<not> is_string v"
    using that by (simp add: toolResultContent_other)
  have a5: "toolResultContent bi None = Inr None"
    by (simp add: toolResultContent_def)
  have b1: "toolResultContent bi (Some (JArr items)) =
        Inr (normalized_content_spec bi (Some (JArr items)))"
    if "list_all typed_block items"
    using that toolResultContent_array [OF typed_blocks_not_null [OF that], of bi]
    by (simp only: typed_blocks_texts [OF that] normalized_content_spec_def option.case
          json.case if_True)
  have b2: "toolResultContent bi (Some v) = Inr (normalized_content_spec bi (Some v))"
    if "\<not> is_array v \<and> \<not> is_string v"
    using that by (cases v) (simp_all add: toolResultContent_def normalized_content_spec_def)
  have b3: "toolResultContent bi None = Inr (normalized_content_spec bi None)"
    by (simp add: toolResultContent_def normalized_content_spec_def)
  have c: "snd (tool_outcome bi cfg toolName resp s) = toolResultContent bi (content_of resp) \<and>
      snd (handleToolSuccess bi cfg resp toolName products) =
        toolResultContent bi (content_of resp)"
    if "successful resp"
    using successful_content [OF that] by simp
  have d1: "conversationHistory (fst (onToolUse bi sv cfg cid toolUseId toolName toolArgs s)) =
        conversationHistory s @
          [\<lparr>msg_role = ''tool'', msg_content = r, msg_tool_calls = None,
            msg_tool_call_id = toolUseId\<rparr>]"
    if "fst (callTool sv (world s) toolName toolArgs) = Inr resp \<and> successful resp \<and>
        toolResultContent bi (content_of resp) = Inr r"
    using that onToolUse_successful(1) [of sv s toolName toolArgs resp bi r cfg cid toolUseId]
    by simp
  have d2: "conversationHistory (fst (onToolUse bi sv cfg cid toolUseId toolName toolArgs s)) =
        conversationHistory s \<and>
      snd (onToolUse bi sv cfg cid toolUseId toolName toolArgs s) = Some e"
    if "fst (callTool sv (world s) toolName toolArgs) = Inr resp \<and> successful resp \<and>
        toolResultContent bi (content_of resp) = Inl e"
    using that onToolUse_successful(2) [of sv s toolName toolArgs resp bi e cfg cid toolUseId]
    by simp
  have d3: "conversationHistory (fst (onToolUse bi sv cfg cid toolUseId toolName toolArgs s)) =
        conversationHistory s @
          [\<lparr>msg_role = ''tool'',
            msg_content = Some (newline_joined (map (element_text bi) (filter text_typed items))),
            msg_tool_calls = None, msg_tool_call_id = toolUseId\<rparr>]"
    if "fst (callTool sv (world s) toolName toolArgs) = Inr resp \<and> successful resp \<and>
        content_of resp = Some (JArr items) \<and> JNull \<notin> set items"
    using that toolResultContent_array [of items bi]
      onToolUse_successful(1) [of sv s toolName toolArgs resp bi
        "Some (newline_joined (map (element_text bi) (filter text_typed items)))" cfg cid toolUseId]
    by simp
  from a1 a2 a3 a4 a5 b1 b2 b3 c d1 d2 d3 show ?thesis by blast
qed

text \<open>
  An array of numbers is no list of typed content blocks: the specification's
  normal form is the stringified array, the code's content is the empty string.
  An array with a \<open>null\<close> element: the code throws. A string: the
  specification's normal form is the stringified string, with its quotes, the
  code's content is the string itself.
\<close>

theorem tool_result_content_counterexample:
  \<open>toolResultContent sample_builtins (Some (JArr [JNum (Finite 1), JNum (Finite 2)])) =
     Inr (Some []) \<and>
   snd (handleToolSuccess sample_builtins sample_config
          (JObj [(''content'', JArr [JNum (Finite 1), JNum (Finite 2)])]) ''get_cart'' []) =
     Inr (Some []) \<and>
   normalized_content_spec sample_builtins (Some (JArr [JNum (Finite 1), JNum (Finite 2)])) =
     Some ''[1,2]'' \<and>
   toolResultContent sample_builtins (Some (JArr [JNull])) = Inl TypeError \<and>
   normalized_content_spec sample_builtins (Some (JArr [JNull])) = Some ''[null]'' \<and>
   toolResultContent sample_builtins (Some (JStr ''plain text'')) = Inr (Some ''plain text'') \<and>
   normalized_content_spec sample_builtins (Some (JStr ''plain text'')) =
     Some ''"plain text"''\<close>
  by code_simp

text \<open>
  Two text blocks around an image block; a text block and a \<open>null\<close>; an
  object; the catalog search's response on its way into the history; and tool
  servers that answer with a \<open>null\<close> block.
\<close>

theorem tool_result_content_witness:
  "JNull \<notin> set [JObj [(''type'', JStr ''text''), (''text'', JStr ''one'')],
      JObj [(''type'', JStr ''image''), (''data'', JStr ''iVBORw0KGgo='')],
      JObj [(''type'', JStr ''text''), (''text'', JStr ''two'')]] \<and>
   toolResultContent sample_builtins (Some (JArr [JObj [(''type'', JStr ''text''), (''text'', JStr ''one'')],
      JObj [(''type'', JStr ''image''), (''data'', JStr ''iVBORw0KGgo='')],
      JObj [(''type'', JStr ''text''), (''text'', JStr ''two'')]])) =
     Inr (Some (''one'' @ [CHR 0x0A] @ ''two'')) \<and>
   JNull \<in> set [JObj [(''type'', JStr ''text''), (''text'', JStr ''one'')], JNull] \<and>
   toolResultContent sample_builtins (Some (JArr [JObj [(''type'', JStr ''text''), (''text'', JStr ''one'')], JNull])) = Inl TypeError \<and>
   \<not> is_array (JObj []) \<and> \<not> is_string (JObj []) \<and>
   toolResultContent sample_builtins (Some (JObj [])) = Inr (Some ''{}'') \<and>
   list_all typed_block [JObj [(''type'', JStr ''text''), (''text'', JStr ''one'')],
      JObj [(''type'', JStr ''image''), (''data'', JStr ''iVBORw0KGgo='')],
      JObj [(''type'', JStr ''text''), (''text'', JStr ''two'')]] \<and>
   normalized_content_spec sample_builtins (Some (JArr [JObj [(''type'', JStr ''text''), (''text'', JStr ''one'')],
      JObj [(''type'', JStr ''image''), (''data'', JStr ''iVBORw0KGgo='')],
      JObj [(''type'', JStr ''text''), (''text'', JStr ''two'')]])) =
     Some (''one'' @ [CHR 0x0A] @ ''two'') \<and>
   toolResultContent sample_builtins (Some (JArr [JObj [(''type'', JStr ''text''), (''text'', JStr ''one'')],
      JObj [(''type'', JStr ''image''), (''data'', JStr ''iVBORw0KGgo='')],
      JObj [(''type'', JStr ''text''), (''text'', JStr ''two'')]])) =
     Inr (normalized_content_spec sample_builtins (Some (JArr [JObj [(''type'', JStr ''text''), (''text'', JStr ''one'')],
      JObj [(''type'', JStr ''image''), (''data'', JStr ''iVBORw0KGgo='')],
      JObj [(''type'', JStr ''text''), (''text'', JStr ''two'')]]))) \<and>
   normalized_content_spec sample_builtins (Some (JObj [])) = Some ''{}'' \<and>
   toolResultContent sample_builtins (Some (JObj [])) =
     Inr (normalized_content_spec sample_builtins (Some (JObj []))) \<and>
   successful catalog_response \<and>
   snd (tool_outcome sample_builtins sample_config ''search_shop_catalog'' catalog_response
          sample_session) = Inr (Some products_text) \<and>
   snd (handleToolSuccess sample_builtins sample_config catalog_response ''search_shop_catalog'' []) =
     Inr (Some products_text) \<and>
   fst (callTool (scripted [] []) (world sample_session) ''search_shop_catalog'' (JObj [])) =
     Inr catalog_response \<and>
   conversationHistory
     (fst (onToolUse sample_builtins (scripted [] []) sample_config ''c1'' (Some ''call_1'')
        ''search_shop_catalog'' (JObj []) sample_session)) =
     conversationHistory sample_session @
       [\<lparr>msg_role = ''tool'', msg_content = Some products_text, msg_tool_calls = None,
        msg_tool_call_id = Some ''call_1''\<rparr>] \<and>
   fst (callTool careless (world sample_session) ''get_cart'' (JObj [])) = Inr null_block_response \<and>
   successful null_block_response \<and>
   toolResultContent sample_builtins (content_of null_block_response) = Inl TypeError \<and>
   conversationHistory (fst (onToolUse sample_builtins careless sample_config ''c1'' (Some ''call_1'')
        ''get_cart'' (JObj []) sample_session)) =
     conversationHistory sample_session \<and>
   snd (onToolUse sample_builtins careless sample_config ''c1'' (Some ''call_1'')
        ''get_cart'' (JObj []) sample_session) = Some TypeError \<and>
   content_of catalog_response = Some (JArr [JObj [(''type'', JStr ''text''), (''text'', JStr products_text)]]) \<and>
   JNull \<notin> set [JObj [(''type'', JStr ''text''), (''text'', JStr products_text)]] \<and>
   newline_joined (map (element_text sample_builtins) (filter text_typed [JObj [(''type'', JStr ''text''), (''text'', JStr products_text)]])) = products_text \<and>
   conversationHistory
     (fst (onToolUse sample_builtins (scripted [] []) sample_config ''c1'' (Some ''call_1'')
        ''search_shop_catalog'' (JObj []) sample_session)) =
     conversationHistory sample_session @
       [\<lparr>msg_role = ''tool'',
         msg_content =
           Some (newline_joined (map (element_text sample_builtins) (filter text_typed
              [JObj [(''type'', JStr ''text''), (''text'', JStr products_text)]]))),
         msg_tool_calls = None, msg_tool_call_id = Some ''call_1''\<rparr>]"
proof -
  let ?blocks = "[JObj [(''type'', JStr ''text''), (''text'', JStr ''one'')],
      JObj [(''type'', JStr ''image''), (''data'', JStr ''iVBORw0KGgo='')],
      JObj [(''type'', JStr ''text''), (''text'', JStr ''two'')]]"
  let ?broken = "[JObj [(''type'', JStr ''text''), (''text'', JStr ''one'')], JNull]"
  let ?items = "[JObj [(''type'', JStr ''text''), (''text'', JStr products_text)]]"
  have h1: "JNull \<notin> set ?blocks"
    by simp
  have n1: "newline_joined (map (element_text sample_builtins) (filter text_typed ?blocks)) =
     ''one'' @ [CHR 0x0A] @ ''two''"
    by code_simp
  have h2: "JNull \<in> set ?broken"
    by simp
  have h4: "\<not> is_array (JObj []) \<and> \<not> is_string (JObj [])"
    by simp
  have n4: "JSON_stringify sample_builtins (JObj []) = ''{}''"
    by code_simp
  have h6: "list_all typed_block ?blocks"
    by code_simp
  have n6: "normalized_content_spec sample_builtins (Some (JArr ?blocks)) =
     Some (''one'' @ [CHR 0x0A] @ ''two'')"
    by code_simp
  have n7: "normalized_content_spec sample_builtins (Some (JObj [])) = Some ''{}''"
    by code_simp
  have h9: "successful catalog_response"
    by code_simp
  have n9: "toolResultContent sample_builtins (content_of catalog_response) = Inr (Some products_text)"
    by code_simp
  have h10: "fst (callTool (scripted [] []) (world sample_session) ''search_shop_catalog'' (JObj [])) =
     Inr catalog_response"
    by code_simp
  have h11: "fst (callTool careless (world sample_session) ''get_cart'' (JObj [])) = Inr null_block_response"
    by code_simp
  have h11': "successful null_block_response"
    by code_simp
  have n11: "toolResultContent sample_builtins (content_of null_block_response) = Inl TypeError"
    by code_simp
  have h12: "content_of catalog_response = Some (JArr ?items)"
    by code_simp
  have h12': "JNull \<notin> set ?items"
    by simp
  have n12: "newline_joined (map (element_text sample_builtins) (filter text_typed ?items)) = products_text"
    by code_simp
  from tool_result_content
      [where bi = sample_builtins and items = "?blocks",
       THEN conjunct1] h1 n1
  have r1: "toolResultContent sample_builtins (Some (JArr ?blocks)) =
     Inr (Some (''one'' @ [CHR 0x0A] @ ''two''))"
    by simp
  from tool_result_content
      [where bi = sample_builtins and items = "?broken",
       THEN conjunct2, THEN conjunct1] h2
  have r2: "toolResultContent sample_builtins (Some (JArr ?broken)) = Inl TypeError"
    by blast
  from tool_result_content
      [where bi = sample_builtins and v = "JObj []",
       THEN conjunct2, THEN conjunct2, THEN conjunct2, THEN conjunct1] h4 n4
  have r4: "toolResultContent sample_builtins (Some (JObj [])) = Inr (Some ''{}'')"
    by simp
  from tool_result_content
      [where bi = sample_builtins and items = "?blocks",
       THEN conjunct2, THEN conjunct2, THEN conjunct2, THEN conjunct2, THEN conjunct2,
       THEN conjunct1] h6
  have r6: "toolResultContent sample_builtins (Some (JArr ?blocks)) =
     Inr (normalized_content_spec sample_builtins (Some (JArr ?blocks)))"
    by blast
  from tool_result_content
      [where bi = sample_builtins and v = "JObj []",
       THEN conjunct2, THEN conjunct2, THEN conjunct2, THEN conjunct2, THEN conjunct2,
       THEN conjunct2, THEN conjunct1] h4
  have r7: "toolResultContent sample_builtins (Some (JObj [])) =
     Inr (normalized_content_spec sample_builtins (Some (JObj [])))"
    by blast
  from tool_result_content
      [where bi = sample_builtins and resp = catalog_response and cfg = sample_config and
         toolName = "''search_shop_catalog''" and s = sample_session and products = "[]",
       THEN conjunct2, THEN conjunct2, THEN conjunct2, THEN conjunct2, THEN conjunct2,
       THEN conjunct2, THEN conjunct2, THEN conjunct2, THEN conjunct1] h9 n9
  have r9: "snd (tool_outcome sample_builtins sample_config ''search_shop_catalog'' catalog_response
          sample_session) = Inr (Some products_text) \<and>
   snd (handleToolSuccess sample_builtins sample_config catalog_response ''search_shop_catalog'' []) =
     Inr (Some products_text)"
    by simp
  from tool_result_content
      [where bi = sample_builtins and sv = "scripted [] []" and s = sample_session and
         toolName = "''search_shop_catalog''" and toolArgs = "JObj []" and resp = catalog_response and
         r = "Some products_text" and cfg = sample_config and cid = "''c1''" and
         toolUseId = "Some ''call_1''",
       THEN conjunct2, THEN conjunct2, THEN conjunct2, THEN conjunct2, THEN conjunct2,
       THEN conjunct2, THEN conjunct2, THEN conjunct2, THEN conjunct2, THEN conjunct1] h10 h9 n9
  have r10: "conversationHistory
     (fst (onToolUse sample_builtins (scripted [] []) sample_config ''c1'' (Some ''call_1'')
        ''search_shop_catalog'' (JObj []) sample_session)) =
     conversationHistory sample_session @
       [\<lparr>msg_role = ''tool'', msg_content = Some products_text, msg_tool_calls = None,
        msg_tool_call_id = Some ''call_1''\<rparr>]"
    by blast
  from tool_result_content
      [where bi = sample_builtins and sv = careless and s = sample_session and
         toolName = "''get_cart''" and toolArgs = "JObj []" and resp = null_block_response and
         e = TypeError and cfg = sample_config and cid = "''c1''" and toolUseId = "Some ''call_1''",
       THEN conjunct2, THEN conjunct2, THEN conjunct2, THEN conjunct2, THEN conjunct2,
       THEN conjunct2, THEN conjunct2, THEN conjunct2, THEN conjunct2, THEN conjunct2,
       THEN conjunct1] h11 h11' n11
  have r11: "conversationHistory (fst (onToolUse sample_builtins careless sample_config ''c1'' (Some ''call_1'')
        ''get_cart'' (JObj []) sample_session)) =
     conversationHistory sample_session \<and>
   snd (onToolUse sample_builtins careless sample_config ''c1'' (Some ''call_1'')
        ''get_cart'' (JObj []) sample_session) = Some TypeError"
    by blast
  from tool_result_content
      [where bi = sample_builtins and sv = "scripted [] []" and s = sample_session and
         toolName = "''search_shop_catalog''" and toolArgs = "JObj []" and resp = catalog_response and
         items = "?items" and cfg = sample_config and cid = "''c1''" and
         toolUseId = "Some ''call_1''",
       THEN conjunct2, THEN conjunct2, THEN conjunct2, THEN conjunct2, THEN conjunct2,
       THEN conjunct2, THEN conjunct2, THEN conjunct2, THEN conjunct2, THEN conjunct2,
       THEN conjunct2] h10 h9 h12 h12'
  have r12: "conversationHistory
     (fst (onToolUse sample_builtins (scripted [] []) sample_config ''c1'' (Some ''call_1'')
        ''search_shop_catalog'' (JObj []) sample_session)) =
     conversationHistory sample_session @
       [\<lparr>msg_role = ''tool'',
         msg_content =
           Some (newline_joined (map (element_text sample_builtins) (filter text_typed ?items))),
         msg_tool_calls = None, msg_tool_call_id = Some ''call_1''\<rparr>]"
    by blast
  from h1 r1 h2 r2 h4 r4 h6 n6 r6 n7 r7 h9 r9 h10 r10 h11 h11' n11 r11 h12 h12' n12 r12 show ?thesis by blast
qed

text \<open>
  What the filter does drop: an assistant row whose content parses to an array of
  \<open>tool_use\<close> entries. What the loop stores for a completion with tool calls
  and no text never is one, whenever \<open>JSON.parse\<close> gives back what
  \<open>JSON.stringify\<close> wrote.
\<close>

lemma tool_use_only_dropped:
  assumes "sm_role msg = ''assistant''"
    and "JSON_parse bi (sm_content msg) = Some (JArr cs)"
    and "every_type_is ''tool_use'' cs = Inr True"
  shows "\<not> keepMessage bi msg"
  using assms by (simp add: keepMessage_def tool_calls_only_def)

lemma function_calls_not_tool_use:
  "tcs \<noteq> [] \<Longrightarrow> every_type_is ''tool_use'' (map tool_call_json tcs) \<noteq> Inr True"
  by (cases tcs; cases "hd tcs") (auto simp: tool_call_json_def split: option.splits)

lemma persisted_tool_calls_kept:
  assumes "JSON_parse bi (JSON_stringify bi (JArr (map tool_call_json tcs))) =
             Some (JArr (map tool_call_json tcs))"
    and "tcs \<noteq> []"
  shows "stored_content bi (assistant_message [] tcs) =
           Some (JSON_stringify bi (JArr (map tool_call_json tcs))) \<and>
         keepMessage bi \<lparr>sm_role = ''assistant'',
                         sm_content = JSON_stringify bi (JArr (map tool_call_json tcs))\<rparr>"
proof -
  from function_calls_not_tool_use [OF assms(2)]
  have "every_type_is ''tool_use'' (map tool_call_json tcs) = Inr False \<or>
        (\<exists>e. every_type_is ''tool_use'' (map tool_call_json tcs) = Inl e)"
    by (cases "every_type_is ''tool_use'' (map tool_call_json tcs)") auto
  with assms show ?thesis
    by (auto simp: stored_content_def assistant_message_def nonempty_def keepMessage_def
        tool_calls_only_def tool_result_echo_def)
qed

text \<open>
  C7 (the code at the failing input). For a completion with tool calls and no
  text the loop stores the stringified tool-call array, whose entries have type
  \<open>function\<close>; the truncation, which looks for type \<open>tool_use\<close>, keeps that
  row and passes the array on as the assistant's content.
\<close>

theorem persisted_tool_calls_survive_truncation:
  "stored_content sample_builtins (assistant_message [] [Some search_call]) = Some calls_text \<and>
   getTruncatedHistory sample_builtins
     (Inr [Some \<lparr>sm_role = ''user'', sm_content = ''show me red shoes''\<rparr>,
           Some \<lparr>sm_role = ''assistant'', sm_content = calls_text\<rparr>]) =
     [plain_message ''user'' ''show me red shoes'', plain_message ''assistant'' calls_text]"
  by code_simp

end
